theory Spec2Isabelle
  imports Main "HOL-Library.Word"
begin

unbundle bit_operations_syntax

section \<open>Machine types\<close>

type_synonym u8 = "8 word"
type_synonym u16 = "16 word"
type_synonym u32 = "32 word"
type_synonym u64 = "64 word"

text \<open>\<^verbatim>\<open>unsigned long\<close> of the 64-bit kernel; pointers into an extent buffer are
  byte offsets cast to \<^verbatim>\<open>unsigned long\<close>.\<close>

type_synonym ulong = "64 word"

section \<open>Extent buffers\<close>

text \<open>The members of \<^verbatim>\<open>struct apfs_fs_info\<close> that the code reads; the two fields it reads of
  the super block copy (generation, incompat flags) are members of the record.\<close>

record fs_info =
  fs_sectorsize :: u32
  fs_nodesize :: u32
  fs_csum_size :: u32
  fs_super_generation :: u64
  fs_super_incompat_flags :: u64

text \<open>\<^verbatim>\<open>struct extent_buffer\<close>: start address, logical length and the page array.  Each page
  is the list of its bytes; page number \<open>i\<close> of the array stands for
  \<^verbatim>\<open>page_address(eb->pages[i])\<close>.\<close>

record extent_buffer =
  eb_fs_info :: fs_info
  eb_start :: u64
  eb_len :: ulong
  eb_pages :: "u8 list list"

text \<open>\<^verbatim>\<open>struct apfs_map_token\<close>: the buffer it works on, the cached page address
  (\<open>None\<close> is the NULL pointer) and the byte offset of that page in the buffer.\<close>

record apfs_map_token =
  tok_eb :: extent_buffer
  tok_kaddr :: "nat option"
  tok_offset :: ulong

section \<open>Kernel primitives used by struct-funcs.c\<close>

text \<open>The page size is a constant of the kernel build; the model takes \<^verbatim>\<open>PAGE_SHIFT\<close> as the
  parameter \<open>ps\<close> and \<^verbatim>\<open>PAGE_SIZE\<close> is \<^verbatim>\<open>1UL << PAGE_SHIFT\<close>.\<close>

definition PAGE_SIZE :: "nat \<Rightarrow> ulong" where
  "PAGE_SIZE ps = push_bit ps 1"

text \<open>Modelled from the spec: \<^verbatim>\<open>get_eb_page_index\<close> and \<^verbatim>\<open>get_eb_offset_in_page\<close> (their header
  is not among the sources) resolve a byte offset to the pair (page index, in-page offset).\<close>

definition get_eb_page_index :: "nat \<Rightarrow> ulong \<Rightarrow> ulong" where
  "get_eb_page_index ps member_offset = drop_bit ps member_offset"

definition get_eb_offset_in_page :: "nat \<Rightarrow> extent_buffer \<Rightarrow> ulong \<Rightarrow> ulong" where
  "get_eb_offset_in_page ps eb member_offset = member_offset AND (PAGE_SIZE ps - 1)"

definition page_address :: "ulong \<Rightarrow> nat option" where
  "page_address idx = Some (unat idx)"

text \<open>What can go wrong besides a result: a failed \<^verbatim>\<open>ASSERT\<close>, a load or store that leaves
  the page it was aimed at (or aims at a page the buffer does not have), and, in the checker,
  a division by zero.\<close>

datatype fault = AssertFailed | BadAddress | DivideError

text \<open>\<^verbatim>\<open>memcpy\<close> from and to \<open>kaddr + pos\<close>.\<close>

definition read_mem :: "extent_buffer \<Rightarrow> nat option \<Rightarrow> nat \<Rightarrow> nat \<Rightarrow> fault + u8 list" where
  "read_mem eb kaddr pos n =
     (case kaddr of
        None \<Rightarrow> Inl BadAddress
      | Some i \<Rightarrow>
          if i < length (eb_pages eb) \<and> pos + n \<le> length (eb_pages eb ! i)
          then Inr (take n (drop pos (eb_pages eb ! i)))
          else Inl BadAddress)"

definition write_mem ::
  "extent_buffer \<Rightarrow> nat option \<Rightarrow> nat \<Rightarrow> u8 list \<Rightarrow> fault + extent_buffer" where
  "write_mem eb kaddr pos bs =
     (case kaddr of
        None \<Rightarrow> Inl BadAddress
      | Some i \<Rightarrow>
          if i < length (eb_pages eb) \<and> pos + length bs \<le> length (eb_pages eb ! i)
          then Inr (eb\<lparr>eb_pages := (eb_pages eb)
                  [i := take pos (eb_pages eb ! i) @ bs @
                        drop (pos + length bs) (eb_pages eb ! i)]\<rparr>)
          else Inl BadAddress)"

text \<open>\<^verbatim>\<open>get_unaligned_le##bits\<close> and \<^verbatim>\<open>put_unaligned_le##bits\<close> on a run of bytes: little
  endian, least significant byte first.\<close>

fun get_unaligned_le :: "u8 list \<Rightarrow> 'a::len word" where
  "get_unaligned_le [] = 0"
| "get_unaligned_le (b # bs) = ucast b OR push_bit 8 (get_unaligned_le bs)"

fun put_unaligned_le :: "nat \<Rightarrow> 'a::len word \<Rightarrow> u8 list" where
  "put_unaligned_le 0 v = []"
| "put_unaligned_le (Suc n) v = ucast v # put_unaligned_le n (drop_bit 8 v)"

section \<open>struct-funcs.c\<close>

text \<open>\<^verbatim>\<open>check_setget_bounds\<close>.  Its parameter \<^verbatim>\<open>off\<close> is an \<^verbatim>\<open>unsigned\<close>, so the
  \<^verbatim>\<open>unsigned long\<close> the callers pass is cut to 32 bits.  The two warnings are not modelled.\<close>

definition check_setget_bounds :: "extent_buffer \<Rightarrow> ulong \<Rightarrow> ulong \<Rightarrow> nat \<Rightarrow> bool" where
  "check_setget_bounds eb ptr off sz =
     (let member_offset = ptr + ucast (ucast off :: u32)
      in if member_offset > eb_len eb then False
         else if member_offset + of_nat sz > eb_len eb then False
         else True)"

text \<open>The template \<^verbatim>\<open>DEFINE_APFS_SETGET_BITS(bits)\<close>, once for every width: \<open>'a\<close> is the
  number of bits and \<^verbatim>\<open>sizeof(u##bits)\<close> is \<open>LENGTH('a) div 8\<close>.\<close>

definition apfs_get_token ::
  "nat \<Rightarrow> apfs_map_token \<Rightarrow> ulong \<Rightarrow> ulong \<Rightarrow> fault + ('a::len word \<times> apfs_map_token)" where
  "apfs_get_token ps token ptr off =
     (let member_offset = ptr + off;
          idx = get_eb_page_index ps member_offset;
          oip = get_eb_offset_in_page ps (tok_eb token) member_offset;
          sz = LENGTH('a) div 8;
          part = unat (PAGE_SIZE ps - oip)
      in if tok_kaddr token = None then Inl AssertFailed
         else if \<not> check_setget_bounds (tok_eb token) ptr off sz then Inl AssertFailed
         else if tok_offset token \<le> member_offset \<and>
                 member_offset + of_nat sz \<le> tok_offset token + PAGE_SIZE ps
         then (case read_mem (tok_eb token) (tok_kaddr token) (unat oip) sz of
                 Inl f \<Rightarrow> Inl f
               | Inr lebytes \<Rightarrow> Inr (get_unaligned_le lebytes, token))
         else
           let token1 = token\<lparr>tok_kaddr := page_address idx, tok_offset := push_bit ps idx\<rparr>
           in if oip + of_nat sz \<le> PAGE_SIZE ps
              then (case read_mem (tok_eb token1) (tok_kaddr token1) (unat oip) sz of
                      Inl f \<Rightarrow> Inl f
                    | Inr lebytes \<Rightarrow> Inr (get_unaligned_le lebytes, token1))
              else
                (case read_mem (tok_eb token1) (tok_kaddr token1) (unat oip) part of
                   Inl f \<Rightarrow> Inl f
                 | Inr lo \<Rightarrow>
                     let token2 = token1\<lparr>tok_kaddr := page_address (idx + 1),
                                         tok_offset := push_bit ps (idx + 1)\<rparr>
                     in (case read_mem (tok_eb token2) (tok_kaddr token2) 0 (sz - part) of
                           Inl f \<Rightarrow> Inl f
                         | Inr hi \<Rightarrow> Inr (get_unaligned_le (lo @ hi), token2))))"

definition apfs_get :: "nat \<Rightarrow> extent_buffer \<Rightarrow> ulong \<Rightarrow> ulong \<Rightarrow> fault + 'a::len word" where
  "apfs_get ps eb ptr off =
     (let member_offset = ptr + off;
          oip = get_eb_offset_in_page ps eb member_offset;
          idx = get_eb_page_index ps member_offset;
          kaddr = page_address idx;
          sz = LENGTH('a) div 8;
          part = unat (PAGE_SIZE ps - oip)
      in if \<not> check_setget_bounds eb ptr off sz then Inl AssertFailed
         else if oip + of_nat sz \<le> PAGE_SIZE ps
         then (case read_mem eb kaddr (unat oip) sz of
                 Inl f \<Rightarrow> Inl f
               | Inr lebytes \<Rightarrow> Inr (get_unaligned_le lebytes))
         else
           (case read_mem eb kaddr (unat oip) part of
              Inl f \<Rightarrow> Inl f
            | Inr lo \<Rightarrow>
                (case read_mem eb (page_address (idx + 1)) 0 (sz - part) of
                   Inl f \<Rightarrow> Inl f
                 | Inr hi \<Rightarrow> Inr (get_unaligned_le (lo @ hi)))))"

definition apfs_set_token ::
  "nat \<Rightarrow> apfs_map_token \<Rightarrow> ulong \<Rightarrow> ulong \<Rightarrow> 'a::len word \<Rightarrow> fault + apfs_map_token" where
  "apfs_set_token ps token ptr off val =
     (let member_offset = ptr + off;
          idx = get_eb_page_index ps member_offset;
          oip = get_eb_offset_in_page ps (tok_eb token) member_offset;
          sz = LENGTH('a) div 8;
          part = unat (PAGE_SIZE ps - oip);
          lebytes = put_unaligned_le sz val
      in if tok_kaddr token = None then Inl AssertFailed
         else if \<not> check_setget_bounds (tok_eb token) ptr off sz then Inl AssertFailed
         else if tok_offset token \<le> member_offset \<and>
                 member_offset + of_nat sz \<le> tok_offset token + PAGE_SIZE ps
         then (case write_mem (tok_eb token) (tok_kaddr token) (unat oip) lebytes of
                 Inl f \<Rightarrow> Inl f
               | Inr eb' \<Rightarrow> Inr (token\<lparr>tok_eb := eb'\<rparr>))
         else
           let token1 = token\<lparr>tok_kaddr := page_address idx, tok_offset := push_bit ps idx\<rparr>
           in if oip + of_nat sz \<le> PAGE_SIZE ps
              then (case write_mem (tok_eb token1) (tok_kaddr token1) (unat oip) lebytes of
                      Inl f \<Rightarrow> Inl f
                    | Inr eb' \<Rightarrow> Inr (token1\<lparr>tok_eb := eb'\<rparr>))
              else
                (case write_mem (tok_eb token1) (tok_kaddr token1) (unat oip)
                        (take part lebytes) of
                   Inl f \<Rightarrow> Inl f
                 | Inr eb' \<Rightarrow>
                     let token2 = token1\<lparr>tok_eb := eb', tok_kaddr := page_address (idx + 1),
                                         tok_offset := push_bit ps (idx + 1)\<rparr>
                     in (case write_mem (tok_eb token2) (tok_kaddr token2) 0
                                (take (sz - part) (drop part lebytes)) of
                           Inl f \<Rightarrow> Inl f
                         | Inr eb'' \<Rightarrow> Inr (token2\<lparr>tok_eb := eb''\<rparr>))))"

definition apfs_set ::
  "nat \<Rightarrow> extent_buffer \<Rightarrow> ulong \<Rightarrow> ulong \<Rightarrow> 'a::len word \<Rightarrow> fault + extent_buffer" where
  "apfs_set ps eb ptr off val =
     (let member_offset = ptr + off;
          oip = get_eb_offset_in_page ps eb member_offset;
          idx = get_eb_page_index ps member_offset;
          kaddr = page_address idx;
          sz = LENGTH('a) div 8;
          part = unat (PAGE_SIZE ps - oip);
          lebytes = put_unaligned_le sz val
      in if \<not> check_setget_bounds eb ptr off sz then Inl AssertFailed
         else if oip + of_nat sz \<le> PAGE_SIZE ps
         then write_mem eb kaddr (unat oip) lebytes
         else
           (case write_mem eb kaddr (unat oip) (take part lebytes) of
              Inl f \<Rightarrow> Inl f
            | Inr eb' \<Rightarrow>
                write_mem eb' (page_address (idx + 1)) 0
                  (take (sz - part) (drop part lebytes))))"

text \<open>\<^verbatim>\<open>DEFINE_APFS_SETGET_BITS(8)\<close>, \<^verbatim>\<open>(16)\<close>, \<^verbatim>\<open>(32)\<close> and \<^verbatim>\<open>(64)\<close>.\<close>

definition apfs_get_token_8 ::
  "nat \<Rightarrow> apfs_map_token \<Rightarrow> ulong \<Rightarrow> ulong \<Rightarrow> fault + (u8 \<times> apfs_map_token)" where
  "apfs_get_token_8 = apfs_get_token"

definition apfs_get_8 :: "nat \<Rightarrow> extent_buffer \<Rightarrow> ulong \<Rightarrow> ulong \<Rightarrow> fault + u8" where
  "apfs_get_8 = apfs_get"

definition apfs_set_token_8 ::
  "nat \<Rightarrow> apfs_map_token \<Rightarrow> ulong \<Rightarrow> ulong \<Rightarrow> u8 \<Rightarrow> fault + apfs_map_token" where
  "apfs_set_token_8 = apfs_set_token"

definition apfs_set_8 ::
  "nat \<Rightarrow> extent_buffer \<Rightarrow> ulong \<Rightarrow> ulong \<Rightarrow> u8 \<Rightarrow> fault + extent_buffer" where
  "apfs_set_8 = apfs_set"

definition apfs_get_token_16 ::
  "nat \<Rightarrow> apfs_map_token \<Rightarrow> ulong \<Rightarrow> ulong \<Rightarrow> fault + (u16 \<times> apfs_map_token)" where
  "apfs_get_token_16 = apfs_get_token"

definition apfs_get_16 :: "nat \<Rightarrow> extent_buffer \<Rightarrow> ulong \<Rightarrow> ulong \<Rightarrow> fault + u16" where
  "apfs_get_16 = apfs_get"

definition apfs_set_token_16 ::
  "nat \<Rightarrow> apfs_map_token \<Rightarrow> ulong \<Rightarrow> ulong \<Rightarrow> u16 \<Rightarrow> fault + apfs_map_token" where
  "apfs_set_token_16 = apfs_set_token"

definition apfs_set_16 ::
  "nat \<Rightarrow> extent_buffer \<Rightarrow> ulong \<Rightarrow> ulong \<Rightarrow> u16 \<Rightarrow> fault + extent_buffer" where
  "apfs_set_16 = apfs_set"

definition apfs_get_token_32 ::
  "nat \<Rightarrow> apfs_map_token \<Rightarrow> ulong \<Rightarrow> ulong \<Rightarrow> fault + (u32 \<times> apfs_map_token)" where
  "apfs_get_token_32 = apfs_get_token"

definition apfs_get_32 :: "nat \<Rightarrow> extent_buffer \<Rightarrow> ulong \<Rightarrow> ulong \<Rightarrow> fault + u32" where
  "apfs_get_32 = apfs_get"

definition apfs_set_token_32 ::
  "nat \<Rightarrow> apfs_map_token \<Rightarrow> ulong \<Rightarrow> ulong \<Rightarrow> u32 \<Rightarrow> fault + apfs_map_token" where
  "apfs_set_token_32 = apfs_set_token"

definition apfs_set_32 ::
  "nat \<Rightarrow> extent_buffer \<Rightarrow> ulong \<Rightarrow> ulong \<Rightarrow> u32 \<Rightarrow> fault + extent_buffer" where
  "apfs_set_32 = apfs_set"

definition apfs_get_token_64 ::
  "nat \<Rightarrow> apfs_map_token \<Rightarrow> ulong \<Rightarrow> ulong \<Rightarrow> fault + (u64 \<times> apfs_map_token)" where
  "apfs_get_token_64 = apfs_get_token"

definition apfs_get_64 :: "nat \<Rightarrow> extent_buffer \<Rightarrow> ulong \<Rightarrow> ulong \<Rightarrow> fault + u64" where
  "apfs_get_64 = apfs_get"

definition apfs_set_token_64 ::
  "nat \<Rightarrow> apfs_map_token \<Rightarrow> ulong \<Rightarrow> ulong \<Rightarrow> u64 \<Rightarrow> fault + apfs_map_token" where
  "apfs_set_token_64 = apfs_set_token"

definition apfs_set_64 ::
  "nat \<Rightarrow> extent_buffer \<Rightarrow> ulong \<Rightarrow> ulong \<Rightarrow> u64 \<Rightarrow> fault + extent_buffer" where
  "apfs_set_64 = apfs_set"

section \<open>Vocabulary of the accessor properties\<close>

text \<open>The page sizes the code is written for: a page holds the widest value (8 bytes) and
  \<^verbatim>\<open>PAGE_SIZE\<close> and \<^verbatim>\<open>part\<close> fit the \<^verbatim>\<open>int\<close> they are kept in.\<close>

definition page_shift_ok :: "nat \<Rightarrow> bool" where
  "page_shift_ok ps = (3 \<le> ps \<and> ps \<le> 30)"

text \<open>The precondition of an access of \<open>sz\<close> bytes: the byte offset \<^verbatim>\<open>ptr + off\<close> plus the
  size is within the logical length of the block.\<close>

definition valid_access :: "extent_buffer \<Rightarrow> ulong \<Rightarrow> ulong \<Rightarrow> nat \<Rightarrow> bool" where
  "valid_access eb ptr off sz = (unat ptr + unat off + sz \<le> unat (eb_len eb))"

text \<open>The data invariant of an extent buffer: every page has \<^verbatim>\<open>PAGE_SIZE\<close> bytes and the page
  array covers the logical length.\<close>

definition eb_wf :: "nat \<Rightarrow> extent_buffer \<Rightarrow> bool" where
  "eb_wf ps eb = ((\<forall>p \<in> set (eb_pages eb). length p = 2 ^ ps) \<and>
                  unat (eb_len eb) \<le> length (eb_pages eb) * 2 ^ ps)"

text \<open>The block as the linear range of bytes the API presents: byte \<open>j\<close> of the block, and the
  \<open>n\<close> bytes from offset \<open>m\<close> on.\<close>

definition eb_byte :: "nat \<Rightarrow> extent_buffer \<Rightarrow> nat \<Rightarrow> u8" where
  "eb_byte ps eb j = eb_pages eb ! (j div 2 ^ ps) ! (j mod 2 ^ ps)"

definition eb_bytes :: "nat \<Rightarrow> extent_buffer \<Rightarrow> nat \<Rightarrow> nat \<Rightarrow> u8 list" where
  "eb_bytes ps eb m n = map (eb_byte ps eb) [m ..< m + n]"

text \<open>\<open>eb'\<close> is \<open>eb\<close> with the bytes \<open>bs\<close> written at offset \<open>m\<close>: no other byte, no page
  other than the page of \<open>m\<close> and the one after it, and no other member differs.\<close>

definition stored :: "nat \<Rightarrow> extent_buffer \<Rightarrow> extent_buffer \<Rightarrow> nat \<Rightarrow> u8 list \<Rightarrow> bool" where
  "stored ps eb eb' m bs =
     (eb_fs_info eb' = eb_fs_info eb \<and> eb_start eb' = eb_start eb \<and> eb_len eb' = eb_len eb \<and>
      length (eb_pages eb') = length (eb_pages eb) \<and>
      (\<forall>k < length (eb_pages eb). length (eb_pages eb' ! k) = length (eb_pages eb ! k)) \<and>
      (\<forall>k < length (eb_pages eb). k \<noteq> m div 2 ^ ps \<and> k \<noteq> m div 2 ^ ps + 1 \<longrightarrow>
           eb_pages eb' ! k = eb_pages eb ! k) \<and>
      (\<forall>j < length (eb_pages eb) * 2 ^ ps.
           eb_byte ps eb' j =
             (if m \<le> j \<and> j < m + length bs then bs ! (j - m) else eb_byte ps eb j)))"

text \<open>The invariant of an access token (spec, data model: it caches a resolved page address and
  the absolute byte offset of that page): the cached address is the address of the page at the
  cached offset, and the offset is a page boundary.\<close>

definition token_valid :: "nat \<Rightarrow> apfs_map_token \<Rightarrow> bool" where
  "token_valid ps token =
     (tok_kaddr token = page_address (get_eb_page_index ps (tok_offset token)) \<and>
      tok_offset token AND (PAGE_SIZE ps - 1) = 0)"

text \<open>The token a token-carrying access leaves behind when the cached page does not cover the
  request: the page touched last.\<close>

definition token_after :: "nat \<Rightarrow> nat \<Rightarrow> apfs_map_token \<Rightarrow> ulong \<Rightarrow> apfs_map_token" where
  "token_after ps sz token member_offset =
     (let idx = get_eb_page_index ps member_offset;
          oip = get_eb_offset_in_page ps (tok_eb token) member_offset
      in if oip + of_nat sz \<le> PAGE_SIZE ps
         then token\<lparr>tok_kaddr := page_address idx, tok_offset := push_bit ps idx\<rparr>
         else token\<lparr>tok_kaddr := page_address (idx + 1), tok_offset := push_bit ps (idx + 1)\<rparr>)"

text \<open>Sequences of accesses, to compare the token-carrying functions with the plain ones: an
  access names the function, its arguments \<^verbatim>\<open>ptr\<close> and \<^verbatim>\<open>off\<close> and the value to store; its outcome
  is the value read.\<close>

datatype access =
    Get8 ulong ulong | Get16 ulong ulong | Get32 ulong ulong | Get64 ulong ulong
  | Set8 ulong ulong u8 | Set16 ulong ulong u16 | Set32 ulong ulong u32 | Set64 ulong ulong u64

datatype outcome = Got8 u8 | Got16 u16 | Got32 u32 | Got64 u64 | Stored

fun access_ptr :: "access \<Rightarrow> ulong" where
  "access_ptr (Get8 ptr off) = ptr"
| "access_ptr (Get16 ptr off) = ptr"
| "access_ptr (Get32 ptr off) = ptr"
| "access_ptr (Get64 ptr off) = ptr"
| "access_ptr (Set8 ptr off v) = ptr"
| "access_ptr (Set16 ptr off v) = ptr"
| "access_ptr (Set32 ptr off v) = ptr"
| "access_ptr (Set64 ptr off v) = ptr"

fun access_off :: "access \<Rightarrow> ulong" where
  "access_off (Get8 ptr off) = off"
| "access_off (Get16 ptr off) = off"
| "access_off (Get32 ptr off) = off"
| "access_off (Get64 ptr off) = off"
| "access_off (Set8 ptr off v) = off"
| "access_off (Set16 ptr off v) = off"
| "access_off (Set32 ptr off v) = off"
| "access_off (Set64 ptr off v) = off"

fun access_size :: "access \<Rightarrow> nat" where
  "access_size (Get8 ptr off) = 1"
| "access_size (Get16 ptr off) = 2"
| "access_size (Get32 ptr off) = 4"
| "access_size (Get64 ptr off) = 8"
| "access_size (Set8 ptr off v) = 1"
| "access_size (Set16 ptr off v) = 2"
| "access_size (Set32 ptr off v) = 4"
| "access_size (Set64 ptr off v) = 8"

text \<open>Running one access and a list of accesses, with the plain functions on a buffer and with
  the token-carrying functions on a token.  The first fault ends the run.\<close>

definition got :: "('a \<Rightarrow> outcome) \<Rightarrow> fault + 'a \<Rightarrow> 's \<Rightarrow> fault + (outcome \<times> 's)" where
  "got tag r s = (case r of Inl f \<Rightarrow> Inl f | Inr v \<Rightarrow> Inr (tag v, s))"

definition got_token :: "('a \<Rightarrow> outcome) \<Rightarrow> fault + ('a \<times> 's) \<Rightarrow> fault + (outcome \<times> 's)" where
  "got_token tag r = (case r of Inl f \<Rightarrow> Inl f | Inr (v, s) \<Rightarrow> Inr (tag v, s))"

definition put :: "fault + 's \<Rightarrow> fault + (outcome \<times> 's)" where
  "put r = (case r of Inl f \<Rightarrow> Inl f | Inr s \<Rightarrow> Inr (Stored, s))"

fun plain_access :: "nat \<Rightarrow> extent_buffer \<Rightarrow> access \<Rightarrow> fault + (outcome \<times> extent_buffer)" where
  "plain_access ps eb (Get8 ptr off) = got Got8 (apfs_get_8 ps eb ptr off) eb"
| "plain_access ps eb (Get16 ptr off) = got Got16 (apfs_get_16 ps eb ptr off) eb"
| "plain_access ps eb (Get32 ptr off) = got Got32 (apfs_get_32 ps eb ptr off) eb"
| "plain_access ps eb (Get64 ptr off) = got Got64 (apfs_get_64 ps eb ptr off) eb"
| "plain_access ps eb (Set8 ptr off v) = put (apfs_set_8 ps eb ptr off v)"
| "plain_access ps eb (Set16 ptr off v) = put (apfs_set_16 ps eb ptr off v)"
| "plain_access ps eb (Set32 ptr off v) = put (apfs_set_32 ps eb ptr off v)"
| "plain_access ps eb (Set64 ptr off v) = put (apfs_set_64 ps eb ptr off v)"

fun token_access :: "nat \<Rightarrow> apfs_map_token \<Rightarrow> access \<Rightarrow> fault + (outcome \<times> apfs_map_token)" where
  "token_access ps token (Get8 ptr off) = got_token Got8 (apfs_get_token_8 ps token ptr off)"
| "token_access ps token (Get16 ptr off) = got_token Got16 (apfs_get_token_16 ps token ptr off)"
| "token_access ps token (Get32 ptr off) = got_token Got32 (apfs_get_token_32 ps token ptr off)"
| "token_access ps token (Get64 ptr off) = got_token Got64 (apfs_get_token_64 ps token ptr off)"
| "token_access ps token (Set8 ptr off v) = put (apfs_set_token_8 ps token ptr off v)"
| "token_access ps token (Set16 ptr off v) = put (apfs_set_token_16 ps token ptr off v)"
| "token_access ps token (Set32 ptr off v) = put (apfs_set_token_32 ps token ptr off v)"
| "token_access ps token (Set64 ptr off v) = put (apfs_set_token_64 ps token ptr off v)"

fun plain_accesses ::
  "nat \<Rightarrow> extent_buffer \<Rightarrow> access list \<Rightarrow> fault + (outcome list \<times> extent_buffer)" where
  "plain_accesses ps eb [] = Inr ([], eb)"
| "plain_accesses ps eb (a # as) =
     (case plain_access ps eb a of
        Inl f \<Rightarrow> Inl f
      | Inr (r, eb') \<Rightarrow>
          (case plain_accesses ps eb' as of
             Inl f \<Rightarrow> Inl f
           | Inr (rs, eb'') \<Rightarrow> Inr (r # rs, eb'')))"

fun token_accesses ::
  "nat \<Rightarrow> apfs_map_token \<Rightarrow> access list \<Rightarrow> fault + (outcome list \<times> apfs_map_token)" where
  "token_accesses ps token [] = Inr ([], token)"
| "token_accesses ps token (a # as) =
     (case token_access ps token a of
        Inl f \<Rightarrow> Inl f
      | Inr (r, token') \<Rightarrow>
          (case token_accesses ps token' as of
             Inl f \<Rightarrow> Inl f
           | Inr (rs, token'') \<Rightarrow> Inr (r # rs, token'')))"

text \<open>An access at a valid offset.\<close>

definition access_ok :: "extent_buffer \<Rightarrow> access \<Rightarrow> bool" where
  "access_ok eb a = valid_access eb (access_ptr a) (access_off a) (access_size a)"

text \<open>What an access may change: only the bytes of the range it is given, on the page of
  \<open>m\<close> and the page after it.\<close>

definition touched_only :: "nat \<Rightarrow> extent_buffer \<Rightarrow> extent_buffer \<Rightarrow> nat \<Rightarrow> nat \<Rightarrow> bool" where
  "touched_only ps eb eb' m n =
     (eb_fs_info eb' = eb_fs_info eb \<and> eb_start eb' = eb_start eb \<and> eb_len eb' = eb_len eb \<and>
      length (eb_pages eb') = length (eb_pages eb) \<and>
      (\<forall>k < length (eb_pages eb). length (eb_pages eb' ! k) = length (eb_pages eb ! k)) \<and>
      (\<forall>k < length (eb_pages eb). k \<noteq> m div 2 ^ ps \<and> k \<noteq> m div 2 ^ ps + 1 \<longrightarrow>
           eb_pages eb' ! k = eb_pages eb ! k) \<and>
      (\<forall>j < length (eb_pages eb) * 2 ^ ps.
           \<not> (m \<le> j \<and> j < m + n) \<longrightarrow> eb_byte ps eb' j = eb_byte ps eb j))"

text \<open>What an access returns, as a function of the bytes of its range alone.\<close>

fun outcome_of :: "access \<Rightarrow> u8 list \<Rightarrow> outcome" where
  "outcome_of (Get8 ptr off) bs = Got8 (get_unaligned_le bs)"
| "outcome_of (Get16 ptr off) bs = Got16 (get_unaligned_le bs)"
| "outcome_of (Get32 ptr off) bs = Got32 (get_unaligned_le bs)"
| "outcome_of (Get64 ptr off) bs = Got64 (get_unaligned_le bs)"
| "outcome_of (Set8 ptr off v) bs = Stored"
| "outcome_of (Set16 ptr off v) bs = Stored"
| "outcome_of (Set32 ptr off v) bs = Stored"
| "outcome_of (Set64 ptr off v) bs = Stored"

text \<open>A small block for concrete runs: two pages of eight bytes (\<^verbatim>\<open>PAGE_SHIFT\<close> 3), sixteen
  bytes long, and a token on its first page.\<close>

definition two_page_eb :: extent_buffer where
  "two_page_eb =
     \<lparr>eb_fs_info = \<lparr>fs_sectorsize = 8, fs_nodesize = 16, fs_csum_size = 4,
                    fs_super_generation = 1, fs_super_incompat_flags = 0\<rparr>,
      eb_start = 0, eb_len = 16,
      eb_pages = [[0, 0, 0, 0, 0, 0, 0, 0], [0, 0, 0, 0, 0, 0, 0, 0]]\<rparr>"

definition first_page_token :: apfs_map_token where
  "first_page_token = \<lparr>tok_eb = two_page_eb, tok_kaddr = Some 0, tok_offset = 0\<rparr>"

section \<open>The interface of ctree.h\<close>

text \<open>\<^verbatim>\<open>struct apfs_key\<close>, the key in CPU byte order.\<close>

record key =
  key_objectid :: u64
  key_type :: u8
  key_offset :: u64

text \<open>
  tree-checker.c reads a block through the constants, the sizes and the field accessors of
  ctree.h and of the other headers it includes, none of which is among the sources.  They are
  parameters of the model: one value \<open>K\<close> of the record type \<open>ctree_h\<close> below holds them, every
  function of tree-checker.c takes it, and what is proved holds for every \<open>K\<close>.  A pointer into
  a block (\<^verbatim>\<open>apfs_item_ptr\<close> and what is computed from it) is an \<^verbatim>\<open>unsigned long\<close>.

  The first group: the key type tags.
\<close>

record ct_key_types =
  APFS_INODE_ITEM_KEY :: u8
  APFS_INODE_REF_KEY :: u8
  APFS_XATTR_ITEM_KEY :: u8
  APFS_DIR_ITEM_KEY :: u8
  APFS_DIR_INDEX_KEY :: u8
  APFS_EXTENT_DATA_KEY :: u8
  APFS_EXTENT_CSUM_KEY :: u8
  APFS_ROOT_ITEM_KEY :: u8
  APFS_EXTENT_ITEM_KEY :: u8
  APFS_METADATA_ITEM_KEY :: u8
  APFS_TREE_BLOCK_REF_KEY :: u8
  APFS_EXTENT_DATA_REF_KEY :: u8
  APFS_SHARED_BLOCK_REF_KEY :: u8
  APFS_SHARED_DATA_REF_KEY :: u8
  APFS_BLOCK_GROUP_ITEM_KEY :: u8
  APFS_DEV_ITEM_KEY :: u8
  APFS_CHUNK_ITEM_KEY :: u8

text \<open>Object ids, and \<^verbatim>\<open>is_fstree\<close>.\<close>

record ct_objectids = ct_key_types +
  APFS_ROOT_TREE_OBJECTID :: u64
  APFS_EXTENT_TREE_OBJECTID :: u64
  APFS_CHUNK_TREE_OBJECTID :: u64
  APFS_DEV_TREE_OBJECTID :: u64
  APFS_FS_TREE_OBJECTID :: u64
  APFS_ROOT_TREE_DIR_OBJECTID :: u64
  APFS_DATA_RELOC_TREE_OBJECTID :: u64
  APFS_TREE_RELOC_OBJECTID :: u64
  APFS_EXTENT_CSUM_OBJECTID :: u64
  APFS_FREE_INO_OBJECTID :: u64
  APFS_FIRST_FREE_OBJECTID :: u64
  APFS_LAST_FREE_OBJECTID :: u64
  APFS_FIRST_CHUNK_TREE_OBJECTID :: u64
  APFS_DEV_ITEMS_OBJECTID :: u64
  APFS_SUPER_INFO_OFFSET :: u64
  is_fstree :: "u64 \<Rightarrow> bool"

text \<open>Flag bits and masks; \<^verbatim>\<open>apfs_fs_incompat(fs_info, SKINNY_METADATA)\<close>; the RAID table
  \<^verbatim>\<open>apfs_raid_array\<close> (the two members read) and its index function.\<close>

record ct_flags = ct_objectids +
  APFS_BLOCK_GROUP_DATA :: u64
  APFS_BLOCK_GROUP_SYSTEM :: u64
  APFS_BLOCK_GROUP_METADATA :: u64
  APFS_BLOCK_GROUP_RAID1 :: u64
  APFS_BLOCK_GROUP_DUP :: u64
  APFS_BLOCK_GROUP_RAID10 :: u64
  APFS_BLOCK_GROUP_RAID5 :: u64
  APFS_BLOCK_GROUP_RAID6 :: u64
  APFS_BLOCK_GROUP_TYPE_MASK :: u64
  APFS_BLOCK_GROUP_PROFILE_MASK :: u64
  APFS_FEATURE_INCOMPAT_MIXED_GROUPS :: u64
  apfs_fs_incompat_SKINNY_METADATA :: "fs_info \<Rightarrow> bool"
  APFS_EXTENT_FLAG_DATA :: u64
  APFS_EXTENT_FLAG_TREE_BLOCK :: u64
  APFS_BLOCK_FLAG_FULL_BACKREF :: u64
  APFS_ROOT_SUBVOL_RDONLY :: u64
  APFS_ROOT_SUBVOL_DEAD :: u64
  APFS_INODE_FLAG_MASK :: u64
  APFS_HEADER_FLAG_RELOC :: u64
  APFS_STRIPE_LEN :: u64
  apfs_bg_flags_to_raid_index :: "u64 \<Rightarrow> int"
  raid_ncopies :: "int \<Rightarrow> int"
  raid_nparity :: "int \<Rightarrow> int"

text \<open>Limits, enumeration bounds and the sizes of the on-disk structures (\<^verbatim>\<open>sizeof\<close>,
  \<^verbatim>\<open>offsetof\<close> and the size functions).\<close>

record ct_sizes = ct_flags +
  APFS_MAX_LEVEL :: int
  APFS_NR_FILE_EXTENT_TYPES :: u8
  APFS_NR_COMPRESS_TYPES :: u8
  APFS_FILE_EXTENT_INLINE :: u8
  APFS_COMPRESS_NONE :: u8
  APFS_FT_MAX :: u8
  APFS_FT_XATTR :: u8
  XATTR_NAME_MAX :: u32
  APFS_NAME_LEN :: u32
  APFS_MAX_XATTR_SIZE :: "fs_info \<Rightarrow> u32"
  APFS_LEAF_DATA_SIZE :: "fs_info \<Rightarrow> u32"
  APFS_FILE_EXTENT_INLINE_DATA_START :: ulong
  sizeof_file_extent_item :: ulong
  sizeof_dir_item :: ulong
  sizeof_block_group_item :: ulong
  sizeof_chunk :: ulong
  apfs_chunk_item_size :: "int \<Rightarrow> ulong"
  sizeof_inode_ref :: ulong
  sizeof_root_item :: ulong
  apfs_legacy_root_item_size :: u32
  sizeof_extent_item :: ulong
  sizeof_tree_block_info :: ulong
  sizeof_extent_inline_ref :: ulong
  offsetof_extent_inline_ref_offset :: ulong
  apfs_extent_inline_ref_size :: "u8 \<Rightarrow> u32"
  sizeof_shared_data_ref :: ulong
  sizeof_extent_data_ref :: ulong

text \<open>The accessors of the block header, of the item table of a leaf and of the pointer table
  of a node, and the key comparison.  A slot is a C \<^verbatim>\<open>int\<close>.\<close>

record ct_header = ct_sizes +
  apfs_header_level :: "extent_buffer \<Rightarrow> u8"
  apfs_header_nritems :: "extent_buffer \<Rightarrow> u32"
  apfs_header_owner :: "extent_buffer \<Rightarrow> u64"
  apfs_header_bytenr :: "extent_buffer \<Rightarrow> u64"
  apfs_header_flag :: "extent_buffer \<Rightarrow> u64 \<Rightarrow> bool"
  apfs_item_key_to_cpu :: "extent_buffer \<Rightarrow> int \<Rightarrow> key"
  apfs_item_size_nr :: "extent_buffer \<Rightarrow> int \<Rightarrow> u32"
  apfs_item_offset_nr :: "extent_buffer \<Rightarrow> int \<Rightarrow> u32"
  apfs_item_end_nr :: "extent_buffer \<Rightarrow> int \<Rightarrow> u32"
  apfs_item_ptr :: "extent_buffer \<Rightarrow> int \<Rightarrow> ulong"
  apfs_item_ptr_offset :: "extent_buffer \<Rightarrow> int \<Rightarrow> ulong"
  apfs_node_blockptr :: "extent_buffer \<Rightarrow> int \<Rightarrow> u64"
  apfs_node_key_to_cpu :: "extent_buffer \<Rightarrow> int \<Rightarrow> key"
  apfs_comp_cpu_keys :: "extent_buffer \<Rightarrow> key \<Rightarrow> key \<Rightarrow> int"

text \<open>The members of a file extent item, at the pointer given.\<close>

record ct_file_extent = ct_header +
  apfs_file_extent_type :: "extent_buffer \<Rightarrow> ulong \<Rightarrow> u8"
  apfs_file_extent_compression :: "extent_buffer \<Rightarrow> ulong \<Rightarrow> u8"
  apfs_file_extent_encryption :: "extent_buffer \<Rightarrow> ulong \<Rightarrow> u8"
  apfs_file_extent_ram_bytes :: "extent_buffer \<Rightarrow> ulong \<Rightarrow> u64"
  apfs_file_extent_disk_bytenr :: "extent_buffer \<Rightarrow> ulong \<Rightarrow> u64"
  apfs_file_extent_disk_num_bytes :: "extent_buffer \<Rightarrow> ulong \<Rightarrow> u64"
  apfs_file_extent_offset :: "extent_buffer \<Rightarrow> ulong \<Rightarrow> u64"
  apfs_file_extent_num_bytes :: "extent_buffer \<Rightarrow> ulong \<Rightarrow> u64"

text \<open>Directory items and inode references.  \<open>dir_name_hash K leaf p n\<close> stands for
  \<^verbatim>\<open>read_extent_buffer\<close> of the \<open>n\<close> bytes of the name at \<open>p\<close> followed by \<^verbatim>\<open>apfs_name_hash\<close>
  with the case sensitivity of the super block.\<close>

record ct_dir = ct_file_extent +
  apfs_dir_item_key_to_cpu :: "extent_buffer \<Rightarrow> ulong \<Rightarrow> key"
  apfs_dir_type :: "extent_buffer \<Rightarrow> ulong \<Rightarrow> u8"
  apfs_dir_name_len :: "extent_buffer \<Rightarrow> ulong \<Rightarrow> u16"
  apfs_dir_data_len :: "extent_buffer \<Rightarrow> ulong \<Rightarrow> u16"
  dir_name_hash :: "extent_buffer \<Rightarrow> ulong \<Rightarrow> u32 \<Rightarrow> u32"
  apfs_inode_ref_name_len :: "extent_buffer \<Rightarrow> ulong \<Rightarrow> u16"

text \<open>Block group, chunk and device items.  The \<^verbatim>\<open>apfs_stack_block_group_*\<close> accessors are
  applied to the copy \<^verbatim>\<open>read_extent_buffer\<close> makes of the item at the pointer given.\<close>

record ct_alloc = ct_dir +
  apfs_stack_block_group_chunk_objectid :: "extent_buffer \<Rightarrow> ulong \<Rightarrow> u64"
  apfs_stack_block_group_used :: "extent_buffer \<Rightarrow> ulong \<Rightarrow> u64"
  apfs_stack_block_group_flags :: "extent_buffer \<Rightarrow> ulong \<Rightarrow> u64"
  apfs_chunk_length :: "extent_buffer \<Rightarrow> ulong \<Rightarrow> u64"
  apfs_chunk_stripe_len :: "extent_buffer \<Rightarrow> ulong \<Rightarrow> u64"
  apfs_chunk_num_stripes :: "extent_buffer \<Rightarrow> ulong \<Rightarrow> u16"
  apfs_chunk_sub_stripes :: "extent_buffer \<Rightarrow> ulong \<Rightarrow> u16"
  apfs_chunk_type :: "extent_buffer \<Rightarrow> ulong \<Rightarrow> u64"
  apfs_chunk_sector_size :: "extent_buffer \<Rightarrow> ulong \<Rightarrow> u32"
  apfs_device_id :: "extent_buffer \<Rightarrow> ulong \<Rightarrow> u64"
  apfs_device_bytes_used :: "extent_buffer \<Rightarrow> ulong \<Rightarrow> u64"
  apfs_device_total_bytes :: "extent_buffer \<Rightarrow> ulong \<Rightarrow> u64"

text \<open>Inode items and root items.  The root item accessors are applied to the zeroed
  \<^verbatim>\<open>struct apfs_root_item\<close> into which \<^verbatim>\<open>read_extent_buffer\<close> copied the given number of bytes
  from the pointer given.\<close>

record ct_inode_root = ct_alloc +
  apfs_inode_generation :: "extent_buffer \<Rightarrow> ulong \<Rightarrow> u64"
  apfs_inode_transid :: "extent_buffer \<Rightarrow> ulong \<Rightarrow> u64"
  apfs_inode_mode :: "extent_buffer \<Rightarrow> ulong \<Rightarrow> u32"
  apfs_inode_nlink :: "extent_buffer \<Rightarrow> ulong \<Rightarrow> u32"
  apfs_inode_flags :: "extent_buffer \<Rightarrow> ulong \<Rightarrow> u64"
  apfs_root_generation :: "extent_buffer \<Rightarrow> ulong \<Rightarrow> u32 \<Rightarrow> u64"
  apfs_root_generation_v2 :: "extent_buffer \<Rightarrow> ulong \<Rightarrow> u32 \<Rightarrow> u64"
  apfs_root_last_snapshot :: "extent_buffer \<Rightarrow> ulong \<Rightarrow> u32 \<Rightarrow> u64"
  apfs_root_bytenr :: "extent_buffer \<Rightarrow> ulong \<Rightarrow> u32 \<Rightarrow> u64"
  apfs_root_level :: "extent_buffer \<Rightarrow> ulong \<Rightarrow> u32 \<Rightarrow> u8"
  apfs_root_drop_level :: "extent_buffer \<Rightarrow> ulong \<Rightarrow> u32 \<Rightarrow> u8"
  apfs_root_flags :: "extent_buffer \<Rightarrow> ulong \<Rightarrow> u32 \<Rightarrow> u64"

text \<open>Extent items and their inline references.\<close>

record ctree_h = ct_inode_root +
  apfs_extent_flags :: "extent_buffer \<Rightarrow> ulong \<Rightarrow> u64"
  apfs_extent_refs :: "extent_buffer \<Rightarrow> ulong \<Rightarrow> u64"
  apfs_extent_generation :: "extent_buffer \<Rightarrow> ulong \<Rightarrow> u64"
  apfs_tree_block_level :: "extent_buffer \<Rightarrow> ulong \<Rightarrow> u8"
  apfs_extent_inline_ref_type :: "extent_buffer \<Rightarrow> ulong \<Rightarrow> u8"
  apfs_extent_inline_ref_offset :: "extent_buffer \<Rightarrow> ulong \<Rightarrow> u64"
  apfs_extent_data_ref_offset :: "extent_buffer \<Rightarrow> ulong \<Rightarrow> u64"
  apfs_extent_data_ref_count :: "extent_buffer \<Rightarrow> ulong \<Rightarrow> u32"
  apfs_shared_data_ref_count :: "extent_buffer \<Rightarrow> ulong \<Rightarrow> u32"

section \<open>Kernel helpers used by tree-checker.c\<close>

text \<open>\<^verbatim>\<open>IS_ALIGNED(x, a)\<close> and \<^verbatim>\<open>ALIGN(x, a)\<close>, with \<open>a\<close> converted to the type of \<open>x\<close> as the
  macros do; \<^verbatim>\<open>check_add_overflow\<close> (true when the sum wraps); \<^verbatim>\<open>is_power_of_2\<close>;
  \<^verbatim>\<open>hweight64\<close>.\<close>

definition IS_ALIGNED :: "'a::len word \<Rightarrow> 'a word \<Rightarrow> bool" where
  "IS_ALIGNED x a = (x AND (a - 1) = 0)"

definition ALIGN :: "'a::len word \<Rightarrow> 'a word \<Rightarrow> 'a word" where
  "ALIGN x a = (x + (a - 1)) AND NOT (a - 1)"

definition check_add_overflow :: "'a::len word \<Rightarrow> 'a word \<Rightarrow> bool" where
  "check_add_overflow a b = (a + b < a)"

definition is_power_of_2 :: "'a::len word \<Rightarrow> bool" where
  "is_power_of_2 n = (n \<noteq> 0 \<and> n AND (n - 1) = 0)"

definition hweight64 :: "u64 \<Rightarrow> nat" where
  "hweight64 w = length (filter (bit w) [0 ..< 64])"

text \<open>Modelled from the spec: \<^verbatim>\<open>has_single_bit_set\<close> of misc.h (not among the sources), true
  when exactly one bit of its argument is set.\<close>

definition has_single_bit_set :: "u64 \<Rightarrow> bool" where
  "has_single_bit_set n = is_power_of_2 n"

text \<open>The errno the checker returns, and the mode bits of \<^verbatim>\<open>stat.h\<close> (octal 170000,
  140000, 120000, 60000, 40000, 4000, 2000 and 1000).\<close>

definition EUCLEAN :: int where "EUCLEAN = 117"

definition S_IFMT :: u32 where "S_IFMT = 0xF000"
definition S_IFSOCK :: u32 where "S_IFSOCK = 0xC000"
definition S_IFLNK :: u32 where "S_IFLNK = 0xA000"
definition S_IFBLK :: u32 where "S_IFBLK = 0x6000"
definition S_IFDIR :: u32 where "S_IFDIR = 0x4000"
definition S_ISUID :: u32 where "S_ISUID = 0x800"
definition S_ISGID :: u32 where "S_ISGID = 0x400"
definition S_ISVTX :: u32 where "S_ISVTX = 0x200"

definition S_ISLNK :: "u32 \<Rightarrow> bool" where "S_ISLNK m = (m AND S_IFMT = S_IFLNK)"
definition S_ISBLK :: "u32 \<Rightarrow> bool" where "S_ISBLK m = (m AND S_IFMT = S_IFBLK)"
definition S_ISSOCK :: "u32 \<Rightarrow> bool" where "S_ISSOCK m = (m AND S_IFMT = S_IFSOCK)"
definition S_ISDIR :: "u32 \<Rightarrow> bool" where "S_ISDIR m = (m AND S_IFMT = S_IFDIR)"

section \<open>tree-checker.c\<close>

subsection \<open>Results and diagnostics\<close>

text \<open>
  A checker returns an \<^verbatim>\<open>int\<close>, 0 or \<^verbatim>\<open>-EUCLEAN\<close>, and reports a corruption through one
  of the error reporters.  The model returns the pair of the \<^verbatim>\<open>int\<close> and the list of reports
  made: the reporter called, the slot it was given and its format string (with the name the
  macro \<^verbatim>\<open>CHECK_FE_ALIGNED\<close> pastes in filled in; the other arguments are left out).
  \<^verbatim>\<open>chunk_err\<close> is not given a slot, it finds one.
\<close>

datatype reporter =
    generic_err | file_extent_err | dir_item_err | block_group_err | chunk_err
  | dev_item_err | extent_err | apfs_crit

datatype diag = Diag reporter int string

type_synonym ret = "int \<times> diag list"

definition ret_ok :: ret where
  "ret_ok = (0, [])"

definition corrupt :: "diag \<Rightarrow> ret" where
  "corrupt d = (- EUCLEAN, [d])"

text \<open>A function with a \<^verbatim>\<open>while\<close> loop whose stride comes from the block or from ctree.h may
  not return, and one with an \<^verbatim>\<open>ASSERT\<close> or a division may stop: its result is
  \<open>None\<close> when it does not return, \<open>Some (Inl f)\<close> when it stops with the fault \<open>f\<close>, and
  \<open>Some (Inr r)\<close> when it returns \<open>r\<close>.\<close>

type_synonym 'a run = "(fault + 'a) option"

definition returns :: "'a \<Rightarrow> 'a run" where
  "returns r = Some (Inr r)"

subsection \<open>File extent items\<close>

definition file_extent_end :: "ctree_h \<Rightarrow> extent_buffer \<Rightarrow> key \<Rightarrow> ulong \<Rightarrow> u64" where
  "file_extent_end K leaf key extent =
     (if apfs_file_extent_type K leaf extent = APFS_FILE_EXTENT_INLINE K
      then ALIGN (key_offset key + apfs_file_extent_ram_bytes K leaf extent)
             (ucast (fs_sectorsize (eb_fs_info leaf)))
      else key_offset key + apfs_file_extent_num_bytes K leaf extent)"

definition check_prev_ino ::
  "ctree_h \<Rightarrow> extent_buffer \<Rightarrow> key \<Rightarrow> int \<Rightarrow> key \<Rightarrow> fault + (bool \<times> diag list)" where
  "check_prev_ino K leaf key slot prev_key =
     (if slot = 0 then Inr (True, [])
      else if \<not> (key_type key = APFS_XATTR_ITEM_KEY K \<or>
                   key_type key = APFS_INODE_REF_KEY K \<or>
                   key_type key = APFS_DIR_INDEX_KEY K \<or>
                   key_type key = APFS_DIR_ITEM_KEY K \<or>
                   key_type key = APFS_EXTENT_DATA_KEY K) then Inl AssertFailed
      else if \<not> is_fstree K (apfs_header_owner K leaf) then Inr (True, [])
      else if key_objectid key = key_objectid prev_key then Inr (True, [])
      else Inr (False, [Diag dir_item_err slot
                  ''invalid previous key objectid, have %llu expect %llu'']))"

definition check_extent_data_item ::
  "ctree_h \<Rightarrow> extent_buffer \<Rightarrow> key \<Rightarrow> int \<Rightarrow> key \<Rightarrow> fault + ret" where
  "check_extent_data_item K leaf key slot prev_key =
     (let sectorsize = fs_sectorsize (eb_fs_info leaf);
          item_size = apfs_item_size_nr K leaf slot
      in if \<not> IS_ALIGNED (key_offset key) (ucast sectorsize)
         then Inr (corrupt (Diag file_extent_err slot
           ''unaligned file_offset for file extent, have %llu should be aligned to %u''))
         else
           (case check_prev_ino K leaf key slot prev_key of
              Inl f \<Rightarrow> Inl f
            | Inr (False, log) \<Rightarrow> Inr (- EUCLEAN, log)
            | Inr (True, log) \<Rightarrow>
               (let fi = apfs_item_ptr K leaf slot
                in if ucast item_size < APFS_FILE_EXTENT_INLINE_DATA_START K
                   then Inr (corrupt (Diag file_extent_err slot
                     ''invalid item size, have %u expect [%zu, %u)''))
                   else if apfs_file_extent_type K leaf fi \<ge> APFS_NR_FILE_EXTENT_TYPES K
                   then Inr (corrupt (Diag file_extent_err slot
                     ''invalid type for file extent, have %u expect range [0, %u]''))
                   else if apfs_file_extent_compression K leaf fi \<ge> APFS_NR_COMPRESS_TYPES K
                   then Inr (corrupt (Diag file_extent_err slot
                     ''invalid compression for file extent, have %u expect range [0, %u]''))
                   else if apfs_file_extent_encryption K leaf fi \<noteq> 0
                   then Inr (corrupt (Diag file_extent_err slot
                     ''invalid encryption for file extent, have %u expect 0''))
                   else if apfs_file_extent_type K leaf fi = APFS_FILE_EXTENT_INLINE K
                   then
                     (if key_offset key \<noteq> 0
                      then Inr (corrupt (Diag file_extent_err slot
                        ''invalid file_offset for inline file extent, have %llu expect 0''))
                      else if apfs_file_extent_compression K leaf fi \<noteq> APFS_COMPRESS_NONE K
                      then Inr ret_ok
                      else if ucast item_size \<noteq> APFS_FILE_EXTENT_INLINE_DATA_START K +
                                apfs_file_extent_ram_bytes K leaf fi
                      then Inr (corrupt (Diag file_extent_err slot
                        ''invalid ram_bytes for uncompressed inline extent, have %u expect %llu''))
                      else Inr ret_ok)
                   else if ucast item_size \<noteq> sizeof_file_extent_item K
                   then Inr (corrupt (Diag file_extent_err slot
                     ''invalid item size for reg/prealloc file extent, have %u expect %zu''))
                   else if \<not> IS_ALIGNED (apfs_file_extent_ram_bytes K leaf fi) (ucast sectorsize)
                   then Inr (corrupt (Diag file_extent_err slot
                     ''invalid ram_bytes for file extent, have %llu, should be aligned to %u''))
                   else if \<not> IS_ALIGNED (apfs_file_extent_disk_bytenr K leaf fi)
                                (ucast sectorsize)
                   then Inr (corrupt (Diag file_extent_err slot
                     ''invalid disk_bytenr for file extent, have %llu, should be aligned to %u''))
                   else if \<not> IS_ALIGNED (apfs_file_extent_disk_num_bytes K leaf fi)
                                (ucast sectorsize)
                   then Inr (corrupt (Diag file_extent_err slot
                     ''invalid disk_num_bytes for file extent, have %llu, should be aligned to %u''))
                   else if \<not> IS_ALIGNED (apfs_file_extent_offset K leaf fi) (ucast sectorsize)
                   then Inr (corrupt (Diag file_extent_err slot
                     ''invalid offset for file extent, have %llu, should be aligned to %u''))
                   else if \<not> IS_ALIGNED (apfs_file_extent_num_bytes K leaf fi) (ucast sectorsize)
                   then Inr (corrupt (Diag file_extent_err slot
                     ''invalid num_bytes for file extent, have %llu, should be aligned to %u''))
                   else if check_add_overflow (apfs_file_extent_num_bytes K leaf fi)
                             (key_offset key)
                   then Inr (corrupt (Diag file_extent_err slot
                     ''extent end overflow, have file offset %llu extent num bytes %llu''))
                   else if slot > 0 \<and> key_objectid prev_key = key_objectid key \<and>
                           key_type prev_key = APFS_EXTENT_DATA_KEY K
                   then
                     (let prev_fi = apfs_item_ptr K leaf (slot - 1);
                          prev_end = file_extent_end K leaf prev_key prev_fi
                      in if prev_end > key_offset key
                         then Inr (corrupt (Diag file_extent_err (slot - 1)
   ''file extent end range (%llu) goes beyond start offset (%llu) of the next file extent''))
                         else Inr ret_ok)
                   else Inr ret_ok)))"

subsection \<open>Checksum items\<close>

definition check_csum_item ::
  "ctree_h \<Rightarrow> extent_buffer \<Rightarrow> key \<Rightarrow> int \<Rightarrow> key \<Rightarrow> fault + ret" where
  "check_csum_item K leaf key slot prev_key =
     (let sectorsize = fs_sectorsize (eb_fs_info leaf);
          csumsize = fs_csum_size (eb_fs_info leaf)
      in if key_objectid key \<noteq> APFS_EXTENT_CSUM_OBJECTID K
         then Inr (corrupt (Diag generic_err slot
           ''invalid key objectid for csum item, have %llu expect %llu''))
         else if \<not> IS_ALIGNED (key_offset key) (ucast sectorsize)
         then Inr (corrupt (Diag generic_err slot
           ''unaligned key offset for csum item, have %llu should be aligned to %u''))
         else if \<not> IS_ALIGNED (apfs_item_size_nr K leaf slot) csumsize
         then Inr (corrupt (Diag generic_err slot
           ''unaligned item size for csum item, have %u should be aligned to %u''))
         else if slot > 0 \<and> key_type prev_key = APFS_EXTENT_CSUM_KEY K
         then
           (if csumsize = 0 then Inl DivideError
            else
              let prev_item_size = apfs_item_size_nr K leaf (slot - 1);
                  prev_csum_end = (ucast ((prev_item_size div csumsize) * sectorsize) :: u64) +
                                  key_offset prev_key
              in if prev_csum_end > key_offset key
                 then Inr (corrupt (Diag generic_err (slot - 1)
   ''csum end range (%llu) goes beyond the start range (%llu) of the next csum item''))
                 else Inr ret_ok)
         else Inr ret_ok)"

subsection \<open>Key shapes\<close>

text \<open>\<^verbatim>\<open>check_inode_key\<close> returns \<^verbatim>\<open>-EUCLEAN\<close> without a report for a bad location key of an
  xattr item.\<close>

definition check_inode_key :: "ctree_h \<Rightarrow> extent_buffer \<Rightarrow> key \<Rightarrow> int \<Rightarrow> ret" where
  "check_inode_key K leaf key slot =
     (let item_key = apfs_item_key_to_cpu K leaf slot;
          is_inode_item = (key_type item_key = APFS_INODE_ITEM_KEY K)
      in if key_type item_key = APFS_XATTR_ITEM_KEY K
         then (if key_objectid key \<noteq> 0 \<or> key_type key \<noteq> 0 \<or> key_offset key \<noteq> 0
               then (- EUCLEAN, []) else ret_ok)
         else if (key_objectid key < APFS_FIRST_FREE_OBJECTID K \<or>
                  key_objectid key > APFS_LAST_FREE_OBJECTID K) \<and>
                 key_objectid key \<noteq> APFS_ROOT_TREE_DIR_OBJECTID K \<and>
                 key_objectid key \<noteq> APFS_FREE_INO_OBJECTID K
         then (if is_inode_item
               then corrupt (Diag generic_err slot
                 ''invalid key objectid: has %llu expect %llu or [%llu, %llu] or %llu'')
               else corrupt (Diag dir_item_err slot
                 ''invalid location key objectid: has %llu expect %llu or [%llu, %llu] or %llu''))
         else if key_offset key \<noteq> 0
         then (if is_inode_item
               then corrupt (Diag dir_item_err slot ''invalid key offset: has %llu expect 0'')
               else corrupt (Diag dir_item_err slot
                 ''invalid location key offset:has %llu expect 0''))
         else ret_ok)"

definition check_root_key :: "ctree_h \<Rightarrow> extent_buffer \<Rightarrow> key \<Rightarrow> int \<Rightarrow> ret" where
  "check_root_key K leaf key slot =
     (let item_key = apfs_item_key_to_cpu K leaf slot;
          is_root_item = (key_type item_key = APFS_ROOT_ITEM_KEY K)
      in if key_objectid key = 0
         then (if is_root_item
               then corrupt (Diag generic_err slot ''invalid root id 0'')
               else corrupt (Diag dir_item_err slot ''invalid location key root id 0''))
         else if \<not> is_fstree K (key_objectid key) \<and> \<not> is_root_item
         then corrupt (Diag dir_item_err slot
           ''invalid location key objectid, have %llu expect [%llu, %llu]'')
         else if key_objectid key = APFS_TREE_RELOC_OBJECTID K \<and> key_offset key = 0
         then corrupt (Diag generic_err slot ''invalid root id 0 for reloc tree'')
         else ret_ok)"

subsection \<open>Directory items\<close>

text \<open>One turn of the \<^verbatim>\<open>while (cur < item_size)\<close> loop of \<^verbatim>\<open>check_dir_item\<close>: \<open>Inl r\<close> when the
  body returns \<open>r\<close>, \<open>Inr (cur, di)\<close> with the advanced cursor otherwise.  \<^verbatim>\<open>cur\<close> and
  \<^verbatim>\<open>total_size\<close> are \<^verbatim>\<open>u32\<close>; the sums with \<^verbatim>\<open>sizeof(*di)\<close> are \<^verbatim>\<open>size_t\<close>.\<close>

definition check_dir_item_entry ::
  "ctree_h \<Rightarrow> extent_buffer \<Rightarrow> key \<Rightarrow> int \<Rightarrow> u32 \<Rightarrow> u32 \<Rightarrow> ulong \<Rightarrow> ret + (u32 \<times> ulong)" where
  "check_dir_item_entry K leaf key slot item_size cur di =
     (if (ucast cur :: ulong) + sizeof_dir_item K > ucast item_size
      then Inl (corrupt (Diag dir_item_err slot
        ''dir item header crosses item boundary, have %zu boundary %u''))
      else
        let location_key = apfs_dir_item_key_to_cpu K leaf di;
            location =
              (if key_type location_key = APFS_ROOT_ITEM_KEY K
               then check_root_key K leaf location_key slot
               else if key_type location_key = APFS_INODE_ITEM_KEY K \<or>
                       key_type location_key = 0
               then check_inode_key K leaf location_key slot
               else corrupt (Diag dir_item_err slot
                 ''invalid location key type, have %u, expect %u or %u''));
            dir_type = apfs_dir_type K leaf di;
            max_name_len = (if dir_type = APFS_FT_XATTR K then XATTR_NAME_MAX K
                            else APFS_NAME_LEN K);
            name_len = (ucast (apfs_dir_name_len K leaf di) :: u32);
            data_len = (ucast (apfs_dir_data_len K leaf di) :: u32);
            total_size = (ucast (sizeof_dir_item K + ucast name_len + ucast data_len) :: u32)
        in if fst location < 0 then Inl location
           else if dir_type \<ge> APFS_FT_MAX K
           then Inl (corrupt (Diag dir_item_err slot
             ''invalid dir item type, have %u expect [0, %u)''))
           else if key_type key = APFS_XATTR_ITEM_KEY K \<and> dir_type \<noteq> APFS_FT_XATTR K
           then Inl (corrupt (Diag dir_item_err slot
             ''invalid dir item type for XATTR key, have %u expect %u''))
           else if dir_type = APFS_FT_XATTR K \<and> key_type key \<noteq> APFS_XATTR_ITEM_KEY K
           then Inl (corrupt (Diag dir_item_err slot ''xattr dir type found for non-XATTR key''))
           else if name_len > max_name_len
           then Inl (corrupt (Diag dir_item_err slot
             ''dir item name len too long, have %u max %u''))
           else if name_len + data_len > APFS_MAX_XATTR_SIZE K (eb_fs_info leaf)
           then Inl (corrupt (Diag dir_item_err slot
             ''dir item name and data len too long, have %u max %u''))
           else if data_len \<noteq> 0 \<and> dir_type \<noteq> APFS_FT_XATTR K
           then Inl (corrupt (Diag dir_item_err slot
             ''dir item with invalid data len, have %u expect 0''))
           else if cur + total_size > item_size
           then Inl (corrupt (Diag dir_item_err slot
             ''dir item data crosses item boundary, have %u boundary %u''))
           else if (key_type key = APFS_DIR_ITEM_KEY K \<or> key_type key = APFS_XATTR_ITEM_KEY K) \<and>
                   key_offset key \<noteq> ucast (dir_name_hash K leaf (di + sizeof_dir_item K) name_len)
           then Inl (corrupt (Diag dir_item_err slot
             ''name hash mismatch with key, have 0x%016x expect 0x%016llx''))
           else Inr (cur + total_size, di + ucast total_size))"

partial_function (option) check_dir_item_loop ::
  "ctree_h \<Rightarrow> extent_buffer \<Rightarrow> key \<Rightarrow> int \<Rightarrow> u32 \<Rightarrow> u32 \<Rightarrow> ulong \<Rightarrow> ret run" where
  "check_dir_item_loop K leaf key slot item_size cur di =
     (if cur < item_size
      then (case check_dir_item_entry K leaf key slot item_size cur di of
              Inl r \<Rightarrow> Some (Inr r)
            | Inr (cur', di') \<Rightarrow> check_dir_item_loop K leaf key slot item_size cur' di')
      else Some (Inr ret_ok))"

definition check_dir_item ::
  "ctree_h \<Rightarrow> extent_buffer \<Rightarrow> key \<Rightarrow> key \<Rightarrow> int \<Rightarrow> ret run" where
  "check_dir_item K leaf key prev_key slot =
     (case check_prev_ino K leaf key slot prev_key of
        Inl f \<Rightarrow> Some (Inl f)
      | Inr (False, log) \<Rightarrow> Some (Inr (- EUCLEAN, log))
      | Inr (True, log) \<Rightarrow>
          check_dir_item_loop K leaf key slot (apfs_item_size_nr K leaf slot) 0
            (apfs_item_ptr K leaf slot))"

subsection \<open>Block group items\<close>

definition check_block_group_item :: "ctree_h \<Rightarrow> extent_buffer \<Rightarrow> key \<Rightarrow> int \<Rightarrow> ret" where
  "check_block_group_item K leaf key slot =
     (let item_size = apfs_item_size_nr K leaf slot;
          bgi = apfs_item_ptr_offset K leaf slot;
          flags = apfs_stack_block_group_flags K leaf bgi;
          type = flags AND APFS_BLOCK_GROUP_TYPE_MASK K
      in if key_offset key = 0
         then corrupt (Diag block_group_err slot ''invalid block group size 0'')
         else if ucast item_size \<noteq> sizeof_block_group_item K
         then corrupt (Diag block_group_err slot ''invalid item size, have %u expect %zu'')
         else if apfs_stack_block_group_chunk_objectid K leaf bgi \<noteq>
                 APFS_FIRST_CHUNK_TREE_OBJECTID K
         then corrupt (Diag block_group_err slot
           ''invalid block group chunk objectid, have %llu expect %llu'')
         else if apfs_stack_block_group_used K leaf bgi > key_offset key
         then corrupt (Diag block_group_err slot
           ''invalid block group used, have %llu expect [0, %llu)'')
         else if hweight64 (flags AND APFS_BLOCK_GROUP_PROFILE_MASK K) > 1
         then corrupt (Diag block_group_err slot
   ''invalid profile flags, have 0x%llx (%lu bits set) expect no more than 1 bit set'')
         else if type \<noteq> APFS_BLOCK_GROUP_DATA K \<and>
                 type \<noteq> APFS_BLOCK_GROUP_METADATA K \<and>
                 type \<noteq> APFS_BLOCK_GROUP_SYSTEM K \<and>
                 type \<noteq> (APFS_BLOCK_GROUP_METADATA K OR APFS_BLOCK_GROUP_DATA K)
         then corrupt (Diag block_group_err slot
   ''invalid type, have 0x%llx (%lu bits set) expect either 0x%llx, 0x%llx, 0x%llx or 0x%llx'')
         else ret_ok)"

subsection \<open>Chunk items\<close>

text \<open>The slot \<^verbatim>\<open>chunk_err\<close> reports: -1 for the block of the super block, otherwise the first
  slot whose item pointer is the chunk, or -1 when there is none.\<close>

definition chunk_err_slot :: "ctree_h \<Rightarrow> extent_buffer \<Rightarrow> ulong \<Rightarrow> int" where
  "chunk_err_slot K leaf chunk =
     (if eb_start leaf = APFS_SUPER_INFO_OFFSET K then - 1
      else case find (\<lambda>i. apfs_item_ptr_offset K leaf (int i) = chunk)
                  [0 ..< unat (apfs_header_nritems K leaf)] of
             None \<Rightarrow> - 1
           | Some i \<Rightarrow> int i)"

definition chunk_corrupt :: "ctree_h \<Rightarrow> extent_buffer \<Rightarrow> ulong \<Rightarrow> string \<Rightarrow> ret" where
  "chunk_corrupt K leaf chunk fmt = corrupt (Diag chunk_err (chunk_err_slot K leaf chunk) fmt)"

definition apfs_check_chunk_valid :: "ctree_h \<Rightarrow> extent_buffer \<Rightarrow> ulong \<Rightarrow> u64 \<Rightarrow> ret" where
  "apfs_check_chunk_valid K leaf chunk logical =
     (let fs_info = eb_fs_info leaf;
          length = apfs_chunk_length K leaf chunk;
          stripe_len = apfs_chunk_stripe_len K leaf chunk;
          num_stripes = apfs_chunk_num_stripes K leaf chunk;
          sub_stripes = apfs_chunk_sub_stripes K leaf chunk;
          type = apfs_chunk_type K leaf chunk;
          raid_index = apfs_bg_flags_to_raid_index K type;
          ncopies = raid_ncopies K raid_index;
          nparity = raid_nparity K raid_index;
          features = fs_super_incompat_flags fs_info;
          mixed = (features AND APFS_FEATURE_INCOMPAT_MIXED_GROUPS K \<noteq> 0)
      in if num_stripes = 0
         then chunk_corrupt K leaf chunk ''invalid chunk num_stripes, have %u''
         else if uint num_stripes < ncopies
         then chunk_corrupt K leaf chunk ''invalid chunk num_stripes < ncopies, have %u < %d''
         else if nparity \<noteq> 0 \<and> uint num_stripes = nparity
         then chunk_corrupt K leaf chunk ''invalid chunk num_stripes == nparity, have %u == %d''
         else if \<not> IS_ALIGNED logical (ucast (fs_sectorsize fs_info))
         then chunk_corrupt K leaf chunk ''invalid chunk logical, have %llu should aligned to %u''
         else if apfs_chunk_sector_size K leaf chunk \<noteq> fs_sectorsize fs_info
         then chunk_corrupt K leaf chunk ''invalid chunk sectorsize, have %u expect %u''
         else if length = 0 \<or> \<not> IS_ALIGNED length (ucast (fs_sectorsize fs_info))
         then chunk_corrupt K leaf chunk ''invalid chunk length, have %llu''
         else if check_add_overflow logical length
         then chunk_corrupt K leaf chunk
           ''invalid chunk logical start and length, have logical start %llu length %llu''
         else if \<not> is_power_of_2 stripe_len \<or> stripe_len \<noteq> APFS_STRIPE_LEN K
         then chunk_corrupt K leaf chunk ''invalid chunk stripe length: %llu''
         else if type AND NOT (APFS_BLOCK_GROUP_TYPE_MASK K OR APFS_BLOCK_GROUP_PROFILE_MASK K)
                 \<noteq> 0
         then chunk_corrupt K leaf chunk ''unrecognized chunk type: 0x%llx''
         else if \<not> has_single_bit_set (type AND APFS_BLOCK_GROUP_PROFILE_MASK K) \<and>
                 type AND APFS_BLOCK_GROUP_PROFILE_MASK K \<noteq> 0
         then chunk_corrupt K leaf chunk
           ''invalid chunk profile flag: 0x%llx, expect 0 or 1 bit set''
         else if type AND APFS_BLOCK_GROUP_TYPE_MASK K = 0
         then chunk_corrupt K leaf chunk
           ''missing chunk type flag, have 0x%llx one bit must be set in 0x%llx''
         else if type AND APFS_BLOCK_GROUP_SYSTEM K \<noteq> 0 \<and>
                 type AND (APFS_BLOCK_GROUP_METADATA K OR APFS_BLOCK_GROUP_DATA K) \<noteq> 0
         then chunk_corrupt K leaf chunk ''system chunk with data or metadata type: 0x%llx''
         else if \<not> mixed \<and> type AND APFS_BLOCK_GROUP_METADATA K \<noteq> 0 \<and>
                 type AND APFS_BLOCK_GROUP_DATA K \<noteq> 0
         then chunk_corrupt K leaf chunk ''mixed chunk type in non-mixed mode: 0x%llx''
         else if (type AND APFS_BLOCK_GROUP_RAID10 K \<noteq> 0 \<and> sub_stripes \<noteq> 2) \<or>
                 (type AND APFS_BLOCK_GROUP_RAID1 K \<noteq> 0 \<and> num_stripes \<noteq> 2) \<or>
                 (type AND APFS_BLOCK_GROUP_RAID5 K \<noteq> 0 \<and> num_stripes < 2) \<or>
                 (type AND APFS_BLOCK_GROUP_RAID6 K \<noteq> 0 \<and> num_stripes < 3) \<or>
                 (type AND APFS_BLOCK_GROUP_DUP K \<noteq> 0 \<and> num_stripes \<noteq> 2) \<or>
                 (type AND APFS_BLOCK_GROUP_PROFILE_MASK K = 0 \<and> num_stripes \<noteq> 1)
         then chunk_corrupt K leaf chunk
           ''invalid num_stripes:sub_stripes %u:%u for profile %llu''
         else ret_ok)"

definition check_leaf_chunk_item ::
  "ctree_h \<Rightarrow> extent_buffer \<Rightarrow> ulong \<Rightarrow> key \<Rightarrow> int \<Rightarrow> ret" where
  "check_leaf_chunk_item K leaf chunk key slot =
     (let num_stripes = uint (apfs_chunk_num_stripes K leaf chunk)
      in if ucast (apfs_item_size_nr K leaf slot) < sizeof_chunk K
         then chunk_corrupt K leaf chunk ''invalid chunk item size: have %u expect [%zu, %u)''
         else if num_stripes \<noteq> 0 \<and>
                 apfs_chunk_item_size K num_stripes \<noteq> ucast (apfs_item_size_nr K leaf slot)
         then chunk_corrupt K leaf chunk ''invalid chunk item size: have %u expect %lu''
         else apfs_check_chunk_valid K leaf chunk (key_offset key))"

subsection \<open>Device items, inode items, root items\<close>

definition check_dev_item :: "ctree_h \<Rightarrow> extent_buffer \<Rightarrow> key \<Rightarrow> int \<Rightarrow> ret" where
  "check_dev_item K leaf key slot =
     (let ditem = apfs_item_ptr K leaf slot
      in if key_objectid key \<noteq> APFS_DEV_ITEMS_OBJECTID K
         then corrupt (Diag dev_item_err slot ''invalid objectid: has=%llu expect=%llu'')
         else if apfs_device_id K leaf ditem \<noteq> key_offset key
         then corrupt (Diag dev_item_err slot ''devid mismatch: key has=%llu item has=%llu'')
         else if apfs_device_bytes_used K leaf ditem > apfs_device_total_bytes K leaf ditem
         then corrupt (Diag dev_item_err slot ''invalid bytes used: have %llu expect [0, %llu]'')
         else ret_ok)"

definition check_inode_item :: "ctree_h \<Rightarrow> extent_buffer \<Rightarrow> key \<Rightarrow> int \<Rightarrow> ret" where
  "check_inode_item K leaf key slot =
     (let super_gen = fs_super_generation (eb_fs_info leaf);
          valid_mask = S_IFMT OR S_ISUID OR S_ISGID OR S_ISVTX OR 0x1FF;
          ret = check_inode_key K leaf key slot;
          iitem = apfs_item_ptr K leaf slot;
          mode = apfs_inode_mode K leaf iitem
      in if fst ret < 0 then ret
         else if apfs_inode_generation K leaf iitem > super_gen + 1
         then corrupt (Diag dir_item_err slot
           ''invalid inode generation: has %llu expect (0, %llu]'')
         else if apfs_inode_transid K leaf iitem > super_gen + 1
         then corrupt (Diag dir_item_err slot
           ''invalid inode transid: has %llu expect [0, %llu]'')
         else if mode AND NOT valid_mask \<noteq> 0
         then corrupt (Diag dir_item_err slot ''unknown mode bit detected: 0x%x'')
         else if \<not> has_single_bit_set (ucast (mode AND S_IFMT)) \<and>
                 \<not> S_ISLNK mode \<and> \<not> S_ISBLK mode \<and> \<not> S_ISSOCK mode
         then corrupt (Diag dir_item_err slot
           ''invalid mode: has 0%o expect valid S_IF* bit(s)'')
         else if S_ISDIR mode \<and> apfs_inode_nlink K leaf iitem > 1
         then corrupt (Diag dir_item_err slot
           ''invalid nlink: has %u expect no more than 1 for dir'')
         else if apfs_inode_flags K leaf iitem AND NOT (APFS_INODE_FLAG_MASK K) \<noteq> 0
         then corrupt (Diag dir_item_err slot ''unknown flags detected: 0x%llx'')
         else ret_ok)"

definition check_root_item :: "ctree_h \<Rightarrow> extent_buffer \<Rightarrow> key \<Rightarrow> int \<Rightarrow> ret" where
  "check_root_item K leaf key slot =
     (let fs_info = eb_fs_info leaf;
          valid_root_flags = APFS_ROOT_SUBVOL_RDONLY K OR APFS_ROOT_SUBVOL_DEAD K;
          ret = check_root_key K leaf key slot;
          item_size = apfs_item_size_nr K leaf slot;
          ri = apfs_item_ptr_offset K leaf slot
      in if fst ret < 0 then ret
         else if ucast item_size \<noteq> sizeof_root_item K \<and>
                 item_size \<noteq> apfs_legacy_root_item_size K
         then corrupt (Diag generic_err slot
           ''invalid root item size, have %u expect %zu or %u'')
         else if apfs_root_generation K leaf ri item_size > fs_super_generation fs_info + 1
         then corrupt (Diag generic_err slot
           ''invalid root generation, have %llu expect (0, %llu]'')
         else if apfs_root_generation_v2 K leaf ri item_size > fs_super_generation fs_info + 1
         then corrupt (Diag generic_err slot
           ''invalid root v2 generation, have %llu expect (0, %llu]'')
         else if apfs_root_last_snapshot K leaf ri item_size > fs_super_generation fs_info + 1
         then corrupt (Diag generic_err slot
           ''invalid root last_snapshot, have %llu expect (0, %llu]'')
         else if \<not> IS_ALIGNED (apfs_root_bytenr K leaf ri item_size)
                      (ucast (fs_sectorsize fs_info))
         then corrupt (Diag generic_err slot
           ''invalid root bytenr, have %llu expect to be aligned to %u'')
         else if uint (apfs_root_level K leaf ri item_size) \<ge> APFS_MAX_LEVEL K
         then corrupt (Diag generic_err slot ''invalid root level, have %u expect [0, %u]'')
         else if uint (apfs_root_drop_level K leaf ri item_size) \<ge> APFS_MAX_LEVEL K
         then corrupt (Diag generic_err slot ''invalid root level, have %u expect [0, %u]'')
         else if apfs_root_flags K leaf ri item_size AND NOT valid_root_flags \<noteq> 0
         then corrupt (Diag generic_err slot
           ''invalid root flags, have 0x%llx expect mask 0x%llx'')
         else ret_ok)"

subsection \<open>Extent items\<close>

text \<open>One turn of the \<^verbatim>\<open>while (ptr < end)\<close> loop over the inline references: \<open>Inl r\<close> when the
  body returns \<open>r\<close>, otherwise \<open>Inr (ptr, inline_refs)\<close>, the advanced pointer and the count.
  \<^verbatim>\<open>dref\<close> is \<^verbatim>\<open>&iref->offset\<close> and \<^verbatim>\<open>sref\<close> is \<^verbatim>\<open>iref + 1\<close>.\<close>

definition check_inline_ref ::
  "ctree_h \<Rightarrow> extent_buffer \<Rightarrow> int \<Rightarrow> ulong \<Rightarrow> ulong \<Rightarrow> u64 \<Rightarrow> ret + (ulong \<times> u64)" where
  "check_inline_ref K leaf slot end ptr inline_refs =
     (let sectorsize = fs_sectorsize (eb_fs_info leaf);
          iref = ptr;
          inline_type = apfs_extent_inline_ref_type K leaf iref;
          inline_offset = apfs_extent_inline_ref_offset K leaf iref;
          dref = iref + offsetof_extent_inline_ref_offset K;
          sref = iref + sizeof_extent_inline_ref K;
          next = ptr + ucast (apfs_extent_inline_ref_size K inline_type)
      in if ptr + sizeof_extent_inline_ref K > end
         then Inl (corrupt (Diag extent_err slot
           ''inline ref item overflows extent item, ptr %lu iref size %zu end %lu''))
         else if ptr + ucast (apfs_extent_inline_ref_size K inline_type) > end
         then Inl (corrupt (Diag extent_err slot
           ''inline ref item overflows extent item, ptr %lu iref size %u end %lu''))
         else if inline_type = APFS_TREE_BLOCK_REF_KEY K
         then Inr (next, inline_refs + 1)
         else if inline_type = APFS_SHARED_BLOCK_REF_KEY K
         then (if \<not> IS_ALIGNED inline_offset (ucast sectorsize)
               then Inl (corrupt (Diag extent_err slot
                 ''invalid tree parent bytenr, have %llu expect aligned to %u''))
               else Inr (next, inline_refs + 1))
         else if inline_type = APFS_EXTENT_DATA_REF_KEY K
         then (if \<not> IS_ALIGNED (apfs_extent_data_ref_offset K leaf dref) (ucast sectorsize)
               then Inl (corrupt (Diag extent_err slot
                 ''invalid data ref offset, have %llu expect aligned to %u''))
               else Inr (next, inline_refs + ucast (apfs_extent_data_ref_count K leaf dref)))
         else if inline_type = APFS_SHARED_DATA_REF_KEY K
         then (if \<not> IS_ALIGNED inline_offset (ucast sectorsize)
               then Inl (corrupt (Diag extent_err slot
                 ''invalid data parent bytenr, have %llu expect aligned to %u''))
               else Inr (next, inline_refs + ucast (apfs_shared_data_ref_count K leaf sref)))
         else Inl (corrupt (Diag extent_err slot ''unknown inline ref type: %u'')))"

text \<open>The loop: \<open>Inl r\<close> when a turn returned \<open>r\<close>, \<open>Inr (ptr, inline_refs)\<close> at its exit.\<close>

partial_function (option) check_inline_refs ::
  "ctree_h \<Rightarrow> extent_buffer \<Rightarrow> int \<Rightarrow> ulong \<Rightarrow> ulong \<Rightarrow> u64 \<Rightarrow> (ret + (ulong \<times> u64)) option" where
  "check_inline_refs K leaf slot end ptr inline_refs =
     (if ptr < end
      then (case check_inline_ref K leaf slot end ptr inline_refs of
              Inl r \<Rightarrow> Some (Inl r)
            | Inr (ptr', inline_refs') \<Rightarrow> check_inline_refs K leaf slot end ptr' inline_refs')
      else Some (Inr (ptr, inline_refs)))"

text \<open>The checks of \<^verbatim>\<open>check_extent_item\<close> before the loop: \<open>Inl r\<close> when one of them returns
  \<open>r\<close>, otherwise \<open>Inr ptr\<close>, the pointer to the first inline reference.\<close>

definition check_extent_item_head ::
  "ctree_h \<Rightarrow> extent_buffer \<Rightarrow> key \<Rightarrow> int \<Rightarrow> ret + ulong" where
  "check_extent_item_head K leaf key slot =
     (let fs_info = eb_fs_info leaf;
          item_size = apfs_item_size_nr K leaf slot;
          ei = apfs_item_ptr K leaf slot;
          flags = apfs_extent_flags K leaf ei;
          generation = apfs_extent_generation K leaf ei;
          is_tree_block = (flags AND APFS_EXTENT_FLAG_TREE_BLOCK K \<noteq> 0);
          ptr = ei + sizeof_extent_item K
      in if key_type key = APFS_METADATA_ITEM_KEY K \<and>
            \<not> apfs_fs_incompat_SKINNY_METADATA K fs_info
         then Inl (corrupt (Diag generic_err slot
   ''invalid key type, METADATA_ITEM type invalid when SKINNY_METADATA feature disabled''))
         else if \<not> IS_ALIGNED (key_objectid key) (ucast (fs_sectorsize fs_info))
         then Inl (corrupt (Diag generic_err slot
           ''invalid key objectid, have %llu expect to be aligned to %u''))
         else if key_type key = APFS_METADATA_ITEM_KEY K \<and>
                 key_offset key \<ge> word_of_int (APFS_MAX_LEVEL K)
         then Inl (corrupt (Diag extent_err slot
           ''invalid tree level, have %llu expect [0, %u]''))
         else if ucast item_size < sizeof_extent_item K
         then Inl (corrupt (Diag extent_err slot ''invalid item size, have %u expect [%zu, %u)''))
         else if generation > fs_super_generation fs_info + 1
         then Inl (corrupt (Diag extent_err slot
           ''invalid generation, have %llu expect (0, %llu]''))
         else if \<not> has_single_bit_set
                     (flags AND (APFS_EXTENT_FLAG_DATA K OR APFS_EXTENT_FLAG_TREE_BLOCK K))
         then Inl (corrupt (Diag extent_err slot
           ''invalid extent flag, have 0x%llx expect 1 bit set in 0x%llx''))
         else if is_tree_block \<and> key_type key = APFS_EXTENT_ITEM_KEY K \<and>
                 key_offset key \<noteq> ucast (fs_nodesize fs_info)
         then Inl (corrupt (Diag extent_err slot ''invalid extent length, have %llu expect %u''))
         else if \<not> is_tree_block \<and> key_type key \<noteq> APFS_EXTENT_ITEM_KEY K
         then Inl (corrupt (Diag extent_err slot
           ''invalid key type, have %u expect %u for data backref''))
         else if \<not> is_tree_block \<and>
                 \<not> IS_ALIGNED (key_offset key) (ucast (fs_sectorsize fs_info))
         then Inl (corrupt (Diag extent_err slot
           ''invalid extent length, have %llu expect aligned to %u''))
         else if \<not> is_tree_block \<and> flags AND APFS_BLOCK_FLAG_FULL_BACKREF K \<noteq> 0
         then Inl (corrupt (Diag extent_err slot
           ''invalid extent flag, data has full backref set''))
         else if is_tree_block \<and> key_type key \<noteq> APFS_METADATA_ITEM_KEY K
         then (if uint (apfs_tree_block_level K leaf ptr) \<ge> APFS_MAX_LEVEL K
               then Inl (corrupt (Diag extent_err slot
                 ''invalid tree block info level, have %u expect [0, %u]''))
               else Inr (ptr + sizeof_tree_block_info K))
         else Inr ptr)"

definition check_extent_item :: "ctree_h \<Rightarrow> extent_buffer \<Rightarrow> key \<Rightarrow> int \<Rightarrow> ret run" where
  "check_extent_item K leaf key slot =
     (let end = ucast (apfs_item_size_nr K leaf slot) + apfs_item_ptr_offset K leaf slot;
          total_refs = apfs_extent_refs K leaf (apfs_item_ptr K leaf slot)
      in case check_extent_item_head K leaf key slot of
           Inl r \<Rightarrow> Some (Inr r)
         | Inr ptr \<Rightarrow>
            (case check_inline_refs K leaf slot end ptr 0 of
               None \<Rightarrow> None
             | Some (Inl r) \<Rightarrow> Some (Inr r)
             | Some (Inr (ptr', inline_refs)) \<Rightarrow>
                 if ptr' \<noteq> end
                 then Some (Inr (corrupt (Diag extent_err slot
                   ''invalid extent item size, padding bytes found'')))
                 else if inline_refs > total_refs
                 then Some (Inr (corrupt (Diag extent_err slot
                   ''invalid extent refs, have %llu expect >= inline %llu'')))
                 else Some (Inr ret_ok)))"

subsection \<open>Keyed back references and inode references\<close>

definition check_simple_keyed_refs :: "ctree_h \<Rightarrow> extent_buffer \<Rightarrow> key \<Rightarrow> int \<Rightarrow> ret" where
  "check_simple_keyed_refs K leaf key slot =
     (let expect_item_size =
            (if key_type key = APFS_SHARED_DATA_REF_KEY K
             then (ucast (sizeof_shared_data_ref K) :: u32) else 0)
      in if apfs_item_size_nr K leaf slot \<noteq> expect_item_size
         then corrupt (Diag generic_err slot
           ''invalid item size, have %u expect %u for key type %u'')
         else if \<not> IS_ALIGNED (key_objectid key) (ucast (fs_sectorsize (eb_fs_info leaf)))
         then corrupt (Diag generic_err slot
   ''invalid key objectid for shared block ref, have %llu expect aligned to %u'')
         else if key_type key \<noteq> APFS_TREE_BLOCK_REF_KEY K \<and>
                 \<not> IS_ALIGNED (key_offset key) (ucast (fs_sectorsize (eb_fs_info leaf)))
         then corrupt (Diag extent_err slot
           ''invalid tree parent bytenr, have %llu expect aligned to %u'')
         else ret_ok)"

text \<open>The \<^verbatim>\<open>for\<close> loop of \<^verbatim>\<open>check_extent_data_ref\<close> over the packed records.\<close>

partial_function (option) check_extent_data_ref_loop ::
  "ctree_h \<Rightarrow> extent_buffer \<Rightarrow> int \<Rightarrow> ulong \<Rightarrow> ulong \<Rightarrow> ret run" where
  "check_extent_data_ref_loop K leaf slot end ptr =
     (if ptr < end
      then (if \<not> IS_ALIGNED (apfs_extent_data_ref_offset K leaf ptr)
                    (ucast (fs_sectorsize (eb_fs_info leaf)))
            then Some (Inr (corrupt (Diag extent_err slot
              ''invalid extent data backref offset, have %llu expect aligned to %u'')))
            else check_extent_data_ref_loop K leaf slot end (ptr + sizeof_extent_data_ref K))
      else Some (Inr ret_ok))"

definition check_extent_data_ref :: "ctree_h \<Rightarrow> extent_buffer \<Rightarrow> key \<Rightarrow> int \<Rightarrow> ret run" where
  "check_extent_data_ref K leaf key slot =
     (let ptr = apfs_item_ptr_offset K leaf slot;
          end = ptr + ucast (apfs_item_size_nr K leaf slot)
      in if (ucast (apfs_item_size_nr K leaf slot) :: ulong) mod sizeof_extent_data_ref K \<noteq> 0
         then Some (Inr (corrupt (Diag generic_err slot
           ''invalid item size, have %u expect aligned to %zu for key type %u'')))
         else if \<not> IS_ALIGNED (key_objectid key) (ucast (fs_sectorsize (eb_fs_info leaf)))
         then Some (Inr (corrupt (Diag generic_err slot
   ''invalid key objectid for shared block ref, have %llu expect aligned to %u'')))
         else check_extent_data_ref_loop K leaf slot end ptr)"

text \<open>The \<^verbatim>\<open>while\<close> loop of \<^verbatim>\<open>check_inode_ref\<close>.  Its first test adds \<^verbatim>\<open>sizeof(iref)\<close>, the size
  of a pointer (8), where the second adds \<^verbatim>\<open>sizeof(*iref)\<close>.\<close>

partial_function (option) check_inode_ref_loop ::
  "ctree_h \<Rightarrow> extent_buffer \<Rightarrow> int \<Rightarrow> ulong \<Rightarrow> ulong \<Rightarrow> ret run" where
  "check_inode_ref_loop K leaf slot end ptr =
     (if ptr < end
      then (if ptr + 8 > end
            then Some (Inr (corrupt (Diag dir_item_err slot
              ''inode ref overflow, ptr %lu end %lu inode_ref_size %zu'')))
            else if ptr + sizeof_inode_ref K + ucast (apfs_inode_ref_name_len K leaf ptr) > end
            then Some (Inr (corrupt (Diag dir_item_err slot
              ''inode ref overflow, ptr %lu end %lu namelen %u'')))
            else check_inode_ref_loop K leaf slot end
                   (ptr + (sizeof_inode_ref K + ucast (apfs_inode_ref_name_len K leaf ptr))))
      else Some (Inr ret_ok))"

definition check_inode_ref ::
  "ctree_h \<Rightarrow> extent_buffer \<Rightarrow> key \<Rightarrow> key \<Rightarrow> int \<Rightarrow> ret run" where
  "check_inode_ref K leaf key prev_key slot =
     (case check_prev_ino K leaf key slot prev_key of
        Inl f \<Rightarrow> Some (Inl f)
      | Inr (False, log) \<Rightarrow> Some (Inr (- EUCLEAN, log))
      | Inr (True, log) \<Rightarrow>
          if ucast (apfs_item_size_nr K leaf slot) \<le> sizeof_inode_ref K
          then Some (Inr (corrupt (Diag dir_item_err slot
            ''invalid item size, have %u expect (%zu, %u)'')))
          else check_inode_ref_loop K leaf slot
                 (apfs_item_ptr_offset K leaf slot + ucast (apfs_item_size_nr K leaf slot))
                 (apfs_item_ptr_offset K leaf slot))"

subsection \<open>The dispatch on the key type\<close>

text \<open>\<^verbatim>\<open>check_leaf_item\<close>: the \<^verbatim>\<open>switch\<close> on \<^verbatim>\<open>key->type\<close>, its labels in the order of the
  source; \<^verbatim>\<open>ret\<close> stays 0 when no label matches.\<close>

definition check_leaf_item ::
  "ctree_h \<Rightarrow> extent_buffer \<Rightarrow> key \<Rightarrow> int \<Rightarrow> key \<Rightarrow> ret run" where
  "check_leaf_item K leaf key slot prev_key =
     (if key_type key = APFS_EXTENT_DATA_KEY K
      then Some (check_extent_data_item K leaf key slot prev_key)
      else if key_type key = APFS_EXTENT_CSUM_KEY K
      then Some (check_csum_item K leaf key slot prev_key)
      else if key_type key = APFS_DIR_ITEM_KEY K \<or> key_type key = APFS_DIR_INDEX_KEY K \<or>
              key_type key = APFS_XATTR_ITEM_KEY K
      then check_dir_item K leaf key prev_key slot
      else if key_type key = APFS_INODE_REF_KEY K
      then check_inode_ref K leaf key prev_key slot
      else if key_type key = APFS_BLOCK_GROUP_ITEM_KEY K
      then returns (check_block_group_item K leaf key slot)
      else if key_type key = APFS_CHUNK_ITEM_KEY K
      then returns (check_leaf_chunk_item K leaf (apfs_item_ptr K leaf slot) key slot)
      else if key_type key = APFS_DEV_ITEM_KEY K
      then returns (check_dev_item K leaf key slot)
      else if key_type key = APFS_INODE_ITEM_KEY K
      then returns (check_inode_item K leaf key slot)
      else if key_type key = APFS_ROOT_ITEM_KEY K
      then returns (check_root_item K leaf key slot)
      else if key_type key = APFS_EXTENT_ITEM_KEY K \<or> key_type key = APFS_METADATA_ITEM_KEY K
      then check_extent_item K leaf key slot
      else if key_type key = APFS_TREE_BLOCK_REF_KEY K \<or>
              key_type key = APFS_SHARED_DATA_REF_KEY K \<or>
              key_type key = APFS_SHARED_BLOCK_REF_KEY K
      then returns (check_simple_keyed_refs K leaf key slot)
      else if key_type key = APFS_EXTENT_DATA_REF_KEY K
      then check_extent_data_ref K leaf key slot
      else returns ret_ok)"

subsection \<open>Leaves and nodes\<close>

text \<open>A function body as the list of its statements: each either returns a value or falls
  through to the next; the last argument is what the end of the body returns.\<close>

fun first_return :: "'r option list \<Rightarrow> 'r \<Rightarrow> 'r" where
  "first_return [] final = final"
| "first_return (Some r # rest) final = r"
| "first_return (None # rest) final = first_return rest final"

text \<open>The \<^verbatim>\<open>for\<close> loop of \<^verbatim>\<open>check_leaf\<close> from slot \<open>i\<close> on, with the key of the slot before.
  It ends in the \<^verbatim>\<open>return 0\<close> that follows the loop.\<close>

function check_leaf_slots ::
  "ctree_h \<Rightarrow> extent_buffer \<Rightarrow> bool \<Rightarrow> nat \<Rightarrow> nat \<Rightarrow> key \<Rightarrow> ret run" where
  "check_leaf_slots K leaf check_item_data nritems i prev_key =
     (if i < nritems
      then
        (let slot = int i;
             key = apfs_item_key_to_cpu K leaf slot;
             item_end_expected =
               (if slot = 0 then APFS_LEAF_DATA_SIZE K (eb_fs_info leaf)
                else apfs_item_offset_nr K leaf (slot - 1))
         in if apfs_comp_cpu_keys K leaf prev_key key \<ge> 0
            then returns (corrupt (Diag generic_err slot
              ''bad key order, prev (%llu %u %llu) current (%llu %u %llu)''))
            else if apfs_item_end_nr K leaf slot \<noteq> item_end_expected
            then returns (corrupt (Diag generic_err slot
              ''unexpected item end, have %u expect %u''))
            else if apfs_item_end_nr K leaf slot > APFS_LEAF_DATA_SIZE K (eb_fs_info leaf)
            then returns (corrupt (Diag generic_err slot
              ''slot end outside of leaf, have %u expect range [0, %u]''))
            else
              (case (if check_item_data then check_leaf_item K leaf key slot prev_key
                     else returns ret_ok) of
                 None \<Rightarrow> None
               | Some (Inl f) \<Rightarrow> Some (Inl f)
               | Some (Inr ret) \<Rightarrow>
                   if fst ret < 0 then returns ret
                   else check_leaf_slots K leaf check_item_data nritems (Suc i) key))
      else returns ret_ok)"
  by pat_completeness auto
termination
  by (relation "measure (\<lambda>(K, leaf, check_item_data, nritems, i, prev_key). nritems - i)") auto

text \<open>\<^verbatim>\<open>check_leaf\<close>.  Its first statement is \<^verbatim>\<open>return 0\<close>; the statements after it are the
  checks.\<close>

definition check_leaf :: "ctree_h \<Rightarrow> extent_buffer \<Rightarrow> bool \<Rightarrow> ret run" where
  "check_leaf K leaf check_item_data =
     (let nritems = apfs_header_nritems K leaf;
          owner = apfs_header_owner K leaf
      in first_return
           [Some (returns ret_ok),
            if apfs_header_level K leaf \<noteq> 0
            then Some (returns (corrupt (Diag generic_err 0
              ''invalid level for leaf, have %d expect 0'')))
            else None,
            if nritems = 0 \<and> \<not> apfs_header_flag K leaf (APFS_HEADER_FLAG_RELOC K)
            then Some
              (if owner = APFS_ROOT_TREE_OBJECTID K \<or> owner = APFS_CHUNK_TREE_OBJECTID K \<or>
                  owner = APFS_EXTENT_TREE_OBJECTID K \<or> owner = APFS_DEV_TREE_OBJECTID K \<or>
                  owner = APFS_FS_TREE_OBJECTID K \<or> owner = APFS_DATA_RELOC_TREE_OBJECTID K
               then returns (corrupt (Diag generic_err 0
                 ''invalid root, root %llu must never be empty''))
               else if owner = 0
               then returns (corrupt (Diag generic_err 0
                 ''invalid owner, root 0 is not defined''))
               else returns ret_ok)
            else None,
            if nritems = 0 then Some (returns ret_ok) else None,
            Some (check_leaf_slots K leaf check_item_data (unat nritems) 0
                    \<lparr>key_objectid = 0, key_type = 0, key_offset = 0\<rparr>)]
           (returns ret_ok))"

definition apfs_check_leaf_full :: "ctree_h \<Rightarrow> extent_buffer \<Rightarrow> ret run" where
  "apfs_check_leaf_full K leaf = check_leaf K leaf True"

definition apfs_check_leaf_relaxed :: "ctree_h \<Rightarrow> extent_buffer \<Rightarrow> ret run" where
  "apfs_check_leaf_relaxed K leaf = check_leaf K leaf False"

text \<open>The \<^verbatim>\<open>for\<close> loop of \<^verbatim>\<open>apfs_check_node\<close> over the slots \<open>i < nr - 1\<close>, ending in
  \<^verbatim>\<open>return ret\<close> with \<^verbatim>\<open>ret\<close> still 0.\<close>

function check_node_slots :: "ctree_h \<Rightarrow> extent_buffer \<Rightarrow> nat \<Rightarrow> nat \<Rightarrow> ret" where
  "check_node_slots K node n i =
     (if i < n
      then
        (let slot = int i;
             bytenr = apfs_node_blockptr K node slot;
             key = apfs_node_key_to_cpu K node slot;
             next_key = apfs_node_key_to_cpu K node (slot + 1)
         in if bytenr = 0
            then corrupt (Diag generic_err slot ''invalid NULL node pointer'')
            else if \<not> IS_ALIGNED bytenr (ucast (fs_sectorsize (eb_fs_info node)))
            then corrupt (Diag generic_err slot
              ''unaligned pointer, have %llu should be aligned to %u'')
            else if apfs_comp_cpu_keys K node key next_key \<ge> 0
            then corrupt (Diag generic_err slot
              ''bad key order, current (%llu %u %llu) next (%llu %u %llu)'')
            else check_node_slots K node n (Suc i))
      else ret_ok)"
  by pat_completeness auto
termination
  by (relation "measure (\<lambda>(K, node, n, i). n - i)") auto

text \<open>\<^verbatim>\<open>apfs_check_node\<close>.  Its first statement, too, is \<^verbatim>\<open>return 0\<close>.\<close>

definition apfs_check_node :: "ctree_h \<Rightarrow> extent_buffer \<Rightarrow> ret" where
  "apfs_check_node K node =
     (let nr = (ucast (apfs_header_nritems K node) :: ulong);
          level = uint (apfs_header_level K node)
      in first_return
           [Some ret_ok,
            if level \<le> 0 \<or> level \<ge> APFS_MAX_LEVEL K
            then Some (corrupt (Diag generic_err 0
              ''invalid level for node, have %d expect [1, %d]''))
            else None,
            if nr = 0
            then Some (corrupt (Diag apfs_crit (- 1)
              ''corrupt node: root=%llu block=%llu, have 0 items''))
            else None,
            Some (check_node_slots K node (unat (nr - 1)) 0)]
           ret_ok)"

section \<open>An instance of the interface, for concrete runs\<close>

text \<open>Modelled from the spec: the key comparison \<^verbatim>\<open>apfs_comp_cpu_keys\<close> (not among the sources),
  the total order that is lexicographic on (objectid, type, offset); negative, zero or
  positive.\<close>

definition lex_comp_keys :: "key \<Rightarrow> key \<Rightarrow> int" where
  "lex_comp_keys k1 k2 =
     (if key_objectid k1 > key_objectid k2 then 1
      else if key_objectid k1 < key_objectid k2 then - 1
      else if key_type k1 > key_type k2 then 1
      else if key_type k1 < key_type k2 then - 1
      else if key_offset k1 > key_offset k2 then 1
      else if key_offset k1 < key_offset k2 then - 1
      else 0)"

text \<open>
  The theorems hold for every interface.  Concrete runs need one: this instance takes the
  constants and sizes of the on-disk format the checker was written for (key type tags 1 to 228,
  first free object id 256, block group flags as single bits, extent item header of 24
  bytes, inline reference of 9 bytes, and so on), the comparison above, and accessors that read 0
  everywhere.  A concrete block is this instance with the accessors of its fields replaced.
\<close>

definition blank_ctree :: ctree_h where
  "blank_ctree =
     \<lparr>APFS_INODE_ITEM_KEY = 1, APFS_INODE_REF_KEY = 12, APFS_XATTR_ITEM_KEY = 24,
      APFS_DIR_ITEM_KEY = 84, APFS_DIR_INDEX_KEY = 96, APFS_EXTENT_DATA_KEY = 108,
      APFS_EXTENT_CSUM_KEY = 128, APFS_ROOT_ITEM_KEY = 132, APFS_EXTENT_ITEM_KEY = 168,
      APFS_METADATA_ITEM_KEY = 169, APFS_TREE_BLOCK_REF_KEY = 176,
      APFS_EXTENT_DATA_REF_KEY = 178, APFS_SHARED_BLOCK_REF_KEY = 182,
      APFS_SHARED_DATA_REF_KEY = 184, APFS_BLOCK_GROUP_ITEM_KEY = 192, APFS_DEV_ITEM_KEY = 216,
      APFS_CHUNK_ITEM_KEY = 228,
      APFS_ROOT_TREE_OBJECTID = 1, APFS_EXTENT_TREE_OBJECTID = 2, APFS_CHUNK_TREE_OBJECTID = 3,
      APFS_DEV_TREE_OBJECTID = 4, APFS_FS_TREE_OBJECTID = 5, APFS_ROOT_TREE_DIR_OBJECTID = 6,
      APFS_DATA_RELOC_TREE_OBJECTID = - 9, APFS_TREE_RELOC_OBJECTID = - 8,
      APFS_EXTENT_CSUM_OBJECTID = - 10, APFS_FREE_INO_OBJECTID = - 12,
      APFS_FIRST_FREE_OBJECTID = 256, APFS_LAST_FREE_OBJECTID = - 256,
      APFS_FIRST_CHUNK_TREE_OBJECTID = 256, APFS_DEV_ITEMS_OBJECTID = 1,
      APFS_SUPER_INFO_OFFSET = 0x10000,
      is_fstree = (\<lambda>rootid. rootid = 5 \<or> (256 \<le> rootid \<and> rootid < 0x8000000000000000)),
      APFS_BLOCK_GROUP_DATA = 0x1, APFS_BLOCK_GROUP_SYSTEM = 0x2,
      APFS_BLOCK_GROUP_METADATA = 0x4, APFS_BLOCK_GROUP_RAID1 = 0x10,
      APFS_BLOCK_GROUP_DUP = 0x20, APFS_BLOCK_GROUP_RAID10 = 0x40,
      APFS_BLOCK_GROUP_RAID5 = 0x80, APFS_BLOCK_GROUP_RAID6 = 0x100,
      APFS_BLOCK_GROUP_TYPE_MASK = 0x7, APFS_BLOCK_GROUP_PROFILE_MASK = 0x7F8,
      APFS_FEATURE_INCOMPAT_MIXED_GROUPS = 0x4,
      apfs_fs_incompat_SKINNY_METADATA = (\<lambda>fs. fs_super_incompat_flags fs AND 0x100 \<noteq> 0),
      APFS_EXTENT_FLAG_DATA = 0x1, APFS_EXTENT_FLAG_TREE_BLOCK = 0x2,
      APFS_BLOCK_FLAG_FULL_BACKREF = 0x100,
      APFS_ROOT_SUBVOL_RDONLY = 0x1, APFS_ROOT_SUBVOL_DEAD = 0x1000000000000,
      APFS_INODE_FLAG_MASK = 0x80000FFF, APFS_HEADER_FLAG_RELOC = 0x2,
      APFS_STRIPE_LEN = 0x10000,
      apfs_bg_flags_to_raid_index =
        (\<lambda>flags. if flags AND 0x40 \<noteq> 0 then 0 else if flags AND 0x10 \<noteq> 0 then 1
                 else if flags AND 0x20 \<noteq> 0 then 2 else if flags AND 0x8 \<noteq> 0 then 3
                 else if flags AND 0x80 \<noteq> 0 then 5 else if flags AND 0x100 \<noteq> 0 then 6
                 else 4),
      raid_ncopies = (\<lambda>i. if i = 0 \<or> i = 1 \<or> i = 2 then 2 else 1),
      raid_nparity = (\<lambda>i. if i = 5 then 1 else if i = 6 then 2 else 0),
      APFS_MAX_LEVEL = 8, APFS_NR_FILE_EXTENT_TYPES = 3, APFS_NR_COMPRESS_TYPES = 4,
      APFS_FILE_EXTENT_INLINE = 0, APFS_COMPRESS_NONE = 0, APFS_FT_MAX = 9, APFS_FT_XATTR = 8,
      XATTR_NAME_MAX = 255, APFS_NAME_LEN = 255,
      APFS_MAX_XATTR_SIZE = (\<lambda>fs. fs_nodesize fs - 156),
      APFS_LEAF_DATA_SIZE = (\<lambda>fs. fs_nodesize fs - 101),
      APFS_FILE_EXTENT_INLINE_DATA_START = 21, sizeof_file_extent_item = 53,
      sizeof_dir_item = 30, sizeof_block_group_item = 24, sizeof_chunk = 80,
      apfs_chunk_item_size = (\<lambda>num_stripes. word_of_int (48 + 32 * num_stripes)),
      sizeof_inode_ref = 10, sizeof_root_item = 439, apfs_legacy_root_item_size = 239,
      sizeof_extent_item = 24, sizeof_tree_block_info = 18, sizeof_extent_inline_ref = 9,
      offsetof_extent_inline_ref_offset = 1,
      apfs_extent_inline_ref_size =
        (\<lambda>type. if type = 176 \<or> type = 182 then 9 else if type = 184 then 13
                else if type = 178 then 29 else 0),
      sizeof_shared_data_ref = 4, sizeof_extent_data_ref = 28,
      apfs_header_level = (\<lambda>eb. 0), apfs_header_nritems = (\<lambda>eb. 0),
      apfs_header_owner = (\<lambda>eb. 0), apfs_header_bytenr = (\<lambda>eb. 0),
      apfs_header_flag = (\<lambda>eb flag. False),
      apfs_item_key_to_cpu = (\<lambda>eb slot. \<lparr>key_objectid = 0, key_type = 0, key_offset = 0\<rparr>),
      apfs_item_size_nr = (\<lambda>eb slot. 0), apfs_item_offset_nr = (\<lambda>eb slot. 0),
      apfs_item_end_nr = (\<lambda>eb slot. 0), apfs_item_ptr = (\<lambda>eb slot. 0),
      apfs_item_ptr_offset = (\<lambda>eb slot. 0), apfs_node_blockptr = (\<lambda>eb slot. 0),
      apfs_node_key_to_cpu = (\<lambda>eb slot. \<lparr>key_objectid = 0, key_type = 0, key_offset = 0\<rparr>),
      apfs_comp_cpu_keys = (\<lambda>eb. lex_comp_keys),
      apfs_file_extent_type = (\<lambda>eb p. 0), apfs_file_extent_compression = (\<lambda>eb p. 0),
      apfs_file_extent_encryption = (\<lambda>eb p. 0), apfs_file_extent_ram_bytes = (\<lambda>eb p. 0),
      apfs_file_extent_disk_bytenr = (\<lambda>eb p. 0),
      apfs_file_extent_disk_num_bytes = (\<lambda>eb p. 0), apfs_file_extent_offset = (\<lambda>eb p. 0),
      apfs_file_extent_num_bytes = (\<lambda>eb p. 0),
      apfs_dir_item_key_to_cpu =
        (\<lambda>eb p. \<lparr>key_objectid = 0, key_type = 0, key_offset = 0\<rparr>),
      apfs_dir_type = (\<lambda>eb p. 0), apfs_dir_name_len = (\<lambda>eb p. 0),
      apfs_dir_data_len = (\<lambda>eb p. 0), dir_name_hash = (\<lambda>eb p n. 0),
      apfs_inode_ref_name_len = (\<lambda>eb p. 0),
      apfs_stack_block_group_chunk_objectid = (\<lambda>eb p. 0),
      apfs_stack_block_group_used = (\<lambda>eb p. 0), apfs_stack_block_group_flags = (\<lambda>eb p. 0),
      apfs_chunk_length = (\<lambda>eb p. 0), apfs_chunk_stripe_len = (\<lambda>eb p. 0),
      apfs_chunk_num_stripes = (\<lambda>eb p. 0), apfs_chunk_sub_stripes = (\<lambda>eb p. 0),
      apfs_chunk_type = (\<lambda>eb p. 0), apfs_chunk_sector_size = (\<lambda>eb p. 0),
      apfs_device_id = (\<lambda>eb p. 0), apfs_device_bytes_used = (\<lambda>eb p. 0),
      apfs_device_total_bytes = (\<lambda>eb p. 0),
      apfs_inode_generation = (\<lambda>eb p. 0), apfs_inode_transid = (\<lambda>eb p. 0),
      apfs_inode_mode = (\<lambda>eb p. 0), apfs_inode_nlink = (\<lambda>eb p. 0),
      apfs_inode_flags = (\<lambda>eb p. 0),
      apfs_root_generation = (\<lambda>eb p n. 0), apfs_root_generation_v2 = (\<lambda>eb p n. 0),
      apfs_root_last_snapshot = (\<lambda>eb p n. 0), apfs_root_bytenr = (\<lambda>eb p n. 0),
      apfs_root_level = (\<lambda>eb p n. 0), apfs_root_drop_level = (\<lambda>eb p n. 0),
      apfs_root_flags = (\<lambda>eb p n. 0),
      apfs_extent_flags = (\<lambda>eb p. 0), apfs_extent_refs = (\<lambda>eb p. 0),
      apfs_extent_generation = (\<lambda>eb p. 0), apfs_tree_block_level = (\<lambda>eb p. 0),
      apfs_extent_inline_ref_type = (\<lambda>eb p. 0), apfs_extent_inline_ref_offset = (\<lambda>eb p. 0),
      apfs_extent_data_ref_offset = (\<lambda>eb p. 0), apfs_extent_data_ref_count = (\<lambda>eb p. 0),
      apfs_shared_data_ref_count = (\<lambda>eb p. 0)\<rparr>"

text \<open>A block of 16 KiB on a file system with 4 KiB sectors, at generation 10, without
  incompat features (the bytes of its pages play no part: the accessors of the instance give
  its fields).\<close>

definition blank_block :: extent_buffer where
  "blank_block =
     \<lparr>eb_fs_info = \<lparr>fs_sectorsize = 4096, fs_nodesize = 16384, fs_csum_size = 4,
                    fs_super_generation = 10, fs_super_incompat_flags = 0\<rparr>,
      eb_start = 0x40000000, eb_len = 16384, eb_pages = []\<rparr>"

section \<open>Vocabulary of the checker properties\<close>

text \<open>The key types \<^verbatim>\<open>check_leaf_item\<close> has a \<^verbatim>\<open>case\<close> label for.\<close>

definition handled_key_types :: "ctree_h \<Rightarrow> u8 set" where
  "handled_key_types K =
     {APFS_EXTENT_DATA_KEY K, APFS_EXTENT_CSUM_KEY K, APFS_DIR_ITEM_KEY K,
      APFS_DIR_INDEX_KEY K, APFS_XATTR_ITEM_KEY K, APFS_INODE_REF_KEY K,
      APFS_BLOCK_GROUP_ITEM_KEY K, APFS_CHUNK_ITEM_KEY K, APFS_DEV_ITEM_KEY K,
      APFS_INODE_ITEM_KEY K, APFS_ROOT_ITEM_KEY K, APFS_EXTENT_ITEM_KEY K,
      APFS_METADATA_ITEM_KEY K, APFS_TREE_BLOCK_REF_KEY K, APFS_SHARED_DATA_REF_KEY K,
      APFS_SHARED_BLOCK_REF_KEY K, APFS_EXTENT_DATA_REF_KEY K}"

text \<open>The block in which the chunk at \<open>chunk\<close> of \<open>leaf\<close> has \<open>n\<close> stripes and every other
  field is as it was.\<close>

definition with_num_stripes :: "ctree_h \<Rightarrow> extent_buffer \<Rightarrow> ulong \<Rightarrow> u16 \<Rightarrow> ctree_h" where
  "with_num_stripes K leaf chunk n =
     K\<lparr>apfs_chunk_num_stripes :=
         (\<lambda>eb p. if eb = leaf \<and> p = chunk then n else apfs_chunk_num_stripes K eb p)\<rparr>"

text \<open>The fields of a chunk other than its stripe count are valid for a chunk of two stripes
  whose profile is RAID1: the RAID table asks for at most two copies and does not have two
  parity stripes for the profile; the logical address and the length are sector-aligned, the
  length is not 0 and their sum does not overflow; the sector size is that of the file
  system; the stripe length is the one fixed length, a power of two; the type has known bits
  only, one profile bit, a type bit, not system together with data or metadata, not data
  together with metadata unless the file system has mixed groups; the bits of RAID10 and RAID6
  are not set.\<close>

definition raid1_fields_valid :: "ctree_h \<Rightarrow> extent_buffer \<Rightarrow> ulong \<Rightarrow> u64 \<Rightarrow> bool" where
  "raid1_fields_valid K leaf chunk logical =
     (let fs_info = eb_fs_info leaf;
          len = apfs_chunk_length K leaf chunk;
          stripe_len = apfs_chunk_stripe_len K leaf chunk;
          type = apfs_chunk_type K leaf chunk;
          raid_index = apfs_bg_flags_to_raid_index K type
      in raid_ncopies K raid_index \<le> 2 \<and> raid_nparity K raid_index \<noteq> 2 \<and>
         IS_ALIGNED logical (ucast (fs_sectorsize fs_info)) \<and>
         apfs_chunk_sector_size K leaf chunk = fs_sectorsize fs_info \<and>
         len \<noteq> 0 \<and> IS_ALIGNED len (ucast (fs_sectorsize fs_info)) \<and>
         \<not> check_add_overflow logical len \<and>
         is_power_of_2 stripe_len \<and> stripe_len = APFS_STRIPE_LEN K \<and>
         type AND NOT (APFS_BLOCK_GROUP_TYPE_MASK K OR APFS_BLOCK_GROUP_PROFILE_MASK K) = 0 \<and>
         has_single_bit_set (type AND APFS_BLOCK_GROUP_PROFILE_MASK K) \<and>
         type AND APFS_BLOCK_GROUP_TYPE_MASK K \<noteq> 0 \<and>
         \<not> (type AND APFS_BLOCK_GROUP_SYSTEM K \<noteq> 0 \<and>
            type AND (APFS_BLOCK_GROUP_METADATA K OR APFS_BLOCK_GROUP_DATA K) \<noteq> 0) \<and>
         (fs_super_incompat_flags fs_info AND APFS_FEATURE_INCOMPAT_MIXED_GROUPS K \<noteq> 0 \<or>
          \<not> (type AND APFS_BLOCK_GROUP_METADATA K \<noteq> 0 \<and>
             type AND APFS_BLOCK_GROUP_DATA K \<noteq> 0)) \<and>
         type AND APFS_BLOCK_GROUP_RAID10 K = 0 \<and>
         type AND APFS_BLOCK_GROUP_RAID6 K = 0)"

text \<open>The key and the header of the extent item at \<open>slot\<close> are valid: a metadata item only
  with skinny metadata and with a level below the maximum as key offset; the key objectid (the
  address of the extent) sector-aligned; the item at least as long as the header; the
  generation at most one above that of the super block; exactly one of the flags data and tree
  block; for a tree block, the node size as key offset of an extent item and, unless the key is
  a metadata item, a level below the maximum in the tree block info; for data, the key type
  extent item, a sector-aligned length and no full backref flag.\<close>

definition extent_head_valid :: "ctree_h \<Rightarrow> extent_buffer \<Rightarrow> key \<Rightarrow> int \<Rightarrow> bool" where
  "extent_head_valid K leaf key slot =
     (let fs_info = eb_fs_info leaf;
          sectorsize = (ucast (fs_sectorsize fs_info) :: u64);
          ei = apfs_item_ptr K leaf slot;
          flags = apfs_extent_flags K leaf ei
      in (key_type key = APFS_METADATA_ITEM_KEY K \<longrightarrow>
            apfs_fs_incompat_SKINNY_METADATA K fs_info \<and>
            key_offset key < word_of_int (APFS_MAX_LEVEL K)) \<and>
         IS_ALIGNED (key_objectid key) sectorsize \<and>
         sizeof_extent_item K \<le> ucast (apfs_item_size_nr K leaf slot) \<and>
         apfs_extent_generation K leaf ei \<le> fs_super_generation fs_info + 1 \<and>
         has_single_bit_set
           (flags AND (APFS_EXTENT_FLAG_DATA K OR APFS_EXTENT_FLAG_TREE_BLOCK K)) \<and>
         (if flags AND APFS_EXTENT_FLAG_TREE_BLOCK K \<noteq> 0
          then (key_type key = APFS_EXTENT_ITEM_KEY K \<longrightarrow>
                  key_offset key = ucast (fs_nodesize fs_info)) \<and>
               (key_type key \<noteq> APFS_METADATA_ITEM_KEY K \<longrightarrow>
                  uint (apfs_tree_block_level K leaf (ei + sizeof_extent_item K))
                    < APFS_MAX_LEVEL K)
          else key_type key = APFS_EXTENT_ITEM_KEY K \<and>
               IS_ALIGNED (key_offset key) sectorsize \<and>
               flags AND APFS_BLOCK_FLAG_FULL_BACKREF K = 0))"

text \<open>Where the inline references of the extent item at \<open>slot\<close> start: after the header and,
  for a tree block whose key is not a metadata item, after the tree block info.\<close>

definition extent_first_inline_ref :: "ctree_h \<Rightarrow> extent_buffer \<Rightarrow> key \<Rightarrow> int \<Rightarrow> ulong" where
  "extent_first_inline_ref K leaf key slot =
     (let ei = apfs_item_ptr K leaf slot
      in if apfs_extent_flags K leaf ei AND APFS_EXTENT_FLAG_TREE_BLOCK K \<noteq> 0 \<and>
            key_type key \<noteq> APFS_METADATA_ITEM_KEY K
         then ei + sizeof_extent_item K + sizeof_tree_block_info K
         else ei + sizeof_extent_item K)"

text \<open>The four types of inline reference are four different tags.\<close>

definition inline_ref_types_distinct :: "ctree_h \<Rightarrow> bool" where
  "inline_ref_types_distinct K =
     distinct [APFS_TREE_BLOCK_REF_KEY K, APFS_SHARED_BLOCK_REF_KEY K,
               APFS_EXTENT_DATA_REF_KEY K, APFS_SHARED_DATA_REF_KEY K]"

text \<open>What the inline reference at \<open>iref\<close> counts for, by its type: the count field of a
  shared data reference (the structure that follows the inline reference), the count field of
  an extent data reference (the structure that starts at the member \<^verbatim>\<open>offset\<close> of the inline
  reference), and one for a reference to a tree block.\<close>

definition inline_ref_count :: "ctree_h \<Rightarrow> extent_buffer \<Rightarrow> ulong \<Rightarrow> nat" where
  "inline_ref_count K leaf iref =
     (if apfs_extent_inline_ref_type K leaf iref = APFS_SHARED_DATA_REF_KEY K
      then unat (apfs_shared_data_ref_count K leaf (iref + sizeof_extent_inline_ref K))
      else if apfs_extent_inline_ref_type K leaf iref = APFS_EXTENT_DATA_REF_KEY K
      then unat (apfs_extent_data_ref_count K leaf
                   (iref + offsetof_extent_inline_ref_offset K))
      else 1)"

text \<open>The inline reference at \<open>iref\<close> is valid in an item that ends at \<open>end\<close>: the reference,
  with the size of its type, lies inside the item; its type is one of the four; the parent
  address of a shared reference and the file offset of an extent data reference are
  sector-aligned.\<close>

definition inline_ref_valid :: "ctree_h \<Rightarrow> extent_buffer \<Rightarrow> ulong \<Rightarrow> ulong \<Rightarrow> bool" where
  "inline_ref_valid K leaf end iref =
     (let sectorsize = (ucast (fs_sectorsize (eb_fs_info leaf)) :: u64);
          type = apfs_extent_inline_ref_type K leaf iref
      in iref + sizeof_extent_inline_ref K \<le> end \<and>
         iref + ucast (apfs_extent_inline_ref_size K type) \<le> end \<and>
         type \<in> {APFS_TREE_BLOCK_REF_KEY K, APFS_SHARED_BLOCK_REF_KEY K,
                 APFS_EXTENT_DATA_REF_KEY K, APFS_SHARED_DATA_REF_KEY K} \<and>
         (type = APFS_SHARED_BLOCK_REF_KEY K \<or> type = APFS_SHARED_DATA_REF_KEY K \<longrightarrow>
            IS_ALIGNED (apfs_extent_inline_ref_offset K leaf iref) sectorsize) \<and>
         (type = APFS_EXTENT_DATA_REF_KEY K \<longrightarrow>
            IS_ALIGNED (apfs_extent_data_ref_offset K leaf
                          (iref + offsetof_extent_inline_ref_offset K)) sectorsize))"

text \<open>The inline references at the addresses \<open>irefs\<close> fill the item from \<open>ptr\<close> to \<open>end\<close>: each
  is valid and starts where the one before it ends, the first at \<open>ptr\<close>, and the last ends at
  \<open>end\<close>.\<close>

fun inline_refs_at ::
  "ctree_h \<Rightarrow> extent_buffer \<Rightarrow> ulong \<Rightarrow> ulong \<Rightarrow> ulong list \<Rightarrow> bool" where
  "inline_refs_at K leaf end ptr [] = (ptr = end)"
| "inline_refs_at K leaf end ptr (iref # irefs) =
     (iref = ptr \<and> ptr < end \<and> inline_ref_valid K leaf end iref \<and>
      inline_refs_at K leaf end
        (iref + ucast (apfs_extent_inline_ref_size K
                         (apfs_extent_inline_ref_type K leaf iref))) irefs)"

text \<open>The file extent item at \<open>slot\<close> is a regular or preallocated extent that passes the
  checks \<^verbatim>\<open>check_extent_data_item\<close> makes on the item itself, the ones before it looks at the
  item of the slot before.\<close>

definition regular_extent_valid :: "ctree_h \<Rightarrow> extent_buffer \<Rightarrow> key \<Rightarrow> int \<Rightarrow> bool" where
  "regular_extent_valid K leaf key slot =
     (let sectorsize = (ucast (fs_sectorsize (eb_fs_info leaf)) :: u64);
          item_size = (ucast (apfs_item_size_nr K leaf slot) :: ulong);
          fi = apfs_item_ptr K leaf slot
      in IS_ALIGNED (key_offset key) sectorsize \<and>
         \<not> item_size < APFS_FILE_EXTENT_INLINE_DATA_START K \<and>
         apfs_file_extent_type K leaf fi < APFS_NR_FILE_EXTENT_TYPES K \<and>
         apfs_file_extent_compression K leaf fi < APFS_NR_COMPRESS_TYPES K \<and>
         apfs_file_extent_encryption K leaf fi = 0 \<and>
         apfs_file_extent_type K leaf fi \<noteq> APFS_FILE_EXTENT_INLINE K \<and>
         item_size = sizeof_file_extent_item K \<and>
         IS_ALIGNED (apfs_file_extent_ram_bytes K leaf fi) sectorsize \<and>
         IS_ALIGNED (apfs_file_extent_disk_bytenr K leaf fi) sectorsize \<and>
         IS_ALIGNED (apfs_file_extent_disk_num_bytes K leaf fi) sectorsize \<and>
         IS_ALIGNED (apfs_file_extent_offset K leaf fi) sectorsize \<and>
         IS_ALIGNED (apfs_file_extent_num_bytes K leaf fi) sectorsize \<and>
         \<not> check_add_overflow (apfs_file_extent_num_bytes K leaf fi) (key_offset key))"

section \<open>Concrete blocks\<close>

text \<open>A chunk at pointer 0x200: 256 MiB long, stripe length 64 KiB, type data with the RAID1
  profile, sector size 4096.\<close>

definition raid1_chunk :: ctree_h where
  "raid1_chunk =
     blank_ctree\<lparr>apfs_chunk_length := (\<lambda>eb p. 0x10000000),
                 apfs_chunk_stripe_len := (\<lambda>eb p. 0x10000),
                 apfs_chunk_sub_stripes := (\<lambda>eb p. 1),
                 apfs_chunk_type := (\<lambda>eb p. 0x11),
                 apfs_chunk_sector_size := (\<lambda>eb p. 4096)\<rparr>"

text \<open>A leaf of the tree 5 with two file extent items of the inode 256.  The first is a
  regular extent of 8192 bytes at file offset 0; the second has the key offset 4096, inside
  the first, and an item size of 52 bytes where 53 are expected.\<close>

definition overlap_short_item :: ctree_h where
  "overlap_short_item =
     blank_ctree\<lparr>apfs_header_nritems := (\<lambda>eb. 2),
                 apfs_header_owner := (\<lambda>eb. 5),
                 apfs_item_key_to_cpu :=
                   (\<lambda>eb slot. \<lparr>key_objectid = 256, key_type = 108,
                               key_offset = (if slot = 0 then 0 else 4096)\<rparr>),
                 apfs_item_size_nr := (\<lambda>eb slot. if slot = 0 then 53 else 52),
                 apfs_item_ptr := (\<lambda>eb slot. if slot = 0 then 0x3F00 else 0x3E00),
                 apfs_file_extent_type := (\<lambda>eb p. 1),
                 apfs_file_extent_num_bytes := (\<lambda>eb p. 8192)\<rparr>"

text \<open>The same leaf as \<open>overlap_short_item\<close> with a second item of the expected size, and its
  two keys.\<close>

definition overlap_regular_item :: ctree_h where
  "overlap_regular_item = overlap_short_item\<lparr>apfs_item_size_nr := (\<lambda>eb slot. 53)\<rparr>"

definition extent_key_0 :: key where
  "extent_key_0 = \<lparr>key_objectid = 256, key_type = 108, key_offset = 0\<rparr>"

definition extent_key_4096 :: key where
  "extent_key_4096 = \<lparr>key_objectid = 256, key_type = 108, key_offset = 4096\<rparr>"

text \<open>An extent item at pointer 1000 for the data extent at 1 MiB, 8192 bytes long, with the
  reference count \<open>refs\<close> in its header and two inline references: a shared data reference at
  1024, whose count 2 is in the structure at 1033, and an extent data reference at 1037, whose
  count 3 is in the structure at 1038.  The item is 24 + 13 + 29 = 66 bytes long.\<close>

definition data_extent_item :: "u64 \<Rightarrow> ctree_h" where
  "data_extent_item refs =
     blank_ctree\<lparr>apfs_item_size_nr := (\<lambda>eb slot. 66),
                 apfs_item_ptr := (\<lambda>eb slot. 1000),
                 apfs_item_ptr_offset := (\<lambda>eb slot. 1000),
                 apfs_extent_flags := (\<lambda>eb p. 1),
                 apfs_extent_refs := (\<lambda>eb p. refs),
                 apfs_extent_generation := (\<lambda>eb p. 5),
                 apfs_extent_inline_ref_type := (\<lambda>eb p. if p = 1024 then 184 else 178),
                 apfs_extent_inline_ref_offset := (\<lambda>eb p. 4096),
                 apfs_extent_data_ref_count := (\<lambda>eb p. if p = 1038 then 3 else 0),
                 apfs_shared_data_ref_count := (\<lambda>eb p. if p = 1033 then 2 else 0)\<rparr>"

definition data_extent_key :: key where
  "data_extent_key = \<lparr>key_objectid = 0x100000, key_type = 168, key_offset = 8192\<rparr>"

text \<open>A leaf of the tree 5 with two inode items of 160 bytes (regular files of mode 0644),
  back to back from the end of the data area (16283 bytes), whose keys are out of order:
  (257, 1, 0) before (256, 1, 0).\<close>

definition misordered_leaf :: ctree_h where
  "misordered_leaf =
     blank_ctree\<lparr>apfs_header_nritems := (\<lambda>eb. 2),
                 apfs_header_owner := (\<lambda>eb. 5),
                 apfs_item_key_to_cpu :=
                   (\<lambda>eb slot. \<lparr>key_objectid = (if slot = 0 then 257 else 256), key_type = 1,
                               key_offset = 0\<rparr>),
                 apfs_item_size_nr := (\<lambda>eb slot. 160),
                 apfs_item_offset_nr := (\<lambda>eb slot. if slot = 0 then 16123 else 15963),
                 apfs_item_end_nr := (\<lambda>eb slot. if slot = 0 then 16283 else 16123),
                 apfs_inode_mode := (\<lambda>eb p. 0x81A4)\<rparr>"

text \<open>A node of level 1 with three pointers to the blocks at 16 KiB, 32 KiB and 48 KiB, whose
  keys are (300, 1, 0), (256, 1, 0) and (400, 1, 0): the second is smaller than the first.\<close>

definition misordered_node :: ctree_h where
  "misordered_node =
     blank_ctree\<lparr>apfs_header_level := (\<lambda>eb. 1),
                 apfs_header_nritems := (\<lambda>eb. 3),
                 apfs_header_owner := (\<lambda>eb. 5),
                 apfs_node_blockptr := (\<lambda>eb slot. word_of_int (16384 * (slot + 1))),
                 apfs_node_key_to_cpu :=
                   (\<lambda>eb slot. \<lparr>key_objectid = (if slot = 0 then 300 else if slot = 1 then 256
                                               else 400),
                               key_type = 1, key_offset = 0\<rparr>)\<rparr>"

section \<open>Properties of the accessors\<close>

lemma unat_PAGE_SIZE: "ps < 64 \<Longrightarrow> unat (PAGE_SIZE ps) = 2 ^ ps"
proof -
  assume a: "ps < 64"
  have "unat (PAGE_SIZE ps) = take_bit 64 (push_bit ps (unat (1 :: ulong)))"
    unfolding PAGE_SIZE_def by (simp only: unsigned_push_bit_eq) simp
  also have "\<dots> = take_bit 64 ((2::nat) ^ ps)" by (simp add: push_bit_eq_mult)
  also have "\<dots> = 2 ^ ps" using a by (simp add: take_bit_nat_eq_self_iff)
  finally show ?thesis .
qed

lemma unat_page_index: "unat (get_eb_page_index ps m) = unat m div 2 ^ ps"
  unfolding get_eb_page_index_def
  by (rule trans [OF unat_drop_bit_eq drop_bit_eq_div])

lemma PAGE_SIZE_mask: "PAGE_SIZE ps - 1 = mask ps"
  by (simp add: PAGE_SIZE_def mask_eq_exp_minus_1)

lemma unat_oip: "unat (get_eb_offset_in_page ps eb m) = unat m mod 2 ^ ps"
proof -
  have "get_eb_offset_in_page ps eb m = take_bit ps m"
    unfolding get_eb_offset_in_page_def PAGE_SIZE_mask by (rule take_bit_eq_mask [symmetric])
  then have "unat (get_eb_offset_in_page ps eb m) = take_bit ps (unat m)"
    by (simp only: unsigned_take_bit_eq)
  then show ?thesis by (simp only: take_bit_eq_mod)
qed

lemma unat_len_bound: "unat (w :: ulong) < 2 ^ 64"
  using unsigned_less [of w, where 'a = nat] by simp

lemma unat_trunc_off: "unat (ucast (ucast (off :: ulong) :: u32) :: ulong) \<le> unat off"
proof -
  have "(ucast (ucast off :: u32) :: ulong) = take_bit 32 off"
    by (rule bit_word_eqI) (auto simp add: bit_simps)
  then have "unat (ucast (ucast off :: u32) :: ulong) = take_bit 32 (unat off)"
    by (simp only: unsigned_take_bit_eq)
  then show ?thesis by (simp only: take_bit_nat_less_eq_self)
qed

lemma unat_of_nat_small: "n < 2 ^ 64 \<Longrightarrow> unat (of_nat n :: ulong) = n"
  by (simp add: unat_of_nat)

lemma unat_member_offset:
  assumes "valid_access eb ptr off sz"
  shows "unat (ptr + off) = unat ptr + unat off"
proof -
  have "unat ptr + unat off < 2 ^ 64"
    using assms unat_len_bound [of "eb_len eb"] by (simp add: valid_access_def)
  then show ?thesis by (simp add: unat_add_lem [THEN iffD1])
qed

lemma check_setget_bounds_valid:
  assumes v: "valid_access eb ptr off sz"
  shows "check_setget_bounds eb ptr off sz"
proof -
  let ?t = "ucast (ucast off :: u32) :: ulong"
  have len: "unat (eb_len eb) < 2 ^ 64" by (rule unat_len_bound)
  have t: "unat ?t \<le> unat off" by (rule unat_trunc_off)
  have s: "unat ptr + unat ?t + sz \<le> unat (eb_len eb)"
    using v t by (simp add: valid_access_def)
  have m: "unat (ptr + ?t) = unat ptr + unat ?t"
    using s len by (simp add: unat_add_lem [THEN iffD1])
  have z: "unat (of_nat sz :: ulong) = sz"
    using s len by (simp add: unat_of_nat_small)
  have e: "unat (ptr + ?t + of_nat sz) = unat ptr + unat ?t + sz"
    using s len m z by (simp add: unat_add_lem [THEN iffD1])
  have "\<not> ptr + ?t > eb_len eb"
    using s m by (simp add: word_less_nat_alt)
  moreover have "\<not> ptr + ?t + of_nat sz > eb_len eb"
    using s e by (simp add: word_less_nat_alt)
  ultimately show ?thesis by (simp add: check_setget_bounds_def Let_def)
qed

lemma fits_iff:
  assumes ps: "page_shift_ok ps" and sz: "sz \<le> 8"
  shows "(get_eb_offset_in_page ps eb m + of_nat sz \<le> PAGE_SIZE ps)
         = (unat m mod 2 ^ ps + sz \<le> 2 ^ ps)"
proof -
  have p64: "ps < 64" using ps by (simp add: page_shift_ok_def)
  have P: "unat (PAGE_SIZE ps) = 2 ^ ps" using p64 by (rule unat_PAGE_SIZE)
  have "ps \<le> 30" using ps by (simp add: page_shift_ok_def)
  then have "(2::nat) ^ ps \<le> 2 ^ 30" by (intro power_increasing) simp_all
  then have Pb: "(2::nat) ^ ps \<le> 1073741824" by simp
  have o: "unat m mod 2 ^ ps < 2 ^ ps" by simp
  have z: "unat (of_nat sz :: ulong) = sz" using sz by (simp add: unat_of_nat_small)
  have "unat m mod 2 ^ ps + sz < 18446744073709551616"
    using order_less_le_trans [OF o Pb] sz by linarith
  then have "unat (get_eb_offset_in_page ps eb m) + unat (of_nat sz :: ulong) < 2 ^ 64"
    by (simp add: unat_oip z)
  then have "unat (get_eb_offset_in_page ps eb m + of_nat sz) = unat m mod 2 ^ ps + sz"
    by (simp add: unat_add_lem [THEN iffD1] unat_oip z)
  then show ?thesis by (simp add: word_le_nat_alt P)
qed

lemma unat_part:
  assumes ps: "page_shift_ok ps"
  shows "unat (PAGE_SIZE ps - get_eb_offset_in_page ps eb m) = 2 ^ ps - unat m mod 2 ^ ps"
proof -
  have p64: "ps < 64" using ps by (simp add: page_shift_ok_def)
  have P: "unat (PAGE_SIZE ps) = 2 ^ ps" using p64 by (rule unat_PAGE_SIZE)
  have "unat m mod 2 ^ ps < 2 ^ ps" by simp
  then have "get_eb_offset_in_page ps eb m \<le> PAGE_SIZE ps"
    by (simp add: word_le_nat_alt P unat_oip less_imp_le)
  then show ?thesis by (simp add: unat_sub P unat_oip)
qed

lemma unat_next_index:
  assumes ps: "page_shift_ok ps"
  shows "unat (get_eb_page_index ps m + 1) = unat m div 2 ^ ps + 1"
proof -
  have "unat m < 2 ^ 64" by (rule unat_len_bound)
  moreover have "3 \<le> ps" using ps by (simp add: page_shift_ok_def)
  then have "(2::nat) ^ 3 \<le> 2 ^ ps" by (intro power_increasing) simp_all
  ultimately have "unat m div 2 ^ ps < 2 ^ 61"
    by (simp add: less_mult_imp_div_less)
  then have "unat (get_eb_page_index ps m) + unat (1 :: ulong) < 2 ^ 64"
    by (simp add: unat_page_index)
  then show ?thesis by (simp add: unat_add_lem [THEN iffD1] unat_page_index)
qed

lemma page_slice:
  assumes "i < length (eb_pages eb)" "length (eb_pages eb ! i) = 2 ^ ps" "pos + n \<le> 2 ^ ps"
  shows "read_mem eb (Some i) pos n = Inr (eb_bytes ps eb (i * 2 ^ ps + pos) n)"
proof -
  have "take n (drop pos (eb_pages eb ! i)) = eb_bytes ps eb (i * 2 ^ ps + pos) n"
  proof (rule nth_equalityI)
    show "length (take n (drop pos (eb_pages eb ! i))) = length (eb_bytes ps eb (i * 2 ^ ps + pos) n)"
      using assms by (simp add: eb_bytes_def)
  next
    fix k assume "k < length (take n (drop pos (eb_pages eb ! i)))"
    then have k: "k < n" by simp
    then have "pos + k < 2 ^ ps" using assms(3) by simp
    then have "(i * 2 ^ ps + pos + k) div 2 ^ ps = i" "(i * 2 ^ ps + pos + k) mod 2 ^ ps = pos + k"
      by (simp_all add: add.assoc)
    then show "take n (drop pos (eb_pages eb ! i)) ! k = eb_bytes ps eb (i * 2 ^ ps + pos) n ! k"
      using k assms by (simp add: eb_bytes_def eb_byte_def)
  qed
  then show ?thesis using assms by (simp add: read_mem_def)
qed

lemma eb_bytes_append:
  "eb_bytes ps eb m a @ eb_bytes ps eb (m + a) b = eb_bytes ps eb m (a + b)"
proof -
  have "[m ..< m + a + b] = [m ..< m + a] @ [m + a ..< m + a + b]"
    by (rule upt_add_eq_append) simp
  then show ?thesis by (simp add: eb_bytes_def add.assoc)
qed

lemma div_mod_in_page:
  fixes P :: nat
  assumes "r < P"
  shows "(i * P + r) div P = i" "(i * P + r) mod P = r"
  using assms by simp_all

lemma in_page_range:
  fixes P :: nat
  assumes "i * P + pos \<le> j" "j < i * P + pos + n" "pos + n \<le> P"
  shows "j div P = i" "j mod P = j - i * P"
proof -
  obtain d where d: "j = i * P + (pos + d)" using assms(1) by (metis le_Suc_ex add.assoc)
  have "pos + d < P" using assms(2,3) d by simp
  then show "j div P = i" "j mod P = j - i * P" using d by simp_all
qed

lemma splice_nth:
  assumes "pos + length bs \<le> length p" "r < length p"
  shows "(take pos p @ bs @ drop (pos + length bs) p) ! r =
         (if pos \<le> r \<and> r < pos + length bs then bs ! (r - pos) else p ! r)"
proof -
  have pl: "pos \<le> length p" using assms(1) by simp
  consider "r < pos" | "pos \<le> r" "r < pos + length bs" | "pos + length bs \<le> r"
    by linarith
  then show ?thesis
  proof cases
    case 1
    then show ?thesis by (simp add: nth_append min_absorb2 pl)
  next
    case 2
    then have "r - pos < length bs" by linarith
    with 2 show ?thesis by (simp add: nth_append min_absorb2 pl)
  next
    case 3
    then have a: "\<not> r < pos" "\<not> r - pos < length bs" by linarith+
    have "pos + length bs + (r - pos - length bs) = r" using 3 by linarith
    then have "drop (pos + length bs) p ! (r - pos - length bs) = p ! r"
      using assms(1) by (simp add: nth_drop)
    with 3 a show ?thesis by (simp add: nth_append min_absorb2 pl)
  qed
qed

lemma write_mem_page:
  assumes "i < length (eb_pages eb)" "length (eb_pages eb ! i) = 2 ^ ps"
    and "pos + length bs \<le> 2 ^ ps"
  shows "\<exists>eb'. write_mem eb (Some i) pos bs = Inr eb' \<and>
           eb_fs_info eb' = eb_fs_info eb \<and> eb_start eb' = eb_start eb \<and>
           eb_len eb' = eb_len eb \<and>
           length (eb_pages eb') = length (eb_pages eb) \<and>
           (\<forall>k < length (eb_pages eb). length (eb_pages eb' ! k) = length (eb_pages eb ! k)) \<and>
           (\<forall>k < length (eb_pages eb). k \<noteq> i \<longrightarrow> eb_pages eb' ! k = eb_pages eb ! k) \<and>
           (\<forall>j < length (eb_pages eb) * 2 ^ ps. eb_byte ps eb' j =
              (if i * 2 ^ ps + pos \<le> j \<and> j < i * 2 ^ ps + pos + length bs
               then bs ! (j - (i * 2 ^ ps + pos)) else eb_byte ps eb j))"
proof -
  let ?P = "(2::nat) ^ ps"
  let ?p = "eb_pages eb ! i"
  let ?q = "take pos ?p @ bs @ drop (pos + length bs) ?p"
  let ?eb' = "eb\<lparr>eb_pages := (eb_pages eb)[i := ?q]\<rparr>"
  have w: "write_mem eb (Some i) pos bs = Inr ?eb'"
    using assms by (simp add: write_mem_def)
  have lq: "length ?q = length ?p" using assms by simp
  have q: "?q ! r = (if pos \<le> r \<and> r < pos + length bs then bs ! (r - pos) else ?p ! r)"
    if "r < ?P" for r
    using assms that splice_nth [of pos bs ?p r] by simp
  have bytes: "eb_byte ps ?eb' j =
      (if i * ?P + pos \<le> j \<and> j < i * ?P + pos + length bs
       then bs ! (j - (i * ?P + pos)) else eb_byte ps eb j)"
    if j: "j < length (eb_pages eb) * ?P" for j
  proof (cases "i * ?P + pos \<le> j \<and> j < i * ?P + pos + length bs")
    case True
    then have dm: "j div ?P = i" "j mod ?P = j - i * ?P"
      using in_page_range [of i ?P pos j "length bs"] assms(3) by simp_all
    have r: "j - i * ?P < ?P" using dm(2) [symmetric] by simp
    have "pos \<le> j - i * ?P \<and> j - i * ?P < pos + length bs" using True by auto
    then have "?q ! (j - i * ?P) = bs ! (j - i * ?P - pos)" using q [OF r] by simp
    moreover have "j - i * ?P - pos = j - (i * ?P + pos)" by simp
    ultimately show ?thesis using True dm assms(1) by (simp add: eb_byte_def)
  next
    case False
    then have c: "(i * ?P + pos \<le> j \<and> j < i * ?P + pos + length bs) = False" by blast
    show ?thesis
    proof (cases "j div ?P = i")
      case ne: False
      then show ?thesis unfolding c by (simp add: eb_byte_def)
    next
      case eq: True
      have r: "j mod ?P < ?P" by simp
      have jr: "j = i * ?P + j mod ?P" using eq div_mult_mod_eq [of j ?P] by simp
      have "(pos \<le> j mod ?P \<and> j mod ?P < pos + length bs) = False"
        using False jr by (metis add.assoc add_le_cancel_left nat_add_left_cancel_less)
      then have "?q ! (j mod ?P) = ?p ! (j mod ?P)" using q [OF r] by (simp only: if_False)
      then show ?thesis unfolding c using eq assms(1) by (simp add: eb_byte_def)
    qed
  qed
  have lens: "\<forall>k < length (eb_pages eb). length (eb_pages ?eb' ! k) = length (eb_pages eb ! k)"
  proof (intro allI impI)
    fix k assume k: "k < length (eb_pages eb)"
    have pg: "eb_pages ?eb' = (eb_pages eb)[i := ?q]" by simp
    show "length (eb_pages ?eb' ! k) = length (eb_pages eb ! k)"
    proof (cases "i = k")
      case True
      then have "eb_pages ?eb' ! k = ?q" unfolding pg using k by simp
      then show ?thesis using lq True by (simp only:)
    next
      case False
      then have "eb_pages ?eb' ! k = eb_pages eb ! k" unfolding pg by simp
      then show ?thesis by (simp only:)
    qed
  qed
  have others: "\<forall>k < length (eb_pages eb). k \<noteq> i \<longrightarrow> eb_pages ?eb' ! k = eb_pages eb ! k"
    by simp
  show ?thesis
    apply (rule exI [of _ ?eb'])
    apply (intro conjI)
           apply (rule w)
          apply simp
         apply simp
        apply simp
       apply simp
      apply (rule lens)
     apply (rule others)
    using bytes apply blast
    done
qed

lemma apfs_get_nat:
  fixes eb ptr off ps
  defines "m \<equiv> unat ptr + unat off"
  assumes ps: "page_shift_ok ps" and sz: "LENGTH('a::len) div 8 \<le> 8"
    and v: "valid_access eb ptr off (LENGTH('a) div 8)"
  shows "(apfs_get ps eb ptr off :: fault + 'a word) =
     (if m mod 2 ^ ps + LENGTH('a) div 8 \<le> 2 ^ ps
      then (case read_mem eb (Some (m div 2 ^ ps)) (m mod 2 ^ ps) (LENGTH('a) div 8) of
              Inl f \<Rightarrow> Inl f | Inr lebytes \<Rightarrow> Inr (get_unaligned_le lebytes))
      else (case read_mem eb (Some (m div 2 ^ ps)) (m mod 2 ^ ps) (2 ^ ps - m mod 2 ^ ps) of
              Inl f \<Rightarrow> Inl f
            | Inr lo \<Rightarrow>
               (case read_mem eb (Some (m div 2 ^ ps + 1)) 0
                       (LENGTH('a) div 8 - (2 ^ ps - m mod 2 ^ ps)) of
                  Inl f \<Rightarrow> Inl f | Inr hi \<Rightarrow> Inr (get_unaligned_le (lo @ hi)))))"
  unfolding apfs_get_def Let_def m_def
  by (simp only: check_setget_bounds_valid [OF v] fits_iff [OF ps sz] unat_part [OF ps]
      unat_next_index [OF ps] unat_page_index unat_oip unat_member_offset [OF v]
      page_address_def not_True_eq_False if_False)

lemma apfs_set_nat:
  fixes eb ptr off ps
  defines "m \<equiv> unat ptr + unat off"
  assumes ps: "page_shift_ok ps" and sz: "LENGTH('a::len) div 8 \<le> 8"
    and v: "valid_access eb ptr off (LENGTH('a) div 8)"
  shows "apfs_set ps eb ptr off (val :: 'a word) =
     (if m mod 2 ^ ps + LENGTH('a) div 8 \<le> 2 ^ ps
      then write_mem eb (Some (m div 2 ^ ps)) (m mod 2 ^ ps)
             (put_unaligned_le (LENGTH('a) div 8) val)
      else (case write_mem eb (Some (m div 2 ^ ps)) (m mod 2 ^ ps)
                   (take (2 ^ ps - m mod 2 ^ ps) (put_unaligned_le (LENGTH('a) div 8) val)) of
              Inl f \<Rightarrow> Inl f
            | Inr eb' \<Rightarrow>
                write_mem eb' (Some (m div 2 ^ ps + 1)) 0
                  (take (LENGTH('a) div 8 - (2 ^ ps - m mod 2 ^ ps))
                     (drop (2 ^ ps - m mod 2 ^ ps) (put_unaligned_le (LENGTH('a) div 8) val)))))"
  unfolding apfs_set_def Let_def m_def
  by (simp only: check_setget_bounds_valid [OF v] fits_iff [OF ps sz] unat_part [OF ps]
      unat_next_index [OF ps] unat_page_index unat_oip unat_member_offset [OF v]
      page_address_def not_True_eq_False if_False)

lemma page_exists:
  assumes wf: "eb_wf ps eb" and v: "valid_access eb ptr off sz" and sz: "0 < sz"
  defines "m \<equiv> unat ptr + unat off"
  shows "m div 2 ^ ps < length (eb_pages eb)"
    and "length (eb_pages eb ! (m div 2 ^ ps)) = 2 ^ ps"
proof -
  have "m < length (eb_pages eb) * 2 ^ ps"
    using wf v sz by (simp add: eb_wf_def valid_access_def m_def)
  then show i: "m div 2 ^ ps < length (eb_pages eb)"
    by (simp add: less_mult_imp_div_less)
  then show "length (eb_pages eb ! (m div 2 ^ ps)) = 2 ^ ps"
    using wf by (simp add: eb_wf_def)
qed

lemma next_page_exists:
  assumes wf: "eb_wf ps eb" and v: "valid_access eb ptr off sz"
  defines "m \<equiv> unat ptr + unat off"
  assumes straddle: "\<not> m mod 2 ^ ps + sz \<le> 2 ^ ps"
  shows "m div 2 ^ ps + 1 < length (eb_pages eb)"
    and "length (eb_pages eb ! (m div 2 ^ ps + 1)) = 2 ^ ps"
proof -
  let ?P = "(2::nat) ^ ps"
  have "m + sz \<le> length (eb_pages eb) * ?P"
    using wf v by (simp add: eb_wf_def valid_access_def m_def)
  moreover have "m = m div ?P * ?P + m mod ?P" by (rule div_mult_mod_eq [symmetric])
  ultimately have "m div ?P * ?P + (m mod ?P + sz) \<le> length (eb_pages eb) * ?P"
    by linarith
  then have "m div ?P * ?P + ?P < length (eb_pages eb) * ?P"
    using straddle by linarith
  then have "(m div ?P + 1) * ?P < length (eb_pages eb) * ?P"
    by (simp add: algebra_simps)
  then show i: "m div ?P + 1 < length (eb_pages eb)"
    by (rule mult_less_cancel2 [THEN iffD1, THEN conjunct2])
  then show "length (eb_pages eb ! (m div ?P + 1)) = ?P"
    using wf by (simp add: eb_wf_def)
qed

lemma length_put_le [simp]: "length (put_unaligned_le n v) = n"
  by (induction n arbitrary: v) simp_all

lemma apfs_get_linear:
  assumes ps: "page_shift_ok ps" and wf: "eb_wf ps eb"
    and sz0: "0 < LENGTH('a::len) div 8" and sz: "LENGTH('a) div 8 \<le> 8"
    and v: "valid_access eb ptr off (LENGTH('a) div 8)"
  shows "(apfs_get ps eb ptr off :: fault + 'a word) =
         Inr (get_unaligned_le (eb_bytes ps eb (unat ptr + unat off) (LENGTH('a) div 8)))"
proof -
  define m where "m = unat ptr + unat off"
  define P where "P = (2::nat) ^ ps"
  define n where "n = LENGTH('a) div 8"
  have P8: "8 \<le> P"
  proof -
    have "3 \<le> ps" using ps by (simp add: page_shift_ok_def)
    then have "(2::nat) ^ 3 \<le> 2 ^ ps" by (intro power_increasing) simp_all
    then show ?thesis by (simp add: P_def)
  qed
  have mP: "m div P * P + m mod P = m" by (rule div_mult_mod_eq)
  have i: "m div P < length (eb_pages eb)" "length (eb_pages eb ! (m div P)) = P"
    using page_exists [OF wf v sz0] by (simp_all add: m_def P_def)
  show ?thesis
  proof (cases "m mod P + n \<le> P")
    case True
    have "read_mem eb (Some (m div P)) (m mod P) n = Inr (eb_bytes ps eb (m div P * P + m mod P) n)"
      using page_slice [of "m div P" eb ps "m mod P" n] i True by (simp add: P_def)
    then show ?thesis
      using True apfs_get_nat [OF ps sz v]
      by (simp add: mP m_def [symmetric] P_def [symmetric] n_def [symmetric])
  next
    case False
    define part where "part = P - m mod P"
    have oP: "m mod P < P" using P8 by simp
    have part: "m mod P + part = P" "part < n" "part + (n - part) = n"
      using False oP unfolding part_def by linarith+
    have i1: "m div P + 1 < length (eb_pages eb)" "length (eb_pages eb ! (m div P + 1)) = P"
      using next_page_exists [OF wf v] False by (simp_all add: m_def P_def n_def)
    have r1: "read_mem eb (Some (m div P)) (m mod P) part = Inr (eb_bytes ps eb m part)"
      using page_slice [of "m div P" eb ps "m mod P" part] i part(1) by (simp add: P_def mP [unfolded P_def])
    have nP: "0 + (n - part) \<le> P" using sz P8 by (simp add: n_def)
    have "(m div P + 1) * P = m div P * P + P" by simp
    then have nxt: "(m div P + 1) * P + 0 = m + part"
      using mP part(1) by linarith
    have r2: "read_mem eb (Some (m div P + 1)) 0 (n - part) = Inr (eb_bytes ps eb (m + part) (n - part))"
      using page_slice [of "m div P + 1" eb ps 0 "n - part"] i1 nP nxt by (simp add: P_def)
    have "eb_bytes ps eb m part @ eb_bytes ps eb (m + part) (n - part) = eb_bytes ps eb m n"
      using eb_bytes_append [of ps eb m part "n - part"] part(3) by simp
    then show ?thesis
      using False r1 r2 apfs_get_nat [OF ps sz v]
      by (simp add: m_def [symmetric] P_def [symmetric] n_def [symmetric] part_def [symmetric])
  qed
qed

lemma apfs_set_linear:
  assumes ps: "page_shift_ok ps" and wf: "eb_wf ps eb"
    and sz0: "0 < LENGTH('a::len) div 8" and sz: "LENGTH('a) div 8 \<le> 8"
    and v: "valid_access eb ptr off (LENGTH('a) div 8)"
  shows "\<exists>eb'. apfs_set ps eb ptr off (val :: 'a word) = Inr eb' \<and>
           stored ps eb eb' (unat ptr + unat off) (put_unaligned_le (LENGTH('a) div 8) val)"
proof -
  define m where "m = unat ptr + unat off"
  define P where "P = (2::nat) ^ ps"
  define n where "n = LENGTH('a) div 8"
  define le where "le = put_unaligned_le n val"
  have len_le: "length le = n" by (simp add: le_def)
  have P8: "8 \<le> P"
  proof -
    have "3 \<le> ps" using ps by (simp add: page_shift_ok_def)
    then have "(2::nat) ^ 3 \<le> 2 ^ ps" by (intro power_increasing) simp_all
    then show ?thesis by (simp add: P_def)
  qed
  have mP: "m div P * P + m mod P = m" by (rule div_mult_mod_eq)
  have i: "m div P < length (eb_pages eb)" "length (eb_pages eb ! (m div P)) = P"
    using page_exists [OF wf v sz0] by (simp_all add: m_def P_def)
  show ?thesis
  proof (cases "m mod P + n \<le> P")
    case True
    obtain eb' where w: "write_mem eb (Some (m div P)) (m mod P) le = Inr eb'"
      and fr: "eb_fs_info eb' = eb_fs_info eb" "eb_start eb' = eb_start eb"
        "eb_len eb' = eb_len eb" "length (eb_pages eb') = length (eb_pages eb)"
        "\<forall>k < length (eb_pages eb). length (eb_pages eb' ! k) = length (eb_pages eb ! k)"
        "\<forall>k < length (eb_pages eb). k \<noteq> m div P \<longrightarrow> eb_pages eb' ! k = eb_pages eb ! k"
      and bt: "\<forall>j < length (eb_pages eb) * P. eb_byte ps eb' j =
              (if m div P * P + m mod P \<le> j \<and> j < m div P * P + m mod P + length le
               then le ! (j - (m div P * P + m mod P)) else eb_byte ps eb j)"
      using write_mem_page [of "m div P" eb ps "m mod P" le] i True len_le
      unfolding P_def by blast
    have "stored ps eb eb' m le"
      unfolding stored_def using fr bt [unfolded mP] by (simp add: P_def)
    then show ?thesis
      using True w apfs_set_nat [OF ps sz v, of val]
      by (simp add: m_def [symmetric] P_def [symmetric] n_def [symmetric] le_def [symmetric])
  next
    case False
    define part where "part = P - m mod P"
    have oP: "m mod P < P" using P8 by simp
    have part: "m mod P + part = P" "part < n" "part + (n - part) = n"
      using False oP unfolding part_def by linarith+
    have i1: "m div P + 1 < length (eb_pages eb)" "length (eb_pages eb ! (m div P + 1)) = P"
      using next_page_exists [OF wf v] False by (simp_all add: m_def P_def n_def)
    have "(m div P + 1) * P = m div P * P + P" by simp
    then have nxt: "(m div P + 1) * P + 0 = m + part"
      using mP part(1) by linarith
    have l1: "length (take part le) = part" using part(2) len_le by simp
    have l2: "length (take (n - part) (drop part le)) = n - part" using len_le by simp
    obtain eb1 where w1: "write_mem eb (Some (m div P)) (m mod P) (take part le) = Inr eb1"
      and fr1: "eb_fs_info eb1 = eb_fs_info eb" "eb_start eb1 = eb_start eb"
        "eb_len eb1 = eb_len eb" "length (eb_pages eb1) = length (eb_pages eb)"
        "\<forall>k < length (eb_pages eb). length (eb_pages eb1 ! k) = length (eb_pages eb ! k)"
        "\<forall>k < length (eb_pages eb). k \<noteq> m div P \<longrightarrow> eb_pages eb1 ! k = eb_pages eb ! k"
      and bt1: "\<forall>j < length (eb_pages eb) * P. eb_byte ps eb1 j =
              (if m \<le> j \<and> j < m + part
               then take part le ! (j - m) else eb_byte ps eb j)"
      using write_mem_page [of "m div P" eb ps "m mod P" "take part le"] i part(1) l1
      unfolding P_def [symmetric] mP by auto
    have i1': "m div P + 1 < length (eb_pages eb1)" "length (eb_pages eb1 ! (m div P + 1)) = P"
      using i1 fr1 by simp_all
    have nP: "0 + length (take (n - part) (drop part le)) \<le> P"
      using sz P8 l2 by (simp add: n_def)
    obtain eb2 where w2: "write_mem eb1 (Some (m div P + 1)) 0 (take (n - part) (drop part le)) = Inr eb2"
      and fr2: "eb_fs_info eb2 = eb_fs_info eb1" "eb_start eb2 = eb_start eb1"
        "eb_len eb2 = eb_len eb1" "length (eb_pages eb2) = length (eb_pages eb1)"
        "\<forall>k < length (eb_pages eb1). length (eb_pages eb2 ! k) = length (eb_pages eb1 ! k)"
        "\<forall>k < length (eb_pages eb1). k \<noteq> m div P + 1 \<longrightarrow> eb_pages eb2 ! k = eb_pages eb1 ! k"
      and bt2: "\<forall>j < length (eb_pages eb1) * P. eb_byte ps eb2 j =
              (if m + part \<le> j \<and> j < m + part + (n - part)
               then take (n - part) (drop part le) ! (j - (m + part)) else eb_byte ps eb1 j)"
      using write_mem_page [of "m div P + 1" eb1 ps 0 "take (n - part) (drop part le)"] i1' nP
      unfolding P_def [symmetric] nxt l2 by auto
    have bytes: "eb_byte ps eb2 j = (if m \<le> j \<and> j < m + length le then le ! (j - m) else eb_byte ps eb j)"
      if j: "j < length (eb_pages eb) * P" for j
    proof -
      consider "j < m" | "m \<le> j" "j < m + part" | "m + part \<le> j" "j < m + n" | "m + n \<le> j"
        by linarith
      then show ?thesis
      proof cases
        case 1
        then show ?thesis using bt1 bt2 j fr1(4) by simp
      next
        case 2
        then have "take part le ! (j - m) = le ! (j - m)" by simp
        then show ?thesis using 2 bt1 bt2 j fr1(4) part(2) len_le by simp
      next
        case 3
        have "j - (m + part) < n - part" using 3 part by linarith
        then have "take (n - part) (drop part le) ! (j - (m + part)) = le ! (part + (j - (m + part)))"
          using len_le part by simp
        moreover have "part + (j - (m + part)) = j - m" using 3 by linarith
        ultimately show ?thesis using 3 bt2 j fr1(4) part len_le by simp
      next
        case 4
        then show ?thesis using bt1 bt2 j fr1(4) part len_le by simp
      qed
    qed
    have "stored ps eb eb2 m le"
      unfolding stored_def using fr1 fr2 bytes by (simp add: P_def)
    then show ?thesis
      using False w1 w2 apfs_set_nat [OF ps sz v, of val]
      by (simp add: m_def [symmetric] P_def [symmetric] n_def [symmetric] le_def [symmetric]
          part_def [symmetric])
  qed
qed

lemma stored_frame:
  assumes "stored ps eb eb' m bs"
  shows "eb_fs_info eb' = eb_fs_info eb" "eb_start eb' = eb_start eb" "eb_len eb' = eb_len eb"
    and "length (eb_pages eb') = length (eb_pages eb)"
  using assms by (simp_all add: stored_def)

lemma stored_page_length:
  assumes "stored ps eb eb' m bs" "k < length (eb_pages eb)"
  shows "length (eb_pages eb' ! k) = length (eb_pages eb ! k)"
  using assms by (simp add: stored_def)

lemma stored_other_pages:
  assumes "stored ps eb eb' m bs" "k < length (eb_pages eb)"
    and "k \<noteq> m div 2 ^ ps" "k \<noteq> m div 2 ^ ps + 1"
  shows "eb_pages eb' ! k = eb_pages eb ! k"
  using assms by (simp add: stored_def)

lemma stored_byte:
  assumes "stored ps eb eb' m bs" "j < length (eb_pages eb) * 2 ^ ps"
  shows "eb_byte ps eb' j = (if m \<le> j \<and> j < m + length bs then bs ! (j - m) else eb_byte ps eb j)"
  using assms by (simp add: stored_def)

lemma stored_wf:
  assumes st: "stored ps eb eb' m bs" and wf: "eb_wf ps eb"
  shows "eb_wf ps eb'"
proof -
  have "\<forall>p \<in> set (eb_pages eb'). length p = 2 ^ ps"
  proof
    fix p assume "p \<in> set (eb_pages eb')"
    then obtain k where k: "k < length (eb_pages eb')" "p = eb_pages eb' ! k"
      by (metis in_set_conv_nth)
    have k': "k < length (eb_pages eb)" using k(1) stored_frame(4) [OF st] by simp
    have "length p = length (eb_pages eb ! k)"
      using stored_page_length [OF st k'] k(2) by simp
    moreover have "eb_pages eb ! k \<in> set (eb_pages eb)" using k' by (rule nth_mem)
    moreover have "\<forall>p \<in> set (eb_pages eb). length p = 2 ^ ps"
      using wf unfolding eb_wf_def by (rule conjunct1)
    ultimately show "length p = 2 ^ ps" by simp
  qed
  moreover have "unat (eb_len eb') \<le> length (eb_pages eb') * 2 ^ ps"
    using wf stored_frame(3,4) [OF st] unfolding eb_wf_def by simp
  ultimately show ?thesis unfolding eb_wf_def by (rule conjI)
qed

lemma stored_valid_access:
  "stored ps eb eb' m bs \<Longrightarrow> valid_access eb' ptr off n = valid_access eb ptr off n"
  using stored_frame(3) [of ps eb eb' m bs] by (simp add: valid_access_def)

lemma get_put_le:
  "(get_unaligned_le (put_unaligned_le n v) :: 'a::len word) = take_bit (8 * n) v"
proof (induction n arbitrary: v)
  case 0
  show ?case by simp
next
  case (Suc n)
  show ?case
    apply (simp add: Suc)
    apply (rule bit_word_eqI)
    apply (auto simp add: bit_simps)
    done
qed

lemma apfs_get_set:
  assumes ps: "page_shift_ok ps" and wf: "eb_wf ps eb"
    and w: "8 dvd LENGTH('a::len)" "LENGTH('a) \<le> 64"
    and v: "valid_access eb ptr off (LENGTH('a) div 8)"
  shows "\<exists>eb'. apfs_set ps eb ptr off (val :: 'a word) = Inr eb' \<and>
               apfs_get ps eb' ptr off = Inr val"
proof -
  define n where "n = LENGTH('a) div 8"
  define m where "m = unat ptr + unat off"
  define le where "le = put_unaligned_le n val"
  have n8: "8 * n = LENGTH('a)" using w(1) by (simp add: n_def)
  have sz0: "0 < LENGTH('a) div 8" using n8 n_def by (metis len_gt_0 mult_0_right neq0_conv)
  have sz: "LENGTH('a) div 8 \<le> 8" using w(2) by simp
  obtain eb' where s: "apfs_set ps eb ptr off val = Inr eb'" and st: "stored ps eb eb' m le"
    using apfs_set_linear [OF ps wf sz0 sz v, of val] by (auto simp add: m_def le_def n_def)
  have wf': "eb_wf ps eb'" using st wf by (rule stored_wf)
  have v': "valid_access eb' ptr off (LENGTH('a) div 8)"
    using v stored_valid_access [OF st] by simp
  have g: "(apfs_get ps eb' ptr off :: fault + 'a word) = Inr (get_unaligned_le (eb_bytes ps eb' m n))"
    using apfs_get_linear [OF ps wf' sz0 sz v'] by (simp add: m_def n_def)
  have "eb_bytes ps eb' m n = le"
  proof (rule nth_equalityI)
    show "length (eb_bytes ps eb' m n) = length le" by (simp add: eb_bytes_def le_def)
  next
    fix k assume "k < length (eb_bytes ps eb' m n)"
    then have k: "k < n" by (simp add: eb_bytes_def)
    have "m + n \<le> length (eb_pages eb) * 2 ^ ps"
      using v wf by (simp add: valid_access_def eb_wf_def m_def n_def)
    then have "m + k < length (eb_pages eb) * 2 ^ ps" using k by simp
    then have "eb_byte ps eb' (m + k) = le ! k"
      using stored_byte [OF st, of "m + k"] k by (simp add: le_def)
    then show "eb_bytes ps eb' m n ! k = le ! k" using k by (simp add: eb_bytes_def)
  qed
  then have "(apfs_get ps eb' ptr off :: fault + 'a word) = Inr (take_bit (8 * n) val)"
    using g by (simp add: le_def get_put_le)
  then show ?thesis using s n8 by simp
qed

lemma apfs_get_token_miss:
  assumes "tok_kaddr token \<noteq> None"
    and "\<not> (tok_offset token \<le> ptr + off \<and>
            ptr + off + of_nat (LENGTH('a::len) div 8) \<le> tok_offset token + PAGE_SIZE ps)"
  shows "(apfs_get_token ps token ptr off :: fault + ('a word \<times> apfs_map_token)) =
         (case apfs_get ps (tok_eb token) ptr off of
            Inl f \<Rightarrow> Inl f
          | Inr v \<Rightarrow> Inr (v, token_after ps (LENGTH('a) div 8) token (ptr + off)))"
proof -
  have c: "(tok_offset token \<le> ptr + off \<and>
            ptr + off + of_nat (LENGTH('a) div 8) \<le> tok_offset token + PAGE_SIZE ps) = False"
    using assms(2) by simp
  have k: "(tok_kaddr token = None) = False" using assms(1) by simp
  show ?thesis
    unfolding apfs_get_token_def apfs_get_def token_after_def Let_def
    by (simp add: c k get_eb_offset_in_page_def split: sum.splits)
qed

lemma apfs_set_token_miss:
  assumes "tok_kaddr token \<noteq> None"
    and "\<not> (tok_offset token \<le> ptr + off \<and>
            ptr + off + of_nat (LENGTH('a::len) div 8) \<le> tok_offset token + PAGE_SIZE ps)"
  shows "apfs_set_token ps token ptr off (val :: 'a word) =
         (case apfs_set ps (tok_eb token) ptr off val of
            Inl f \<Rightarrow> Inl f
          | Inr eb' \<Rightarrow> Inr ((token_after ps (LENGTH('a) div 8) token (ptr + off))\<lparr>tok_eb := eb'\<rparr>))"
proof -
  have c: "(tok_offset token \<le> ptr + off \<and>
            ptr + off + of_nat (LENGTH('a) div 8) \<le> tok_offset token + PAGE_SIZE ps) = False"
    using assms(2) by simp
  have k: "(tok_kaddr token = None) = False" using assms(1) by simp
  show ?thesis
    unfolding apfs_set_token_def apfs_set_def token_after_def Let_def
    by (simp add: c k get_eb_offset_in_page_def split: sum.splits)
qed

lemma shift_back:
  fixes k :: ulong
  assumes "unat k * 2 ^ ps < 2 ^ 64"
  shows "get_eb_page_index ps (push_bit ps k) = k"
    and "push_bit ps k AND (PAGE_SIZE ps - 1) = 0"
proof -
  have u: "unat (push_bit ps k) = unat k * 2 ^ ps"
  proof -
    have "unat (push_bit ps k) = take_bit 64 (push_bit ps (unat k))"
      by (simp only: unsigned_push_bit_eq) simp
    also have "\<dots> = take_bit 64 (unat k * 2 ^ ps)" by (simp add: push_bit_eq_mult)
    also have "\<dots> = unat k * 2 ^ ps" using assms by (simp add: take_bit_nat_eq_self_iff)
    finally show ?thesis .
  qed
  have "unat (get_eb_page_index ps (push_bit ps k)) = unat k"
    by (simp only: unat_page_index u) simp
  then show "get_eb_page_index ps (push_bit ps k) = k"
    by (simp only: word_eq_iff_unsigned [where ?'a = nat])
  have "unat (get_eb_offset_in_page ps undefined (push_bit ps k)) = 0"
    by (simp only: unat_oip u) simp
  then have "get_eb_offset_in_page ps undefined (push_bit ps k) = 0"
    by (simp only: word_eq_iff_unsigned [where ?'a = nat]) simp
  then show "push_bit ps k AND (PAGE_SIZE ps - 1) = 0"
    by (simp only: get_eb_offset_in_page_def)
qed

lemma token_after_valid:
  assumes ps: "page_shift_ok ps" and sz: "sz \<le> 8"
    and v: "valid_access eb ptr off sz"
  shows "token_valid ps (token_after ps sz token (ptr + off))"
proof -
  define m where "m = unat ptr + unat off"
  define P where "P = (2::nat) ^ ps"
  have um: "unat (ptr + off) = m" using unat_member_offset [OF v] by (simp add: m_def)
  have mb: "m + sz < 2 ^ 64"
    using v unat_len_bound [of "eb_len eb"] by (simp add: valid_access_def m_def)
  have mP: "m div P * P + m mod P = m" by (rule div_mult_mod_eq)
  show ?thesis
  proof (cases "m mod P + sz \<le> P")
    case True
    have "m div P * P \<le> m" by simp
    then have "m div P * P < 2 ^ 64" using mb by linarith
    then have "unat (get_eb_page_index ps (ptr + off)) * 2 ^ ps < 2 ^ 64"
      by (simp add: unat_page_index um P_def [symmetric])
    then show ?thesis
      using True shift_back [of "get_eb_page_index ps (ptr + off)" ps]
      by (simp add: token_after_def token_valid_def Let_def fits_iff [OF ps sz] um
          P_def [symmetric])
  next
    case False
    have "(m div P + 1) * P = m div P * P + P" by simp
    then have "(m div P + 1) * P < 2 ^ 64" using False mP mb by linarith
    then have "unat (get_eb_page_index ps (ptr + off) + 1) * 2 ^ ps < 2 ^ 64"
      by (simp add: unat_next_index [OF ps] um P_def [symmetric])
    then show ?thesis
      using False shift_back [of "get_eb_page_index ps (ptr + off) + 1" ps]
      by (simp add: token_after_def token_valid_def Let_def fits_iff [OF ps sz] um
          P_def [symmetric])
  qed
qed

lemma token_hit:
  assumes ps: "page_shift_ok ps" and tv: "token_valid ps token"
    and sz0: "0 < sz" and sz: "sz \<le> 8"
    and v: "valid_access eb ptr off sz"
    and hit: "tok_offset token \<le> ptr + off"
             "ptr + off + of_nat sz \<le> tok_offset token + PAGE_SIZE ps"
  shows "tok_kaddr token = Some ((unat ptr + unat off) div 2 ^ ps)"
    and "(unat ptr + unat off) mod 2 ^ ps + sz \<le> 2 ^ ps"
proof -
  define m where "m = unat ptr + unat off"
  define P where "P = (2::nat) ^ ps"
  define t where "t = unat (tok_offset token)"
  have p64: "ps < 64" using ps by (simp add: page_shift_ok_def)
  have uP: "unat (PAGE_SIZE ps) = P" using unat_PAGE_SIZE [OF p64] by (simp add: P_def)
  have P0: "0 < P" by (simp add: P_def)
  have um: "unat (ptr + off) = m" using unat_member_offset [OF v] by (simp add: m_def)
  have mb: "m + sz < 2 ^ 64"
    using v unat_len_bound [of "eb_len eb"] by (simp add: valid_access_def m_def)
  have z: "unat (of_nat sz :: ulong) = sz" using sz by (simp add: unat_of_nat_small)
  have ums: "unat (ptr + off + of_nat sz) = m + sz"
    using mb um z by (simp add: unat_add_lem [THEN iffD1])
  have tb: "t < 2 ^ 64" unfolding t_def by (rule unat_len_bound)
  have al: "t mod P = 0"
  proof -
    have "get_eb_offset_in_page ps undefined (tok_offset token) = 0"
      using tv by (simp add: token_valid_def get_eb_offset_in_page_def)
    then have "unat (get_eb_offset_in_page ps undefined (tok_offset token)) = 0" by simp
    then show ?thesis by (simp only: unat_oip t_def P_def)
  qed
  have ka: "tok_kaddr token = Some (t div P)"
    using tv by (simp add: token_valid_def page_address_def unat_page_index t_def P_def)
  have le1: "t \<le> m" using hit(1) by (simp add: word_le_nat_alt um t_def)
  have le2: "m + sz \<le> unat (tok_offset token + PAGE_SIZE ps)"
    using hit(2) by (simp add: word_le_nat_alt ums)
  define N where "N = (2::nat) ^ 64"
  have PN: "P < N" unfolding P_def N_def using p64 by (intro power_strict_increasing) simp_all
  have tN: "t < N" using tb by (simp add: N_def)
  have wr: "unat (tok_offset token + PAGE_SIZE ps) = (t + P) mod N"
    by (simp add: unat_word_ariths uP t_def N_def)
  have nowrap: "t + P < N"
  proof (rule ccontr)
    assume "\<not> t + P < N"
    then have w: "N \<le> t + P" by simp
    have "(t + P) mod N = (t + P - N) mod N" using w by (rule le_mod_geq)
    also have "\<dots> = t + P - N" using tN PN by simp
    finally have "m + sz \<le> t + P - N" using le2 wr by simp
    then have "t < P" using le1 tN sz0 w by linarith
    then have "t = 0" using al by simp
    then show False using w PN by simp
  qed
  then have "(t + P) mod N = t + P" by simp
  then have le3: "m + sz \<le> t + P" using le2 wr by simp
  define k where "k = t div P"
  define d where "d = m - t"
  have k: "t = k * P" using div_mult_mod_eq [of t P] al by (simp add: k_def)
  have d: "m = k * P + d" using le1 k by (simp add: d_def)
  have dP: "d < P" using le3 d k sz0 by simp
  have md: "m div P = k" "m mod P = d" using d dP by simp_all
  have "d + sz \<le> P" using le3 d k by simp
  then show "tok_kaddr token = Some ((unat ptr + unat off) div 2 ^ ps)"
    and "(unat ptr + unat off) mod 2 ^ ps + sz \<le> 2 ^ ps"
    using ka md by (simp_all add: m_def [symmetric] P_def [symmetric] k_def)
qed

lemma token_valid_eb [simp]: "token_valid ps (token\<lparr>tok_eb := eb'\<rparr>) = token_valid ps token"
  by (simp add: token_valid_def)

lemma tok_eb_token_after [simp]: "tok_eb (token_after ps sz token m) = tok_eb token"
  by (simp add: token_after_def Let_def)

lemma apfs_get_token_plain:
  assumes ps: "page_shift_ok ps" and tv: "token_valid ps token"
    and sz0: "0 < LENGTH('a::len) div 8" and sz: "LENGTH('a) div 8 \<le> 8"
    and v: "valid_access (tok_eb token) ptr off (LENGTH('a) div 8)"
  shows "\<exists>token'. (apfs_get_token ps token ptr off :: fault + ('a word \<times> apfs_map_token)) =
            (case apfs_get ps (tok_eb token) ptr off of
               Inl f \<Rightarrow> Inl f | Inr val \<Rightarrow> Inr (val, token')) \<and>
          tok_eb token' = tok_eb token \<and> token_valid ps token'"
proof (cases "tok_offset token \<le> ptr + off \<and>
            ptr + off + of_nat (LENGTH('a) div 8) \<le> tok_offset token + PAGE_SIZE ps")
  case True
  have k: "tok_kaddr token = Some ((unat ptr + unat off) div 2 ^ ps)"
    and f: "(unat ptr + unat off) mod 2 ^ ps + LENGTH('a) div 8 \<le> 2 ^ ps"
    using token_hit [OF ps tv sz0 sz v] True by simp_all
  have "(apfs_get_token ps token ptr off :: fault + ('a word \<times> apfs_map_token)) =
        (case read_mem (tok_eb token) (tok_kaddr token)
                (unat (get_eb_offset_in_page ps (tok_eb token) (ptr + off))) (LENGTH('a) div 8) of
           Inl f \<Rightarrow> Inl f | Inr lebytes \<Rightarrow> Inr (get_unaligned_le lebytes, token))"
    unfolding apfs_get_token_def Let_def
    using True k by (simp add: check_setget_bounds_valid [OF v])
  also have "\<dots> = (case apfs_get ps (tok_eb token) ptr off of
               Inl f \<Rightarrow> Inl f | Inr val \<Rightarrow> Inr (val, token))"
    using f by (simp add: apfs_get_nat [OF ps sz v] k unat_oip unat_member_offset [OF v]
        split: sum.splits)
  finally show ?thesis using tv by blast
next
  case False
  have k: "tok_kaddr token \<noteq> None" using tv by (simp add: token_valid_def page_address_def)
  show ?thesis
    using apfs_get_token_miss [OF k False] token_after_valid [OF ps sz v, of token]
    by (intro exI [of _ "token_after ps (LENGTH('a) div 8) token (ptr + off)"]) simp
qed

lemma apfs_set_token_plain:
  assumes ps: "page_shift_ok ps" and tv: "token_valid ps token"
    and sz0: "0 < LENGTH('a::len) div 8" and sz: "LENGTH('a) div 8 \<le> 8"
    and v: "valid_access (tok_eb token) ptr off (LENGTH('a) div 8)"
  shows "\<exists>token'. apfs_set_token ps token ptr off (val :: 'a word) =
            (case apfs_set ps (tok_eb token) ptr off val of
               Inl f \<Rightarrow> Inl f | Inr eb' \<Rightarrow> Inr (token'\<lparr>tok_eb := eb'\<rparr>)) \<and>
          token_valid ps token'"
proof (cases "tok_offset token \<le> ptr + off \<and>
            ptr + off + of_nat (LENGTH('a) div 8) \<le> tok_offset token + PAGE_SIZE ps")
  case True
  have k: "tok_kaddr token = Some ((unat ptr + unat off) div 2 ^ ps)"
    and f: "(unat ptr + unat off) mod 2 ^ ps + LENGTH('a) div 8 \<le> 2 ^ ps"
    using token_hit [OF ps tv sz0 sz v] True by simp_all
  have "apfs_set_token ps token ptr off val =
        (case write_mem (tok_eb token) (tok_kaddr token)
                (unat (get_eb_offset_in_page ps (tok_eb token) (ptr + off)))
                (put_unaligned_le (LENGTH('a) div 8) val) of
           Inl f \<Rightarrow> Inl f | Inr eb' \<Rightarrow> Inr (token\<lparr>tok_eb := eb'\<rparr>))"
    unfolding apfs_set_token_def Let_def
    using True k by (simp add: check_setget_bounds_valid [OF v])
  also have "\<dots> = (case apfs_set ps (tok_eb token) ptr off val of
               Inl f \<Rightarrow> Inl f | Inr eb' \<Rightarrow> Inr (token\<lparr>tok_eb := eb'\<rparr>))"
    using f by (simp add: apfs_set_nat [OF ps sz v] k unat_oip unat_member_offset [OF v])
  finally show ?thesis using tv by blast
next
  case False
  have k: "tok_kaddr token \<noteq> None" using tv by (simp add: token_valid_def page_address_def)
  show ?thesis
    using apfs_set_token_miss [OF k False] token_after_valid [OF ps sz v, of token]
    by (intro exI [of _ "token_after ps (LENGTH('a) div 8) token (ptr + off)"]) simp
qed

lemma access_ok_len: "eb_len eb' = eb_len eb \<Longrightarrow> access_ok eb' a = access_ok eb a"
  by (simp add: access_ok_def valid_access_def)

lemma get_step:
  assumes ps: "page_shift_ok ps" and wf: "eb_wf ps (tok_eb token)" and tv: "token_valid ps token"
    and sz0: "0 < LENGTH('a::len) div 8" and sz: "LENGTH('a) div 8 \<le> 8"
    and v: "valid_access (tok_eb token) ptr off (LENGTH('a) div 8)"
  shows "\<exists>token'.
           (apfs_get ps (tok_eb token) ptr off :: fault + 'a word) =
             Inr (get_unaligned_le
                    (eb_bytes ps (tok_eb token) (unat ptr + unat off) (LENGTH('a) div 8))) \<and>
           (apfs_get_token ps token ptr off :: fault + ('a word \<times> apfs_map_token)) =
             Inr (get_unaligned_le
                    (eb_bytes ps (tok_eb token) (unat ptr + unat off) (LENGTH('a) div 8)), token') \<and>
           tok_eb token' = tok_eb token \<and> token_valid ps token'"
proof -
  have g: "(apfs_get ps (tok_eb token) ptr off :: fault + 'a word) =
      Inr (get_unaligned_le (eb_bytes ps (tok_eb token) (unat ptr + unat off) (LENGTH('a) div 8)))"
    by (rule apfs_get_linear [OF ps wf sz0 sz v])
  obtain token' where "(apfs_get_token ps token ptr off :: fault + ('a word \<times> apfs_map_token)) =
       (case (apfs_get ps (tok_eb token) ptr off :: fault + 'a word) of
          Inl f \<Rightarrow> Inl f | Inr val \<Rightarrow> Inr (val, token'))"
      "tok_eb token' = tok_eb token" "token_valid ps token'"
    using apfs_get_token_plain [OF ps tv sz0 sz v] by blast
  then show ?thesis using g by simp
qed

lemma set_step:
  assumes ps: "page_shift_ok ps" and wf: "eb_wf ps (tok_eb token)" and tv: "token_valid ps token"
    and sz0: "0 < LENGTH('a::len) div 8" and sz: "LENGTH('a) div 8 \<le> 8"
    and v: "valid_access (tok_eb token) ptr off (LENGTH('a) div 8)"
  shows "\<exists>eb' token'. apfs_set ps (tok_eb token) ptr off (val :: 'a word) = Inr eb' \<and>
           apfs_set_token ps token ptr off val = Inr token' \<and>
           tok_eb token' = eb' \<and> token_valid ps token' \<and>
           stored ps (tok_eb token) eb' (unat ptr + unat off)
             (put_unaligned_le (LENGTH('a) div 8) val)"
proof -
  obtain eb' where s: "apfs_set ps (tok_eb token) ptr off val = Inr eb'"
    and st: "stored ps (tok_eb token) eb' (unat ptr + unat off)
               (put_unaligned_le (LENGTH('a) div 8) val)"
    using apfs_set_linear [OF ps wf sz0 sz v, of val] by blast
  obtain token0 where t: "apfs_set_token ps token ptr off val =
       (case apfs_set ps (tok_eb token) ptr off val of
          Inl f \<Rightarrow> Inl f | Inr eb' \<Rightarrow> Inr (token0\<lparr>tok_eb := eb'\<rparr>))"
      and tv0: "token_valid ps token0"
    using apfs_set_token_plain [OF ps tv sz0 sz v, of val] by blast
  have "apfs_set_token ps token ptr off val = Inr (token0\<lparr>tok_eb := eb'\<rparr>)"
    using t s by simp
  then show ?thesis using s st tv0 by simp
qed

lemma touched_only_refl: "touched_only ps eb eb m n"
  by (simp add: touched_only_def)

lemma stored_touched_only:
  assumes st: "stored ps eb eb' m bs"
  shows "touched_only ps eb eb' m (length bs)"
proof -
  have "\<forall>k < length (eb_pages eb). length (eb_pages eb' ! k) = length (eb_pages eb ! k)"
    using stored_page_length [OF st] by blast
  moreover have "\<forall>k < length (eb_pages eb). k \<noteq> m div 2 ^ ps \<and> k \<noteq> m div 2 ^ ps + 1 \<longrightarrow>
      eb_pages eb' ! k = eb_pages eb ! k"
    using stored_other_pages [OF st] by blast
  moreover have "\<forall>j < length (eb_pages eb) * 2 ^ ps.
      \<not> (m \<le> j \<and> j < m + length bs) \<longrightarrow> eb_byte ps eb' j = eb_byte ps eb j"
  proof (intro allI impI)
    fix j assume j: "j < length (eb_pages eb) * 2 ^ ps" and "\<not> (m \<le> j \<and> j < m + length bs)"
    then have c: "(m \<le> j \<and> j < m + length bs) = False" by blast
    show "eb_byte ps eb' j = eb_byte ps eb j"
      using stored_byte [OF st j] unfolding c by simp
  qed
  ultimately show ?thesis
    unfolding touched_only_def using stored_frame [OF st] by (intro conjI)
qed

lemma access_step:
  assumes ps: "page_shift_ok ps" and wf: "eb_wf ps (tok_eb token)" and tv: "token_valid ps token"
    and ok: "access_ok (tok_eb token) a"
  shows "\<exists>eb' token'.
           plain_access ps (tok_eb token) a =
             Inr (outcome_of a (eb_bytes ps (tok_eb token)
                    (unat (access_ptr a) + unat (access_off a)) (access_size a)), eb') \<and>
           token_access ps token a =
             Inr (outcome_of a (eb_bytes ps (tok_eb token)
                    (unat (access_ptr a) + unat (access_off a)) (access_size a)), token') \<and>
           tok_eb token' = eb' \<and> token_valid ps token' \<and> eb_wf ps eb' \<and>
           touched_only ps (tok_eb token) eb'
             (unat (access_ptr a) + unat (access_off a)) (access_size a)"
proof (cases a)
  case (Get8 ptr off)
  then have v: "valid_access (tok_eb token) ptr off (LENGTH(8) div 8)"
    using ok by (simp add: access_ok_def)
  show ?thesis
    using get_step [OF ps wf tv _ _ v] wf Get8
    by (auto simp add: got_def got_token_def apfs_get_8_def apfs_get_token_8_def
        touched_only_refl)
next
  case (Get16 ptr off)
  then have v: "valid_access (tok_eb token) ptr off (LENGTH(16) div 8)"
    using ok by (simp add: access_ok_def)
  show ?thesis
    using get_step [OF ps wf tv _ _ v] wf Get16
    by (auto simp add: got_def got_token_def apfs_get_16_def apfs_get_token_16_def
        touched_only_refl)
next
  case (Get32 ptr off)
  then have v: "valid_access (tok_eb token) ptr off (LENGTH(32) div 8)"
    using ok by (simp add: access_ok_def)
  show ?thesis
    using get_step [OF ps wf tv _ _ v] wf Get32
    by (auto simp add: got_def got_token_def apfs_get_32_def apfs_get_token_32_def
        touched_only_refl)
next
  case (Get64 ptr off)
  then have v: "valid_access (tok_eb token) ptr off (LENGTH(64) div 8)"
    using ok by (simp add: access_ok_def)
  show ?thesis
    using get_step [OF ps wf tv _ _ v] wf Get64
    by (auto simp add: got_def got_token_def apfs_get_64_def apfs_get_token_64_def
        touched_only_refl)
next
  case (Set8 ptr off val)
  then have v: "valid_access (tok_eb token) ptr off (LENGTH(8) div 8)"
    using ok by (simp add: access_ok_def)
  obtain eb' token' where "apfs_set ps (tok_eb token) ptr off val = Inr eb'"
      "apfs_set_token ps token ptr off val = Inr token'" "tok_eb token' = eb'"
      "token_valid ps token'"
    and st: "stored ps (tok_eb token) eb' (unat ptr + unat off)
               (put_unaligned_le (LENGTH(8) div 8) val)"
    using set_step [OF ps wf tv _ _ v, of val] by auto
  then show ?thesis
    using Set8 stored_wf [OF st wf] stored_touched_only [OF st]
    by (simp add: put_def apfs_set_8_def apfs_set_token_8_def)
next
  case (Set16 ptr off val)
  then have v: "valid_access (tok_eb token) ptr off (LENGTH(16) div 8)"
    using ok by (simp add: access_ok_def)
  obtain eb' token' where "apfs_set ps (tok_eb token) ptr off val = Inr eb'"
      "apfs_set_token ps token ptr off val = Inr token'" "tok_eb token' = eb'"
      "token_valid ps token'"
    and st: "stored ps (tok_eb token) eb' (unat ptr + unat off)
               (put_unaligned_le (LENGTH(16) div 8) val)"
    using set_step [OF ps wf tv _ _ v, of val] by auto
  then show ?thesis
    using Set16 stored_wf [OF st wf] stored_touched_only [OF st]
    by (simp add: put_def apfs_set_16_def apfs_set_token_16_def)
next
  case (Set32 ptr off val)
  then have v: "valid_access (tok_eb token) ptr off (LENGTH(32) div 8)"
    using ok by (simp add: access_ok_def)
  obtain eb' token' where "apfs_set ps (tok_eb token) ptr off val = Inr eb'"
      "apfs_set_token ps token ptr off val = Inr token'" "tok_eb token' = eb'"
      "token_valid ps token'"
    and st: "stored ps (tok_eb token) eb' (unat ptr + unat off)
               (put_unaligned_le (LENGTH(32) div 8) val)"
    using set_step [OF ps wf tv _ _ v, of val] by auto
  then show ?thesis
    using Set32 stored_wf [OF st wf] stored_touched_only [OF st]
    by (simp add: put_def apfs_set_32_def apfs_set_token_32_def)
next
  case (Set64 ptr off val)
  then have v: "valid_access (tok_eb token) ptr off (LENGTH(64) div 8)"
    using ok by (simp add: access_ok_def)
  obtain eb' token' where "apfs_set ps (tok_eb token) ptr off val = Inr eb'"
      "apfs_set_token ps token ptr off val = Inr token'" "tok_eb token' = eb'"
      "token_valid ps token'"
    and st: "stored ps (tok_eb token) eb' (unat ptr + unat off)
               (put_unaligned_le (LENGTH(64) div 8) val)"
    using set_step [OF ps wf tv _ _ v, of val] by auto
  then show ?thesis
    using Set64 stored_wf [OF st wf] stored_touched_only [OF st]
    by (simp add: put_def apfs_set_64_def apfs_set_token_64_def)
qed

lemma accesses_equiv:
  assumes ps: "page_shift_ok ps"
  shows "eb_wf ps (tok_eb token) \<Longrightarrow> token_valid ps token \<Longrightarrow>
         list_all (access_ok (tok_eb token)) accs \<Longrightarrow>
         \<exists>rs eb' token'. plain_accesses ps (tok_eb token) accs = Inr (rs, eb') \<and>
           token_accesses ps token accs = Inr (rs, token') \<and> tok_eb token' = eb'"
proof (induction accs arbitrary: token)
  case Nil
  show ?case by simp
next
  case (Cons a accs)
  have ok: "access_ok (tok_eb token) a" and oks: "list_all (access_ok (tok_eb token)) accs"
    using Cons.prems(3) by simp_all
  obtain r eb1 token1 where p1: "plain_access ps (tok_eb token) a = Inr (r, eb1)"
    and t1: "token_access ps token a = Inr (r, token1)"
    and e1: "tok_eb token1 = eb1" and tv1: "token_valid ps token1"
    and wf1: "eb_wf ps eb1"
    and to: "touched_only ps (tok_eb token) eb1
               (unat (access_ptr a) + unat (access_off a)) (access_size a)"
    using access_step [OF ps Cons.prems(1,2) ok] by blast
  have len1: "eb_len eb1 = eb_len (tok_eb token)" using to by (simp add: touched_only_def)
  have oks1: "list_all (access_ok (tok_eb token1)) accs"
    using oks e1 len1 by (simp add: list_all_iff access_ok_len [of eb1 "tok_eb token"])
  obtain rs eb2 token2 where p2: "plain_accesses ps (tok_eb token1) accs = Inr (rs, eb2)"
    and t2: "token_accesses ps token1 accs = Inr (rs, token2)" and e2: "tok_eb token2 = eb2"
    using Cons.IH [of token1] wf1 tv1 oks1 e1 by blast
  show ?case using p1 t1 p2 t2 e1 e2 by simp
qed

lemma page_shift_ok_3: "page_shift_ok 3"
  by (simp add: page_shift_ok_def)

lemma two_page_eb_wf: "eb_wf 3 two_page_eb"
  by (simp add: eb_wf_def two_page_eb_def)

lemma first_page_token_valid: "token_valid 3 first_page_token"
  by (simp add: token_valid_def first_page_token_def page_address_def get_eb_page_index_def
      PAGE_SIZE_def)

subsection \<open>Round trip\<close>

text \<open>
  Claim C2.  For each of the widths 8, 16, 32 and 64 bits, every block (with its page array
  covering its length), every byte offset \<^verbatim>\<open>ptr + off\<close> with offset plus size within the block
  length (whether or not the value straddles a page boundary) and every value: the store
  succeeds, and the load at the same offset from the block it leaves returns exactly the value
  stored.
\<close>

theorem setget_round_trip:
  assumes "page_shift_ok ps" and "eb_wf ps eb"
  shows "(valid_access eb ptr off 1 \<longrightarrow>
            (\<exists>eb'. apfs_set_8 ps eb ptr off v8 = Inr eb' \<and> apfs_get_8 ps eb' ptr off = Inr v8)) \<and>
         (valid_access eb ptr off 2 \<longrightarrow>
            (\<exists>eb'. apfs_set_16 ps eb ptr off v16 = Inr eb' \<and>
                   apfs_get_16 ps eb' ptr off = Inr v16)) \<and>
         (valid_access eb ptr off 4 \<longrightarrow>
            (\<exists>eb'. apfs_set_32 ps eb ptr off v32 = Inr eb' \<and>
                   apfs_get_32 ps eb' ptr off = Inr v32)) \<and>
         (valid_access eb ptr off 8 \<longrightarrow>
            (\<exists>eb'. apfs_set_64 ps eb ptr off v64 = Inr eb' \<and>
                   apfs_get_64 ps eb' ptr off = Inr v64))"
proof (intro conjI impI)
  assume "valid_access eb ptr off 1"
  then show "\<exists>eb'. apfs_set_8 ps eb ptr off v8 = Inr eb' \<and> apfs_get_8 ps eb' ptr off = Inr v8"
    using apfs_get_set [OF assms, of ptr off v8] by (simp add: apfs_set_8_def apfs_get_8_def)
next
  assume "valid_access eb ptr off 2"
  then show "\<exists>eb'. apfs_set_16 ps eb ptr off v16 = Inr eb' \<and> apfs_get_16 ps eb' ptr off = Inr v16"
    using apfs_get_set [OF assms, of ptr off v16] by (simp add: apfs_set_16_def apfs_get_16_def)
next
  assume "valid_access eb ptr off 4"
  then show "\<exists>eb'. apfs_set_32 ps eb ptr off v32 = Inr eb' \<and> apfs_get_32 ps eb' ptr off = Inr v32"
    using apfs_get_set [OF assms, of ptr off v32] by (simp add: apfs_set_32_def apfs_get_32_def)
next
  assume "valid_access eb ptr off 8"
  then show "\<exists>eb'. apfs_set_64 ps eb ptr off v64 = Inr eb' \<and> apfs_get_64 ps eb' ptr off = Inr v64"
    using apfs_get_set [OF assms, of ptr off v64] by (simp add: apfs_set_64_def apfs_get_64_def)
qed

text \<open>At byte offset 6 of the two-page block every width is in range, and the 32-bit and
  64-bit values straddle the page boundary at byte 8.\<close>

theorem setget_round_trip_witness:
  "page_shift_ok 3 \<and> eb_wf 3 two_page_eb \<and>
   valid_access two_page_eb 4 2 1 \<and> valid_access two_page_eb 4 2 2 \<and>
   valid_access two_page_eb 4 2 4 \<and> valid_access two_page_eb 4 2 8 \<and>
   (\<exists>eb'. apfs_set_8 3 two_page_eb 4 2 0x5A = Inr eb' \<and> apfs_get_8 3 eb' 4 2 = Inr 0x5A) \<and>
   (\<exists>eb'. apfs_set_16 3 two_page_eb 4 2 0xBEEF = Inr eb' \<and> apfs_get_16 3 eb' 4 2 = Inr 0xBEEF) \<and>
   (\<exists>eb'. apfs_set_32 3 two_page_eb 4 2 0x11223344 = Inr eb' \<and>
          apfs_get_32 3 eb' 4 2 = Inr 0x11223344) \<and>
   (\<exists>eb'. apfs_set_64 3 two_page_eb 4 2 0x0102030405060708 = Inr eb' \<and>
          apfs_get_64 3 eb' 4 2 = Inr 0x0102030405060708)"
proof -
  have v: "valid_access two_page_eb 4 2 1" "valid_access two_page_eb 4 2 2"
    "valid_access two_page_eb 4 2 4" "valid_access two_page_eb 4 2 8"
    by (simp_all add: valid_access_def two_page_eb_def)
  show ?thesis
    using setget_round_trip [OF page_shift_ok_3 two_page_eb_wf,
        of 4 2 "0x5A" "0xBEEF" "0x11223344" "0x0102030405060708"] v
      page_shift_ok_3 two_page_eb_wf
    by blast
qed

subsection \<open>Accesses stay inside the block\<close>

text \<open>
  Claim C3.  An access at a valid offset (offset plus size within the block length), through
  any of the sixteen functions, with or without a token:
  \<^item> passes \<^verbatim>\<open>check_setget_bounds\<close>, so neither of its two failure branches is taken;
  \<^item> returns without a fault: every load and store lands inside a page the block has;
  \<^item> returns a value that is a function of the bytes of the range
    \<open>[ptr + off, ptr + off + size)\<close> alone;
  \<^item> leaves every byte outside that range, every page other than the page of the offset and the
    page after it, and the shape of the block as they were.
  The range lies inside \<open>[0, eb_len)\<close> by the precondition.  The token is one that satisfies
  the token invariant and works on the block.
\<close>

theorem setget_in_bounds:
  assumes "page_shift_ok ps" and "eb_wf ps eb"
    and "token_valid ps token" and "tok_eb token = eb"
    and "access_ok eb a"
  shows "check_setget_bounds eb (access_ptr a) (access_off a) (access_size a) \<and>
         (\<exists>eb' token'.
            plain_access ps eb a =
              Inr (outcome_of a (eb_bytes ps eb (unat (access_ptr a) + unat (access_off a))
                     (access_size a)), eb') \<and>
            token_access ps token a =
              Inr (outcome_of a (eb_bytes ps eb (unat (access_ptr a) + unat (access_off a))
                     (access_size a)), token') \<and>
            tok_eb token' = eb' \<and>
            touched_only ps eb eb' (unat (access_ptr a) + unat (access_off a)) (access_size a))"
proof -
  have wf: "eb_wf ps (tok_eb token)" and ok: "access_ok (tok_eb token) a"
    using assms by simp_all
  have "check_setget_bounds eb (access_ptr a) (access_off a) (access_size a)"
    using assms(5) by (simp add: access_ok_def check_setget_bounds_valid)
  then show ?thesis
    using access_step [OF assms(1) wf assms(3) ok] assms(4) by auto
qed

text \<open>A 32-bit store at byte offset 6 of the two-page block: two bytes on the first page, two
  on the second.\<close>

theorem setget_in_bounds_witness:
  "page_shift_ok 3 \<and> eb_wf 3 two_page_eb \<and> token_valid 3 first_page_token \<and>
   tok_eb first_page_token = two_page_eb \<and> access_ok two_page_eb (Set32 4 2 0x11223344) \<and>
   check_setget_bounds two_page_eb 4 2 4 \<and>
   (\<exists>eb' token'.
      plain_access 3 two_page_eb (Set32 4 2 0x11223344) = Inr (Stored, eb') \<and>
      token_access 3 first_page_token (Set32 4 2 0x11223344) = Inr (Stored, token') \<and>
      tok_eb token' = eb' \<and> touched_only 3 two_page_eb eb' 6 4)"
proof -
  have e: "tok_eb first_page_token = two_page_eb" by (simp add: first_page_token_def)
  have ok: "access_ok two_page_eb (Set32 4 2 0x11223344)"
    by (simp add: access_ok_def valid_access_def two_page_eb_def)
  show ?thesis
    using setget_in_bounds [OF page_shift_ok_3 two_page_eb_wf first_page_token_valid e ok]
      page_shift_ok_3 two_page_eb_wf first_page_token_valid e ok
    by simp
qed

subsection \<open>Token equivalence\<close>

text \<open>
  Claim C4.  For any list of accesses at valid offsets, run in the same order, and any token on
  the block that satisfies the token invariant (whichever page it caches): the token-carrying
  functions return the same values as the plain functions and leave the same block.  Both
  runs go through without a fault.
\<close>

theorem token_equivalence:
  assumes "page_shift_ok ps" and "eb_wf ps (tok_eb token)" and "token_valid ps token"
    and "list_all (access_ok (tok_eb token)) accs"
  shows "\<exists>rs eb' token'.
           plain_accesses ps (tok_eb token) accs = Inr (rs, eb') \<and>
           token_accesses ps token accs = Inr (rs, token') \<and>
           tok_eb token' = eb'"
  using accesses_equiv [OF assms] .

text \<open>A store across the page boundary, a load from the second page, a store to the first
  page and a load across the boundary.\<close>

theorem token_equivalence_witness:
  "page_shift_ok 3 \<and> eb_wf 3 (tok_eb first_page_token) \<and> token_valid 3 first_page_token \<and>
   list_all (access_ok (tok_eb first_page_token))
     [Set32 4 2 0x11223344, Get16 0 8, Set8 0 7 0xFF, Get64 6 0] \<and>
   (\<exists>rs eb' token'.
      plain_accesses 3 (tok_eb first_page_token)
        [Set32 4 2 0x11223344, Get16 0 8, Set8 0 7 0xFF, Get64 6 0] = Inr (rs, eb') \<and>
      token_accesses 3 first_page_token
        [Set32 4 2 0x11223344, Get16 0 8, Set8 0 7 0xFF, Get64 6 0] = Inr (rs, token') \<and>
      tok_eb token' = eb')"
proof -
  have wf: "eb_wf 3 (tok_eb first_page_token)"
    using two_page_eb_wf by (simp add: first_page_token_def)
  have oks: "list_all (access_ok (tok_eb first_page_token))
      [Set32 4 2 0x11223344, Get16 0 8, Set8 0 7 0xFF, Get64 6 0]"
    by (simp add: access_ok_def valid_access_def first_page_token_def two_page_eb_def)
  show ?thesis
    using token_equivalence [OF page_shift_ok_3 wf first_page_token_valid oks]
      page_shift_ok_3 wf first_page_token_valid oks
    by simp
qed

section \<open>The tree checker: what the entry points do\<close>

lemma fst_corrupt [simp]: "fst (corrupt d) = - EUCLEAN"
  by (simp add: corrupt_def)

lemma fst_chunk_corrupt [simp]: "fst (chunk_corrupt K leaf chunk fmt) = - EUCLEAN"
  by (simp add: chunk_corrupt_def)

lemma fst_ret_ok [simp]: "fst ret_ok = 0"
  by (simp add: ret_ok_def)

text \<open>
  Claim C1.  Whatever the block and whatever the interface reads from it,
  \<^verbatim>\<open>apfs_check_leaf_full\<close>, \<^verbatim>\<open>apfs_check_leaf_relaxed\<close> and \<^verbatim>\<open>apfs_check_node\<close> return 0 and
  report nothing: \<^verbatim>\<open>check_leaf\<close> and \<^verbatim>\<open>apfs_check_node\<close> begin with \<^verbatim>\<open>return 0\<close>, and no statement
  after it runs.  The two leaf functions return, they do not fault or loop.
\<close>

theorem entry_points_return_0:
  "apfs_check_leaf_full K leaf = returns ret_ok \<and>
   apfs_check_leaf_relaxed K leaf = returns ret_ok \<and>
   apfs_check_node K node = ret_ok"
  by (simp add: apfs_check_leaf_full_def apfs_check_leaf_relaxed_def check_leaf_def
      apfs_check_node_def Let_def)

text \<open>
  Claim C5.  The leaf \<open>misordered_leaf\<close> holds the key (257, 1, 0) at slot 0 and the smaller key
  (256, 1, 0) at slot 1.  The loop of \<^verbatim>\<open>check_leaf\<close> over its two slots, were it reached, would
  return \<open>-EUCLEAN\<close> with ``bad key order'' at slot 1, with or without the checks of the item
  data.  It is not reached: \<^verbatim>\<open>apfs_check_leaf_full\<close> and \<^verbatim>\<open>apfs_check_leaf_relaxed\<close> both return
  0 on this leaf, so leaf validation does not reject a leaf whose keys are out of order.
\<close>

theorem leaf_key_order_not_enforced:
  "apfs_comp_cpu_keys misordered_leaf blank_block
     (apfs_item_key_to_cpu misordered_leaf blank_block 0)
     (apfs_item_key_to_cpu misordered_leaf blank_block 1) > 0 \<and>
   check_leaf_slots misordered_leaf blank_block True 2 0
     \<lparr>key_objectid = 0, key_type = 0, key_offset = 0\<rparr> =
     returns (corrupt (Diag generic_err 1
       ''bad key order, prev (%llu %u %llu) current (%llu %u %llu)'')) \<and>
   check_leaf_slots misordered_leaf blank_block False 2 0
     \<lparr>key_objectid = 0, key_type = 0, key_offset = 0\<rparr> =
     returns (corrupt (Diag generic_err 1
       ''bad key order, prev (%llu %u %llu) current (%llu %u %llu)'')) \<and>
   apfs_check_leaf_full misordered_leaf blank_block = returns ret_ok \<and>
   apfs_check_leaf_relaxed misordered_leaf blank_block = returns ret_ok"
  by (simp add: apfs_check_leaf_full_def apfs_check_leaf_relaxed_def check_leaf_def
      check_leaf_item_def check_inode_item_def check_inode_key_def
      misordered_leaf_def blank_ctree_def blank_block_def lex_comp_keys_def
      has_single_bit_set_def is_power_of_2_def S_IFMT_def S_ISUID_def S_ISGID_def S_ISVTX_def
      S_ISLNK_def S_ISBLK_def S_ISSOCK_def S_ISDIR_def
      returns_def ret_ok_def corrupt_def EUCLEAN_def Let_def
      word_less_nat_alt word_le_nat_alt)

text \<open>
  Claim C6.  The node \<open>misordered_node\<close> has level 1 and three pointers to aligned, non-zero
  block addresses, with the keys (300, 1, 0), (256, 1, 0), (400, 1, 0): the second key is
  smaller than the first.  The loop of \<^verbatim>\<open>apfs_check_node\<close> over the pairs of pointers, were it
  reached, would return \<open>-EUCLEAN\<close> with ``bad key order'' at slot 0.  It is not reached:
  \<^verbatim>\<open>apfs_check_node\<close> returns 0 on this node.
\<close>

theorem node_key_order_not_enforced:
  "apfs_comp_cpu_keys misordered_node blank_block
     (apfs_node_key_to_cpu misordered_node blank_block 1)
     (apfs_node_key_to_cpu misordered_node blank_block 0) < 0 \<and>
   check_node_slots misordered_node blank_block 2 0 =
     corrupt (Diag generic_err 0
       ''bad key order, current (%llu %u %llu) next (%llu %u %llu)'') \<and>
   apfs_check_node misordered_node blank_block = ret_ok"
  by (simp add: apfs_check_node_def misordered_node_def blank_ctree_def blank_block_def
      lex_comp_keys_def IS_ALIGNED_def ret_ok_def corrupt_def EUCLEAN_def Let_def
      word_less_nat_alt word_le_nat_alt)

section \<open>The tree checker: the checks of the items\<close>

text \<open>The functions of this section are the static functions behind \<^verbatim>\<open>check_leaf_item\<close>; the
  theorems are about calls of these functions themselves.\<close>

subsection \<open>Chunk items\<close>

lemma raid1_three_stripes:
  assumes "apfs_chunk_type K leaf chunk AND APFS_BLOCK_GROUP_RAID1 K \<noteq> 0"
  shows "fst (apfs_check_chunk_valid (with_num_stripes K leaf chunk 3) leaf chunk logical)
         = - EUCLEAN"
  using assms by (simp add: apfs_check_chunk_valid_def with_num_stripes_def Let_def)

lemma raid1_two_stripes:
  assumes "apfs_chunk_type K leaf chunk AND APFS_BLOCK_GROUP_RAID1 K \<noteq> 0"
    and "raid1_fields_valid K leaf chunk logical"
  shows "apfs_check_chunk_valid (with_num_stripes K leaf chunk 2) leaf chunk logical = ret_ok"
proof -
  let ?fs = "eb_fs_info leaf"
  let ?type = "apfs_chunk_type K leaf chunk"
  let ?idx = "apfs_bg_flags_to_raid_index K ?type"
  have v: "raid_ncopies K ?idx \<le> 2" "raid_nparity K ?idx \<noteq> 2"
    "IS_ALIGNED logical (ucast (fs_sectorsize ?fs))"
    "apfs_chunk_sector_size K leaf chunk = fs_sectorsize ?fs"
    "apfs_chunk_length K leaf chunk \<noteq> 0"
    "IS_ALIGNED (apfs_chunk_length K leaf chunk) (ucast (fs_sectorsize ?fs))"
    "\<not> check_add_overflow logical (apfs_chunk_length K leaf chunk)"
    "is_power_of_2 (apfs_chunk_stripe_len K leaf chunk)"
    "apfs_chunk_stripe_len K leaf chunk = APFS_STRIPE_LEN K"
    "?type AND NOT (APFS_BLOCK_GROUP_TYPE_MASK K OR APFS_BLOCK_GROUP_PROFILE_MASK K) = 0"
    "has_single_bit_set (?type AND APFS_BLOCK_GROUP_PROFILE_MASK K)"
    "?type AND APFS_BLOCK_GROUP_TYPE_MASK K \<noteq> 0"
    "\<not> (?type AND APFS_BLOCK_GROUP_SYSTEM K \<noteq> 0 \<and>
        ?type AND (APFS_BLOCK_GROUP_METADATA K OR APFS_BLOCK_GROUP_DATA K) \<noteq> 0)"
    "fs_super_incompat_flags ?fs AND APFS_FEATURE_INCOMPAT_MIXED_GROUPS K \<noteq> 0 \<or>
     \<not> (?type AND APFS_BLOCK_GROUP_METADATA K \<noteq> 0 \<and> ?type AND APFS_BLOCK_GROUP_DATA K \<noteq> 0)"
    "?type AND APFS_BLOCK_GROUP_RAID10 K = 0" "?type AND APFS_BLOCK_GROUP_RAID6 K = 0"
    using assms(2) unfolding raid1_fields_valid_def Let_def by blast+
  have nz: "?type AND APFS_BLOCK_GROUP_PROFILE_MASK K \<noteq> 0"
    using v(11) by (simp add: has_single_bit_set_def is_power_of_2_def)
  have p2: "is_power_of_2 (APFS_STRIPE_LEN K)" using v(8,9) by simp
  show ?thesis
    unfolding apfs_check_chunk_valid_def Let_def
    using v(1-7) v(9-16) nz p2 assms(1)
    by (auto simp add: with_num_stripes_def)
qed

text \<open>
  Claim C7.  For a chunk item whose type has the RAID1 profile bit set:
  \<^item> with \<^verbatim>\<open>num_stripes\<close> = 3, \<^verbatim>\<open>apfs_check_chunk_valid\<close> returns \<open>-EUCLEAN\<close>, whatever the other
    fields are;
  \<^item> with \<^verbatim>\<open>num_stripes\<close> = 2, and the other fields valid (\<open>raid1_fields_valid\<close>: every other
    check of the function passes, and the RAID table gives the profile at most 2 copies), it
    returns 0 and reports nothing.
  \<open>with_num_stripes\<close> is the same chunk item with the field \<^verbatim>\<open>num_stripes\<close> replaced.
\<close>

theorem raid1_chunk_stripes:
  assumes "apfs_chunk_type K leaf chunk AND APFS_BLOCK_GROUP_RAID1 K \<noteq> 0"
  shows "fst (apfs_check_chunk_valid (with_num_stripes K leaf chunk 3) leaf chunk logical)
           = - EUCLEAN \<and>
         (raid1_fields_valid K leaf chunk logical \<longrightarrow>
            apfs_check_chunk_valid (with_num_stripes K leaf chunk 2) leaf chunk logical
              = ret_ok)"
  using raid1_three_stripes [OF assms] raid1_two_stripes [OF assms] by blast

text \<open>The chunk \<open>raid1_chunk\<close> at the logical address 16 MiB.\<close>

lemma raid1_chunk_type: "apfs_chunk_type raid1_chunk blank_block 0x200 AND
    APFS_BLOCK_GROUP_RAID1 raid1_chunk \<noteq> 0"
  by (simp add: raid1_chunk_def blank_ctree_def)

lemma raid1_chunk_valid: "raid1_fields_valid raid1_chunk blank_block 0x200 0x1000000"
  by (simp add: raid1_fields_valid_def raid1_chunk_def blank_ctree_def blank_block_def
      IS_ALIGNED_def check_add_overflow_def is_power_of_2_def has_single_bit_set_def Let_def)

theorem raid1_chunk_stripes_witness:
  "apfs_chunk_type raid1_chunk blank_block 0x200 AND APFS_BLOCK_GROUP_RAID1 raid1_chunk \<noteq> 0 \<and>
   raid1_fields_valid raid1_chunk blank_block 0x200 0x1000000 \<and>
   fst (apfs_check_chunk_valid (with_num_stripes raid1_chunk blank_block 0x200 3)
          blank_block 0x200 0x1000000) = - EUCLEAN \<and>
   apfs_check_chunk_valid (with_num_stripes raid1_chunk blank_block 0x200 2)
     blank_block 0x200 0x1000000 = ret_ok"
  using raid1_chunk_stripes [OF raid1_chunk_type, where logical = "0x1000000"] raid1_chunk_type
    raid1_chunk_valid
  by blast

subsection \<open>Extent items\<close>

lemma extent_head_valid_head:
  assumes "extent_head_valid K leaf key slot"
  shows "check_extent_item_head K leaf key slot = Inr (extent_first_inline_ref K leaf key slot)"
  using assms
  unfolding extent_head_valid_def check_extent_item_head_def extent_first_inline_ref_def Let_def
  by (auto simp add: not_less not_le split: if_splits)

lemma unat_ucast_u32_bound: "unat (ucast (w :: u32) :: u64) < 2 ^ 32"
proof -
  have "unat (ucast w :: u64) = take_bit 64 (unat w)"
    by (simp add: unsigned_ucast_eq)
  also have "\<dots> \<le> unat w" by (rule take_bit_nat_less_eq_self)
  also have "unat w < 2 ^ 32" using unsigned_less [of w, where 'a = nat] by simp
  finally show ?thesis .
qed

lemma unat_u32_bound: "unat (w :: u32) < 2 ^ 32"
  using unsigned_less [of w, where 'a = nat] by simp

lemma of_nat_unat_u32: "(of_nat (unat (w :: u32)) :: u64) = ucast w"
  by simp

lemma inline_ref_count_bound: "inline_ref_count K leaf iref < 2 ^ 32"
proof -
  have b: "unat w < 4294967296" for w :: u32
    using unat_u32_bound [of w] by simp
  show ?thesis by (simp add: inline_ref_count_def b)
qed

lemma check_inline_ref_valid:
  assumes "inline_ref_types_distinct K" and "inline_ref_valid K leaf end ptr"
  shows "check_inline_ref K leaf slot end ptr acc =
         Inr (ptr + ucast (apfs_extent_inline_ref_size K
                             (apfs_extent_inline_ref_type K leaf ptr)),
              acc + of_nat (inline_ref_count K leaf ptr))"
proof -
  let ?t = "apfs_extent_inline_ref_type K leaf ptr"
  have fit: "\<not> ptr + sizeof_extent_inline_ref K > end"
    "\<not> ptr + ucast (apfs_extent_inline_ref_size K ?t) > end"
    using assms(2) by (simp_all add: inline_ref_valid_def Let_def not_less)
  have d: "APFS_TREE_BLOCK_REF_KEY K \<noteq> APFS_SHARED_BLOCK_REF_KEY K"
    "APFS_TREE_BLOCK_REF_KEY K \<noteq> APFS_EXTENT_DATA_REF_KEY K"
    "APFS_TREE_BLOCK_REF_KEY K \<noteq> APFS_SHARED_DATA_REF_KEY K"
    "APFS_SHARED_BLOCK_REF_KEY K \<noteq> APFS_EXTENT_DATA_REF_KEY K"
    "APFS_SHARED_BLOCK_REF_KEY K \<noteq> APFS_SHARED_DATA_REF_KEY K"
    "APFS_EXTENT_DATA_REF_KEY K \<noteq> APFS_SHARED_DATA_REF_KEY K"
    using assms(1) by (simp_all add: inline_ref_types_distinct_def)
  consider (tree) "?t = APFS_TREE_BLOCK_REF_KEY K"
    | (shared_block) "?t = APFS_SHARED_BLOCK_REF_KEY K"
    | (data) "?t = APFS_EXTENT_DATA_REF_KEY K"
    | (shared_data) "?t = APFS_SHARED_DATA_REF_KEY K"
    using assms(2) by (auto simp add: inline_ref_valid_def Let_def)
  then show ?thesis
  proof cases
    case tree
    then show ?thesis
      using fit d by (simp add: check_inline_ref_def inline_ref_count_def Let_def)
  next
    case shared_block
    moreover have "IS_ALIGNED (apfs_extent_inline_ref_offset K leaf ptr)
        (ucast (fs_sectorsize (eb_fs_info leaf)))"
      using assms(2) shared_block by (simp add: inline_ref_valid_def Let_def)
    ultimately show ?thesis
      using fit d d [symmetric]
      by (simp add: check_inline_ref_def inline_ref_count_def Let_def)
  next
    case data
    moreover have "IS_ALIGNED (apfs_extent_data_ref_offset K leaf
        (ptr + offsetof_extent_inline_ref_offset K)) (ucast (fs_sectorsize (eb_fs_info leaf)))"
      using assms(2) data by (simp add: inline_ref_valid_def Let_def)
    ultimately show ?thesis
      using fit d d [symmetric]
      by (simp add: check_inline_ref_def inline_ref_count_def Let_def)
  next
    case shared_data
    moreover have "IS_ALIGNED (apfs_extent_inline_ref_offset K leaf ptr)
        (ucast (fs_sectorsize (eb_fs_info leaf)))"
      using assms(2) shared_data by (simp add: inline_ref_valid_def Let_def)
    ultimately show ?thesis
      using fit d d [symmetric]
      by (simp add: check_inline_ref_def inline_ref_count_def Let_def)
  qed
qed

lemma inline_refs_at_loop:
  assumes "inline_ref_types_distinct K"
  shows "inline_refs_at K leaf end ptr irefs \<Longrightarrow>
         check_inline_refs K leaf slot end ptr acc =
           Some (Inr (end, acc + of_nat (sum_list (map (inline_ref_count K leaf) irefs))))"
proof (induction irefs arbitrary: ptr acc)
  case Nil
  then show ?case by (simp add: check_inline_refs.simps)
next
  case (Cons iref irefs)
  let ?nxt = "ptr + ucast (apfs_extent_inline_ref_size K
                             (apfs_extent_inline_ref_type K leaf ptr))"
  let ?c = "of_nat (inline_ref_count K leaf ptr) :: u64"
  from Cons.prems have e: "iref = ptr" and lt: "ptr < end"
    and v: "inline_ref_valid K leaf end ptr"
    and rest: "inline_refs_at K leaf end ?nxt irefs"
    by auto
  have step: "check_inline_ref K leaf slot end ptr acc = Inr (?nxt, acc + ?c)"
    by (rule check_inline_ref_valid [OF assms v])
  have "check_inline_refs K leaf slot end ptr acc =
        check_inline_refs K leaf slot end ?nxt (acc + ?c)"
    using lt step by (subst check_inline_refs.simps) simp
  also have "\<dots> = Some (Inr (end, acc + ?c +
      of_nat (sum_list (map (inline_ref_count K leaf) irefs))))"
    by (rule Cons.IH [OF rest])
  also have "acc + ?c + of_nat (sum_list (map (inline_ref_count K leaf) irefs)) =
      acc + of_nat (sum_list (map (inline_ref_count K leaf) (iref # irefs)))"
    by (simp add: e add.assoc)
  finally show ?case .
qed

lemma inline_ref_count_sum_bound:
  "sum_list (map (inline_ref_count K leaf) irefs) \<le> length irefs * (2 ^ 32 - 1)"
proof (induction irefs)
  case Nil
  show ?case by simp
next
  case (Cons iref irefs)
  have "inline_ref_count K leaf iref \<le> 2 ^ 32 - 1"
    using inline_ref_count_bound [of K leaf iref] by simp
  then show ?case using Cons.IH by simp
qed

text \<open>
  Claim C8.  Take an extent item whose key and header are valid (\<open>extent_head_valid\<close>) and
  whose inline references \<open>irefs\<close> fill the item from the end of the header to the end of the
  item, each of them valid (\<open>inline_refs_at\<close>).  Each reference counts for what its type says
  (\<open>inline_ref_count\<close>): the count field of a data reference, one for a tree block reference.
  Then \<^verbatim>\<open>check_extent_item\<close> returns; it returns \<open>-EUCLEAN\<close> with ``invalid extent refs'' when
  the sum of these counts is greater than the reference count of the header, and 0 when the
  sum is equal or smaller.  The four reference types are different tags, and the list has
  fewer than \<open>2\<^sup>3\<^sup>2\<close> references, so that the 64-bit sum of 32-bit counts is the sum.
\<close>

theorem extent_item_refcount:
  assumes "inline_ref_types_distinct K"
    and "extent_head_valid K leaf key slot"
    and "inline_refs_at K leaf
           (ucast (apfs_item_size_nr K leaf slot) + apfs_item_ptr_offset K leaf slot)
           (extent_first_inline_ref K leaf key slot) irefs"
    and "length irefs < 2 ^ 32"
  shows "check_extent_item K leaf key slot =
         returns (if sum_list (map (inline_ref_count K leaf) irefs)
                       > unat (apfs_extent_refs K leaf (apfs_item_ptr K leaf slot))
                  then corrupt (Diag extent_err slot
                    ''invalid extent refs, have %llu expect >= inline %llu'')
                  else ret_ok)"
proof -
  let ?end = "ucast (apfs_item_size_nr K leaf slot) + apfs_item_ptr_offset K leaf slot"
  let ?total = "apfs_extent_refs K leaf (apfs_item_ptr K leaf slot)"
  let ?sum = "sum_list (map (inline_ref_count K leaf) irefs)"
  have head: "check_extent_item_head K leaf key slot =
              Inr (extent_first_inline_ref K leaf key slot)"
    by (rule extent_head_valid_head [OF assms(2)])
  have loop: "check_inline_refs K leaf slot ?end (extent_first_inline_ref K leaf key slot) 0 =
              Some (Inr (?end, of_nat ?sum))"
    using inline_refs_at_loop [OF assms(1) assms(3), of slot 0] by simp
  have "?sum \<le> length irefs * (2 ^ 32 - 1)"
    by (rule inline_ref_count_sum_bound)
  also have "\<dots> \<le> (2 ^ 32 - 1) * (2 ^ 32 - 1)"
    using assms(4) by (intro mult_right_mono) simp_all
  also have "\<dots> < (2 ^ 64 :: nat)" by simp
  finally have "?sum < 2 ^ 64" .
  then have u: "unat (of_nat ?sum :: u64) = ?sum"
    by (simp add: unat_of_nat)
  have gt: "((of_nat ?sum :: u64) > ?total) = (?sum > unat ?total)"
    by (simp add: word_less_nat_alt u)
  show ?thesis
    unfolding check_extent_item_def Let_def
    by (simp add: head loop gt returns_def)
qed

text \<open>The item \<open>data_extent_item\<close>, whose inline references count 2 + 3: accepted with 5 in
  the header, rejected with 4.\<close>

lemma data_extent_types: "inline_ref_types_distinct (data_extent_item refs)"
  by (simp add: inline_ref_types_distinct_def data_extent_item_def blank_ctree_def)

lemma data_extent_head: "extent_head_valid (data_extent_item refs) blank_block data_extent_key 0"
  by (simp add: extent_head_valid_def data_extent_item_def data_extent_key_def
      blank_ctree_def blank_block_def has_single_bit_set_def is_power_of_2_def IS_ALIGNED_def
      Let_def word_less_nat_alt word_le_nat_alt)

lemma data_extent_refs:
  "inline_refs_at (data_extent_item refs) blank_block
     (ucast (apfs_item_size_nr (data_extent_item refs) blank_block 0) +
      apfs_item_ptr_offset (data_extent_item refs) blank_block 0)
     (extent_first_inline_ref (data_extent_item refs) blank_block data_extent_key 0)
     [1024, 1037]"
  by (simp add: inline_ref_valid_def extent_first_inline_ref_def data_extent_item_def
      data_extent_key_def blank_ctree_def blank_block_def IS_ALIGNED_def Let_def
      word_less_nat_alt word_le_nat_alt)

lemma data_extent_sum:
  "sum_list (map (inline_ref_count (data_extent_item refs) blank_block) [1024, 1037]) = 5"
  by (simp add: inline_ref_count_def data_extent_item_def blank_ctree_def)

theorem extent_item_refcount_witness:
  "inline_ref_types_distinct (data_extent_item 5) \<and>
   extent_head_valid (data_extent_item 5) blank_block data_extent_key 0 \<and>
   inline_refs_at (data_extent_item 5) blank_block
     (ucast (apfs_item_size_nr (data_extent_item 5) blank_block 0) +
      apfs_item_ptr_offset (data_extent_item 5) blank_block 0)
     (extent_first_inline_ref (data_extent_item 5) blank_block data_extent_key 0)
     [1024, 1037] \<and>
   length [1024 :: ulong, 1037] < 2 ^ 32 \<and>
   sum_list (map (inline_ref_count (data_extent_item 5) blank_block) [1024, 1037]) = 5 \<and>
   check_extent_item (data_extent_item 5) blank_block data_extent_key 0 = returns ret_ok \<and>
   check_extent_item (data_extent_item 4) blank_block data_extent_key 0 =
     returns (corrupt (Diag extent_err 0
       ''invalid extent refs, have %llu expect >= inline %llu''))"
proof -
  have l: "length [1024 :: ulong, 1037] < 2 ^ 32" by simp
  have r5: "apfs_extent_refs (data_extent_item 5) blank_block p = 5" for p
    by (simp add: data_extent_item_def)
  have r4: "apfs_extent_refs (data_extent_item 4) blank_block p = 4" for p
    by (simp add: data_extent_item_def)
  have a: "check_extent_item (data_extent_item 5) blank_block data_extent_key 0 =
      returns ret_ok"
    using extent_item_refcount [OF data_extent_types data_extent_head data_extent_refs l, of 5]
    by (simp only: data_extent_sum r5) simp
  have b: "check_extent_item (data_extent_item 4) blank_block data_extent_key 0 =
      returns (corrupt (Diag extent_err 0
        ''invalid extent refs, have %llu expect >= inline %llu''))"
    using extent_item_refcount [OF data_extent_types data_extent_head data_extent_refs l, of 4]
    by (simp only: data_extent_sum r4) simp
  show ?thesis
    by (simp only: a b l data_extent_types data_extent_head data_extent_refs data_extent_sum
        simp_thms)
qed

subsection \<open>File extent items\<close>

lemma check_prev_ino_same_objectid:
  assumes "key_type key = APFS_EXTENT_DATA_KEY K"
    and "key_objectid prev_key = key_objectid key"
  shows "check_prev_ino K leaf key slot prev_key = Inr (True, [])"
  using assms by (simp add: check_prev_ino_def)

text \<open>
  Claim C9.  Take two consecutive file extent items of one inode, at \<open>slot - 1\<close> and \<open>slot\<close>,
  where the end of the first (\<^verbatim>\<open>file_extent_end\<close>: key offset plus length, the length of an
  inline extent rounded up to the sector size) is greater than the key offset of the second.
  When the second item is a regular or preallocated extent that passes the checks made on the
  item itself (\<open>regular_extent_valid\<close>), \<^verbatim>\<open>check_extent_data_item\<close> on the second item returns
  \<open>-EUCLEAN\<close>, and the report names the first slot, \<open>slot - 1\<close>.
\<close>

theorem overlap_reported_at_first_slot:
  assumes "key_type key = APFS_EXTENT_DATA_KEY K"
    and "0 < slot"
    and "key_objectid prev_key = key_objectid key"
    and "key_type prev_key = APFS_EXTENT_DATA_KEY K"
    and "file_extent_end K leaf prev_key (apfs_item_ptr K leaf (slot - 1)) > key_offset key"
    and "regular_extent_valid K leaf key slot"
  shows "check_extent_data_item K leaf key slot prev_key =
         Inr (corrupt (Diag file_extent_err (slot - 1)
   ''file extent end range (%llu) goes beyond start offset (%llu) of the next file extent''))"
proof -
  let ?ss = "ucast (fs_sectorsize (eb_fs_info leaf)) :: u64"
  let ?fi = "apfs_item_ptr K leaf slot"
  let ?sz = "ucast (apfs_item_size_nr K leaf slot) :: ulong"
  have v: "IS_ALIGNED (key_offset key) ?ss"
    "\<not> ?sz < APFS_FILE_EXTENT_INLINE_DATA_START K"
    "apfs_file_extent_type K leaf ?fi < APFS_NR_FILE_EXTENT_TYPES K"
    "apfs_file_extent_compression K leaf ?fi < APFS_NR_COMPRESS_TYPES K"
    "apfs_file_extent_encryption K leaf ?fi = 0"
    "apfs_file_extent_type K leaf ?fi \<noteq> APFS_FILE_EXTENT_INLINE K"
    "?sz = sizeof_file_extent_item K"
    "IS_ALIGNED (apfs_file_extent_ram_bytes K leaf ?fi) ?ss"
    "IS_ALIGNED (apfs_file_extent_disk_bytenr K leaf ?fi) ?ss"
    "IS_ALIGNED (apfs_file_extent_disk_num_bytes K leaf ?fi) ?ss"
    "IS_ALIGNED (apfs_file_extent_offset K leaf ?fi) ?ss"
    "IS_ALIGNED (apfs_file_extent_num_bytes K leaf ?fi) ?ss"
    "\<not> check_add_overflow (apfs_file_extent_num_bytes K leaf ?fi) (key_offset key)"
    using assms(6) unfolding regular_extent_valid_def Let_def by blast+
  have t: "\<not> apfs_file_extent_type K leaf ?fi \<ge> APFS_NR_FILE_EXTENT_TYPES K"
    "\<not> apfs_file_extent_compression K leaf ?fi \<ge> APFS_NR_COMPRESS_TYPES K"
    using v(3,4) by simp_all
  show ?thesis
    unfolding check_extent_data_item_def Let_def
      check_prev_ino_same_objectid [OF assms(1,3)]
    using v(1,2) t v(5-13) assms(2-5)
    by simp
qed

text \<open>The leaf \<open>overlap_regular_item\<close>: the extent at slot 0 covers the file offsets 0 to 8192,
  the one at slot 1 starts at 4096.\<close>

theorem overlap_reported_at_first_slot_witness:
  "key_type extent_key_4096 = APFS_EXTENT_DATA_KEY overlap_regular_item \<and> (0::int) < 1 \<and>
   key_objectid extent_key_0 = key_objectid extent_key_4096 \<and>
   key_type extent_key_0 = APFS_EXTENT_DATA_KEY overlap_regular_item \<and>
   file_extent_end overlap_regular_item blank_block extent_key_0
     (apfs_item_ptr overlap_regular_item blank_block (1 - 1)) > key_offset extent_key_4096 \<and>
   regular_extent_valid overlap_regular_item blank_block extent_key_4096 1 \<and>
   check_extent_data_item overlap_regular_item blank_block extent_key_4096 1 extent_key_0 =
     Inr (corrupt (Diag file_extent_err (1 - 1)
   ''file extent end range (%llu) goes beyond start offset (%llu) of the next file extent''))"
proof -
  have h1: "key_type extent_key_4096 = APFS_EXTENT_DATA_KEY overlap_regular_item"
    by (simp add: extent_key_4096_def overlap_regular_item_def overlap_short_item_def
        blank_ctree_def)
  have h2: "(0::int) < 1" by simp
  have h3: "key_objectid extent_key_0 = key_objectid extent_key_4096"
    by (simp add: extent_key_0_def extent_key_4096_def)
  have h4: "key_type extent_key_0 = APFS_EXTENT_DATA_KEY overlap_regular_item"
    by (simp add: extent_key_0_def overlap_regular_item_def overlap_short_item_def
        blank_ctree_def)
  have h5: "file_extent_end overlap_regular_item blank_block extent_key_0
     (apfs_item_ptr overlap_regular_item blank_block (1 - 1)) > key_offset extent_key_4096"
    by (simp add: file_extent_end_def extent_key_0_def extent_key_4096_def
        overlap_regular_item_def overlap_short_item_def blank_ctree_def)
  have h6: "regular_extent_valid overlap_regular_item blank_block extent_key_4096 1"
    by (simp add: regular_extent_valid_def extent_key_4096_def overlap_regular_item_def
        overlap_short_item_def blank_ctree_def blank_block_def IS_ALIGNED_def
        check_add_overflow_def Let_def)
  show ?thesis
    using overlap_reported_at_first_slot [OF h1 h2 h3 h4 h5 h6] h1 h2 h3 h4 h5 h6
    by blast
qed

text \<open>Without the condition on the second item the overlap is not what is reported.  In
  \<open>overlap_short_item\<close> the keys are (256, 108, 0) and (256, 108, 4096), and the first extent
  ends at 8192, after the start 4096 of the second; but the second item is one byte short: the
  function returns \<open>-EUCLEAN\<close> for the item size, and the report names slot 1, the second.\<close>

theorem overlap_counterexample:
  "key_objectid extent_key_0 = key_objectid extent_key_4096 \<and>
   file_extent_end overlap_short_item blank_block extent_key_0
     (apfs_item_ptr overlap_short_item blank_block 0) = 8192 \<and>
   key_offset extent_key_4096 = 4096 \<and>
   check_extent_data_item overlap_short_item blank_block extent_key_4096 1 extent_key_0 =
     Inr (corrupt (Diag file_extent_err 1
       ''invalid item size for reg/prealloc file extent, have %u expect %zu''))"
  by (simp add: check_extent_data_item_def check_prev_ino_def file_extent_end_def
      extent_key_0_def extent_key_4096_def overlap_short_item_def
      blank_ctree_def blank_block_def IS_ALIGNED_def ALIGN_def check_add_overflow_def Let_def
      word_le_nat_alt)

subsection \<open>Items of other types\<close>

text \<open>
  Claim C10.  For an item whose key type is none of the types the \<^verbatim>\<open>switch\<close> of
  \<^verbatim>\<open>check_leaf_item\<close> has a case for (\<open>handled_key_types\<close>), \<^verbatim>\<open>check_leaf_item\<close> returns 0 and
  reports nothing, whatever the item holds.
\<close>

theorem unhandled_type_accepted:
  assumes "key_type key \<notin> handled_key_types K"
  shows "check_leaf_item K leaf key slot prev_key = returns ret_ok"
  using assms by (simp add: check_leaf_item_def handled_key_types_def)

text \<open>An item with the key type 250.\<close>

theorem unhandled_type_accepted_witness:
  "key_type \<lparr>key_objectid = 256, key_type = 250, key_offset = 0\<rparr>
     \<notin> handled_key_types blank_ctree \<and>
   check_leaf_item blank_ctree blank_block
     \<lparr>key_objectid = 256, key_type = 250, key_offset = 0\<rparr> 0
     \<lparr>key_objectid = 0, key_type = 0, key_offset = 0\<rparr> = returns ret_ok"
proof -
  have h: "key_type \<lparr>key_objectid = 256, key_type = 250, key_offset = 0\<rparr>
             \<notin> handled_key_types blank_ctree"
    by (simp add: handled_key_types_def blank_ctree_def)
  show ?thesis using unhandled_type_accepted [OF h] h by simp
qed

end
